theory Spec2Isabelle
  imports Main "HOL-Library.Word"
begin

section \<open>Common data\<close>

text \<open>
  A JavaScript value that is thrown: an \<open>Error\<close> object carrying its message, or any
  other thrown value (\<open>error instanceof Error ? error.message : 'Unknown error'\<close>
  distinguishes the two).
\<close>

datatype thrown = ErrorObj string | NonError

type_synonym byte = "8 word"

type_synonym buffer = "byte list"

section \<open>TokenManager.validateWebhookSignature (TokenManager.ts)\<close>

text \<open>
  The HMAC itself and the UTF-8 encoding done by \<open>Buffer.from(string)\<close> belong to the
  Node runtime; they are parameters of the model. \<open>createHmac\<close> may throw (an
  algorithm the runtime does not know), so its result is a sum.
\<close>

datatype hash_alg = Sha1 | Sha256

record node_hmac =
  hmac_hex :: "hash_alg \<Rightarrow> string \<Rightarrow> string \<Rightarrow> thrown + string"
  buffer_from :: "string \<Rightarrow> buffer"

text \<open>\<open>crypto.timingSafeEqual\<close> raises a RangeError when the byte lengths differ.\<close>

definition timingSafeEqual :: "buffer \<Rightarrow> buffer \<Rightarrow> thrown + bool" where
  "timingSafeEqual a b =
     (if length a \<noteq> length b
      then Inl (ErrorObj ''Input buffers must have the same byte length'')
      else Inr (a = b))"

text \<open>The body of the \<open>try\<close> block.\<close>

definition validateWebhookSignature_try ::
  "node_hmac \<Rightarrow> string \<Rightarrow> string \<Rightarrow> string \<Rightarrow> hash_alg \<Rightarrow> thrown + bool" where
  "validateWebhookSignature_try L payload signature secret algorithm =
     (case hmac_hex L algorithm secret payload of
        Inl e \<Rightarrow> Inl e
      | Inr expectedSignature \<Rightarrow>
          timingSafeEqual (buffer_from L signature) (buffer_from L expectedSignature))"

text \<open>The whole function: the \<open>catch\<close> clause logs and returns \<open>false\<close>.\<close>

definition validateWebhookSignature ::
  "node_hmac \<Rightarrow> string \<Rightarrow> string \<Rightarrow> string \<Rightarrow> hash_alg \<Rightarrow> thrown + bool" where
  "validateWebhookSignature L payload signature secret algorithm =
     (case validateWebhookSignature_try L payload signature secret algorithm of
        Inl e \<Rightarrow> Inr False
      | Inr b \<Rightarrow> Inr b)"

text \<open>A toy runtime for concrete evaluation: the digest is a fixed four-character string.\<close>

definition toy_hmac :: node_hmac where
  "toy_hmac = \<lparr> hmac_hex = (\<lambda>alg secret payload. Inr ''beef''),
                buffer_from = map (\<lambda>c. of_nat (of_char c)) \<rparr>"

section \<open>Advisory locks (lib/schedulerLock)\<close>

text \<open>
  The answer of the store to a raw query: the query fails, or it returns rows. The
  column \<open>ok\<close> of a row is a boolean or null.
\<close>

datatype query_result = QueryError | Rows "bool option list"

text \<open>
  What a call does, in order: the acquire query, the call of \<open>fn\<close>, the unlock query.
  The store's answers to the two queries are the environment.
\<close>

datatype lock_event = EvAcquire | EvFn | EvRelease

record lock_env =
  acquire_answer :: query_result
  unlock_answer :: query_result

text \<open>\<open>!!rows?.[0]?.ok\<close>, and \<open>false\<close> when the query throws.\<close>

definition acquired_of :: "query_result \<Rightarrow> bool" where
  "acquired_of q =
     (case q of
        QueryError \<Rightarrow> False
      | Rows rs \<Rightarrow> (case rs of [] \<Rightarrow> False | r # _ \<Rightarrow> r = Some True))"

definition tryAcquireLock :: "lock_env \<Rightarrow> lock_event list \<Rightarrow> bool \<times> lock_event list" where
  "tryAcquireLock env events = (acquired_of (acquire_answer env), events @ [EvAcquire])"

text \<open>
  \<open>releaseLock\<close> sends the unlock query and returns normally whether the query fails
  or not.
\<close>

definition releaseLock :: "lock_env \<Rightarrow> lock_event list \<Rightarrow> lock_event list" where
  "releaseLock env events =
     (case unlock_answer env of
        QueryError \<Rightarrow> events @ [EvRelease]
      | Rows rs \<Rightarrow> events @ [EvRelease])"

text \<open>
  \<open>withAdvisoryLock\<close>: the outcome of \<open>fn\<close> is a value or a thrown exception; the
  result is \<open>None\<close> for \<open>undefined\<close>. The \<open>finally\<close> clause runs on both paths.
\<close>

definition withAdvisoryLock ::
  "lock_env \<Rightarrow> (thrown + 'a) \<Rightarrow> lock_event list \<Rightarrow> (thrown + 'a option) \<times> lock_event list" where
  "withAdvisoryLock env fn events =
     (case tryAcquireLock env events of
        (acquired, events1) \<Rightarrow>
          if \<not> acquired then (Inr None, events1)
          else
            (let events2 = events1 @ [EvFn];
                 events3 = releaseLock env events2
             in (case fn of
                   Inl e \<Rightarrow> (Inl e, events3)
                 | Inr v \<Rightarrow> (Inr (Some v), events3))))"

section \<open>The Integration table and the status route (routes/integrations)\<close>

text \<open>
  An Integration row. Times are milliseconds since the epoch; \<open>null\<close> is \<open>None\<close>;
  the metadata object is a finite map from keys to values. The columns
  \<open>syncFrequency\<close> and \<open>webhookUrl\<close> are never written by the code below and are left
  out.
\<close>

type_synonym json_object = "string \<rightharpoonup> string"

record integration =
  id_integration :: string
  userId :: string
  provider :: string
  accountId :: string
  accessToken :: string
  refreshToken :: "string option"
  expiresAt :: "nat option"
  scopes :: "string list"
  metadata :: json_object
  status :: string
  lastSyncAt :: "nat option"
  createdAt :: nat
  updatedAt :: nat
  deletedAt :: "nat option"

text \<open>
  \<open>findFirst\<close> with \<open>orderBy: { updatedAt: 'desc' }\<close>: a row with the greatest
  \<open>updatedAt\<close> among the rows that match (the earliest such row of the table on a tie).
\<close>

definition latest_updated :: "integration list \<Rightarrow> integration option" where
  "latest_updated rows =
     (case rows of
        [] \<Rightarrow> None
      | r # rs \<Rightarrow> Some (foldl (\<lambda>best x. if updatedAt best < updatedAt x then x else best) r rs))"

record status_info =
  connected :: bool
  id_info :: string
  provider_info :: string
  status_info :: string
  lastSyncAt_info :: "nat option"
  metadata_info :: json_object
  accountId_info :: string
  deletedAt_info :: "nat option"

datatype response_body =
    NotConnected bool string
  | Info status_info
  | ErrorBody string
  | PlainText string
  | NotFoundPage

record http_reply =
  http_code :: nat
  body :: response_body

text \<open>
  What the \<open>authenticate\<close> middleware makes of a request: there is no bearer header,
  the verification of the token or the lookup of the user throws, or the user is
  found and \<open>req.user.id\<close> is set.
\<close>

datatype auth_outcome = NoBearerHeader | AuthThrows | AuthUser string

text \<open>
  \<open>GET /:provider/status\<close> as the router serves it. The arguments are: whether the
  rate limiter of the router (\<open>router.use(integrationRateLimit)\<close>, which comes first)
  finds the caller over its limit; the outcome of \<open>authenticate\<close>; the store's answer
  to the \<open>findFirst\<close> query, an exception or the contents of the Integration table;
  and the decoded path segment in the place of \<open>:provider\<close>. An empty segment does not
  match the route, nor any other route of the router, and the request reaches the
  application's \<open>notFound\<close> handler. \<open>res.json\<close> answers with code 200; the \<open>catch\<close>
  clause of the handler answers with code 500.
\<close>

definition status_route ::
  "bool \<Rightarrow> auth_outcome \<Rightarrow> (thrown + integration list) \<Rightarrow> string \<Rightarrow> http_reply" where
  "status_route limited auth store prov =
     (if limited
      then \<lparr> http_code = 429, body = PlainText ''Too many integration requests from this IP'' \<rparr>
      else if prov = [] then \<lparr> http_code = 404, body = NotFoundPage \<rparr>
      else
        (case auth of
           NoBearerHeader \<Rightarrow>
             \<lparr> http_code = 401, body = ErrorBody ''Missing or invalid authorization header'' \<rparr>
         | AuthThrows \<Rightarrow> \<lparr> http_code = 401, body = ErrorBody ''Authentication failed'' \<rparr>
         | AuthUser uid \<Rightarrow>
             (case store of
                Inl e \<Rightarrow>
                  \<lparr> http_code = 500, body = ErrorBody ''Failed to get integration status'' \<rparr>
              | Inr tbl \<Rightarrow>
                  (case latest_updated
                          (filter (\<lambda>r. userId r = uid \<and> provider r = prov \<and> deletedAt r = None)
                             tbl) of
                     None \<Rightarrow> \<lparr> http_code = 200, body = NotConnected False prov \<rparr>
                   | Some i \<Rightarrow>
                       \<lparr> http_code = 200,
                         body = Info \<lparr> connected = (status i = ''connected'' \<and> deletedAt i = None),
                                       id_info = id_integration i,
                                       provider_info = provider i,
                                       status_info = status i,
                                       lastSyncAt_info = lastSyncAt i,
                                       metadata_info = metadata i,
                                       accountId_info = accountId i,
                                       deletedAt_info = deletedAt i \<rparr> \<rparr>))))"

text \<open>A row for concrete evaluation.\<close>

definition sample_row :: integration where
  "sample_row =
     \<lparr> id_integration = ''int_1'', userId = ''u1'', provider = ''shopify'',
       accountId = ''test-store.myshopify.com'', accessToken = ''00:00:00'',
       refreshToken = None, expiresAt = None, scopes = [], metadata = Map.empty,
       status = ''disconnected'', lastSyncAt = None, createdAt = 5, updatedAt = 9,
       deletedAt = Some 9 \<rparr>"

section \<open>Sync results, sync logs and the watermark (BaseConnector)\<close>

datatype sync_status = StSuccess | StError | StPartial

record SyncResult =
  dataType :: string
  recordsCount :: nat
  status_r :: sync_status
  errorMessage :: "string option"

text \<open>
  A SyncLog row: \<open>logSync\<close> copies the fields of the result, adds the id of the
  integration and stamps \<open>completedAt\<close>. It is the only writer of the table.
\<close>

record sync_log =
  integrationId :: string
  logged :: SyncResult
  completedAt :: nat

text \<open>
  \<open>getLastSyncTime\<close>: \<open>findFirst\<close> over the rows of this integration and data type
  with status \<open>success\<close>, ordered by \<open>completedAt\<close> descending; \<open>null\<close> when there is
  none.
\<close>

definition getLastSyncTime :: "sync_log list \<Rightarrow> string \<Rightarrow> string \<Rightarrow> nat option" where
  "getLastSyncTime logs iid dt =
     (case filter (\<lambda>l. integrationId l = iid \<and> dataType (logged l) = dt \<and>
                        status_r (logged l) = StSuccess) logs of
        [] \<Rightarrow> None
      | l # ls \<Rightarrow> Some (foldl max (completedAt l) (map completedAt ls)))"

text \<open>A string that may be absent, as JavaScript tests it: the empty string is falsy.\<close>

definition truthy :: "string option \<Rightarrow> string option" where
  "truthy x = (case x of None \<Rightarrow> None | Some s \<Rightarrow> if s = [] then None else Some s)"

definition error_message :: "thrown \<Rightarrow> string" where
  "error_message e = (case e of ErrorObj m \<Rightarrow> m | NonError \<Rightarrow> ''Unknown error'')"

section \<open>Shopify: paging through orders and products (ShopifyConnector)\<close>

text \<open>
  The variables of one GraphQL request, and the provider's answer to it: a failure (of
  the request or of reading the response), or a page with its number of edges,
  \<open>pageInfo.hasNextPage\<close> and \<open>pageInfo.endCursor\<close>. The provider is a function of the
  number of the request and of its variables, so it may answer anything at any time.
\<close>

record gql_variables =
  first_v :: nat
  after_v :: "string option"
  updatedAtMin :: "nat option"

datatype gql_answer = GqlFailure thrown | GqlPage nat bool "string option"

type_synonym gql_provider = "nat \<Rightarrow> gql_variables \<Rightarrow> gql_answer"

definition orders_variables :: "string option \<Rightarrow> nat option \<Rightarrow> gql_variables" where
  "orders_variables cursor lastSync =
     \<lparr> first_v = 50, after_v = truthy cursor, updatedAtMin = lastSync \<rparr>"

definition products_variables :: "string option \<Rightarrow> gql_variables" where
  "products_variables cursor =
     \<lparr> first_v = 50, after_v = truthy cursor, updatedAtMin = None \<rparr>"

text \<open>
  The \<open>while (hasNextPage)\<close> loop of \<open>syncOrders\<close>, entered with \<open>hasNextPage = true\<close>.
  \<open>i\<close> counts the requests made so far. The result is what the \<open>try\<close> block has
  reached when the loop is left (the total, or the exception) and the number of
  requests made; \<open>None\<close> when the loop never ends.
\<close>

partial_function (option) orders_loop ::
  "gql_provider \<Rightarrow> nat option \<Rightarrow> nat \<Rightarrow> string option \<Rightarrow> nat \<Rightarrow> ((thrown + nat) \<times> nat) option" where
  "orders_loop prov lastSync i cursor totalOrders =
     (case prov i (orders_variables cursor lastSync) of
        GqlFailure e \<Rightarrow> Some (Inl e, Suc i)
      | GqlPage n hasNextPage endCursor \<Rightarrow>
          if hasNextPage
          then orders_loop prov lastSync (Suc i) endCursor (totalOrders + n)
          else Some (Inr (totalOrders + n), Suc i))"

partial_function (option) products_loop ::
  "gql_provider \<Rightarrow> nat \<Rightarrow> string option \<Rightarrow> nat \<Rightarrow> ((thrown + nat) \<times> nat) option" where
  "products_loop prov i cursor totalProducts =
     (case prov i (products_variables cursor) of
        GqlFailure e \<Rightarrow> Some (Inl e, Suc i)
      | GqlPage n hasNextPage endCursor \<Rightarrow>
          if hasNextPage
          then products_loop prov (Suc i) endCursor (totalProducts + n)
          else Some (Inr (totalProducts + n), Suc i))"

section \<open>Klaviyo: paging through campaigns and events (KlaviyoConnector)\<close>

text \<open>
  The query parameters of a Klaviyo request, the filter kept structured: campaigns are
  filtered by a fixed creation date, events by the watermark.
\<close>

datatype kl_filter = CreatedAfter string | DatetimeAfter nat

record kl_params =
  page_size :: nat
  sort_p :: "string option"
  filter_p :: "kl_filter option"

datatype kl_answer = KlFailure thrown | KlPage nat "string option"

text \<open>
  The provider answers the request number \<open>i\<close> for a URL, a bearer token and the
  parameters. \<open>getAccessToken\<close> is called anew before every request and may throw.
\<close>

record kl_world =
  kl_get :: "nat \<Rightarrow> string \<Rightarrow> string \<Rightarrow> kl_params \<Rightarrow> kl_answer"
  kl_token :: "nat \<Rightarrow> thrown + string"

definition campaigns_params :: kl_params where
  "campaigns_params =
     \<lparr> page_size = 50, sort_p = None,
       filter_p = Some (CreatedAfter ''2023-01-01T00:00:00Z'') \<rparr>"

definition events_params :: "nat option \<Rightarrow> kl_params" where
  "events_params lastSync =
     \<lparr> page_size = 100, sort_p = Some ''-datetime'',
       filter_p = (case lastSync of None \<Rightarrow> None | Some t \<Rightarrow> Some (DatetimeAfter t)) \<rparr>"

text \<open>
  The \<open>while (nextUrl)\<close> loop of \<open>syncCampaigns\<close>, \<open>syncFlows\<close> and \<open>syncEvents\<close>; they
  differ in the first URL and in the parameters. \<open>links.next || null\<close> is \<open>truthy\<close>.
\<close>

partial_function (option) klaviyo_loop ::
  "kl_world \<Rightarrow> kl_params \<Rightarrow> nat \<Rightarrow> string option \<Rightarrow> nat \<Rightarrow> ((thrown + nat) \<times> nat) option" where
  "klaviyo_loop W params i nextUrl totalCampaigns =
     (case truthy nextUrl of
        None \<Rightarrow> Some (Inr totalCampaigns, i)
      | Some url \<Rightarrow>
          (case kl_token W i of
             Inl e \<Rightarrow> Some (Inl e, i)
           | Inr token \<Rightarrow>
               (case kl_get W i url token params of
                  KlFailure e \<Rightarrow> Some (Inl e, Suc i)
                | KlPage n next \<Rightarrow> klaviyo_loop W params (Suc i) (truthy next) (totalCampaigns + n))))"

definition baseUrl :: string where
  "baseUrl = ''https://a.klaviyo.com/api''"

section \<open>The data-type routines\<close>

text \<open>
  The store during a sync: the row of the integration and the SyncLog table. Whether the
  store accepts a write is the environment's: \<open>log_fail\<close> for the creation of a SyncLog
  row, \<open>status_fail\<close> for the update of the integration's status.
\<close>

record sync_env =
  now :: nat
  log_fail :: "SyncResult \<Rightarrow> thrown option"
  status_fail :: "string \<Rightarrow> thrown option"

record sync_state =
  row :: integration
  syncLogs :: "sync_log list"

definition logSync :: "sync_env \<Rightarrow> SyncResult \<Rightarrow> sync_state \<Rightarrow> (thrown + unit) \<times> sync_state" where
  "logSync env r s =
     (case log_fail env r of
        Some e \<Rightarrow> (Inl e, s)
      | None \<Rightarrow>
          (Inr (),
           s\<lparr> syncLogs := syncLogs s @
                 [\<lparr> integrationId = id_integration (row s), logged = r,
                    completedAt = now env \<rparr>] \<rparr>))"

text \<open>
  Every routine with a \<open>try\<close>/\<open>catch\<close> has the same frame around its fetching part:
  inside \<open>try\<close>, the success result is built and logged; any exception, also one of that
  \<open>logSync\<close>, reaches \<open>catch\<close>, which builds the error result and logs it outside any
  handler. \<open>fetched\<close> is what the fetching part has reached.
\<close>

definition routine_frame ::
  "sync_env \<Rightarrow> string \<Rightarrow> (thrown + nat) \<Rightarrow> sync_state \<Rightarrow> (thrown + SyncResult) \<times> sync_state" where
  "routine_frame env dt fetched s =
     (let tried =
        (case fetched of
           Inl e \<Rightarrow> (Inl e, s)
         | Inr n \<Rightarrow>
             (let result = \<lparr> dataType = dt, recordsCount = n, status_r = StSuccess,
                              errorMessage = None \<rparr>
              in (case logSync env result s of
                    (Inl e, s1) \<Rightarrow> (Inl e, s1)
                  | (Inr u, s1) \<Rightarrow> (Inr result, s1))))
      in (case tried of
            (Inr result, s1) \<Rightarrow> (Inr result, s1)
          | (Inl e, s1) \<Rightarrow>
              (let result = \<lparr> dataType = dt, recordsCount = 0, status_r = StError,
                               errorMessage = Some (error_message e) \<rparr>
               in (case logSync env result s1 of
                     (Inl e', s2) \<Rightarrow> (Inl e', s2)
                   | (Inr u, s2) \<Rightarrow> (Inr result, s2)))))"

text \<open>
  The routines whose loops are modelled above. The result is \<open>None\<close> when the routine
  never returns; otherwise the routine's outcome, the store and the number of requests
  sent to the provider.
\<close>

definition syncOrders ::
  "sync_env \<Rightarrow> gql_provider \<Rightarrow> sync_state \<Rightarrow> (((thrown + SyncResult) \<times> sync_state) \<times> nat) option" where
  "syncOrders env prov s =
     (let lastSync = getLastSyncTime (syncLogs s) (id_integration (row s)) ''orders''
      in (case orders_loop prov lastSync 0 None 0 of
            None \<Rightarrow> None
          | Some (fetched, requests) \<Rightarrow> Some (routine_frame env ''orders'' fetched s, requests)))"

definition syncProducts ::
  "sync_env \<Rightarrow> gql_provider \<Rightarrow> sync_state \<Rightarrow> (((thrown + SyncResult) \<times> sync_state) \<times> nat) option" where
  "syncProducts env prov s =
     (case products_loop prov 0 None 0 of
        None \<Rightarrow> None
      | Some (fetched, requests) \<Rightarrow> Some (routine_frame env ''products'' fetched s, requests))"

definition syncCampaigns ::
  "sync_env \<Rightarrow> kl_world \<Rightarrow> sync_state \<Rightarrow> (((thrown + SyncResult) \<times> sync_state) \<times> nat) option" where
  "syncCampaigns env W s =
     (case klaviyo_loop W campaigns_params 0 (Some (baseUrl @ ''/campaigns/'')) 0 of
        None \<Rightarrow> None
      | Some (fetched, requests) \<Rightarrow> Some (routine_frame env ''campaigns'' fetched s, requests))"

definition syncEvents ::
  "sync_env \<Rightarrow> kl_world \<Rightarrow> sync_state \<Rightarrow> (((thrown + SyncResult) \<times> sync_state) \<times> nat) option" where
  "syncEvents env W s =
     (let lastSync = getLastSyncTime (syncLogs s) (id_integration (row s)) ''events''
      in (case klaviyo_loop W (events_params lastSync) 0 (Some (baseUrl @ ''/events/'')) 0 of
            None \<Rightarrow> None
          | Some (fetched, requests) \<Rightarrow> Some (routine_frame env ''events'' fetched s, requests)))"


definition endless_klaviyo :: kl_world where
  "endless_klaviyo =
     \<lparr> kl_get = (\<lambda>i url token params. KlPage 1 (Some ''https://a.klaviyo.com/api/campaigns/?page=next'')),
       kl_token = (\<lambda>i. Inr ''token'') \<rparr>"

definition two_page_shop :: gql_provider where
  "two_page_shop = (\<lambda>i v. if i = 0 then GqlPage 50 True (Some ''c1'') else GqlPage 7 False None)"

definition two_page_klaviyo :: kl_world where
  "two_page_klaviyo =
     \<lparr> kl_get = (\<lambda>i url token params.
          if i = 0 then KlPage 50 (Some ''https://a.klaviyo.com/api/campaigns/?page=2'')
          else KlPage 3 None),
       kl_token = (\<lambda>i. Inr ''token'') \<rparr>"

definition quiet_env :: sync_env where
  "quiet_env = \<lparr> now = 1000, log_fail = (\<lambda>r. None), status_fail = (\<lambda>st. None) \<rparr>"

definition live_row :: integration where
  "live_row =
     \<lparr> id_integration = ''int_1'', userId = ''u1'', provider = ''shopify'',
       accountId = ''test-store.myshopify.com'', accessToken = ''00:00:00'',
       refreshToken = None, expiresAt = None, scopes = [], metadata = Map.empty,
       status = ''connected'', lastSyncAt = None, createdAt = 5, updatedAt = 9,
       deletedAt = None \<rparr>"

definition synced_once :: sync_state where
  "synced_once =
     \<lparr> row = live_row,
       syncLogs =
         [\<lparr> integrationId = ''int_1'',
            logged = \<lparr> dataType = ''products'', recordsCount = 4, status_r = StSuccess,
                       errorMessage = None \<rparr>,
            completedAt = 100 \<rparr>,
          \<lparr> integrationId = ''int_1'',
            logged = \<lparr> dataType = ''orders'', recordsCount = 2, status_r = StSuccess,
                       errorMessage = None \<rparr>,
            completedAt = 120 \<rparr>,
          \<lparr> integrationId = ''int_1'',
            logged = \<lparr> dataType = ''orders'', recordsCount = 0, status_r = StError,
                       errorMessage = Some ''timeout'' \<rparr>,
            completedAt = 130 \<rparr>] \<rparr>"

section \<open>The remaining Klaviyo routines\<close>

text \<open>
  \<open>syncFlows\<close> pages like \<open>syncCampaigns\<close>, from its own URL and with the page size
  alone as parameter. \<open>syncMetrics\<close> makes one request and counts the entries of its
  answer; it has the same frame. The access token is read before the request is made.
\<close>

definition flows_params :: kl_params where
  "flows_params = \<lparr> page_size = 50, sort_p = None, filter_p = None \<rparr>"

definition metrics_params :: kl_params where
  "metrics_params = \<lparr> page_size = 100, sort_p = None, filter_p = None \<rparr>"

definition syncFlows ::
  "sync_env \<Rightarrow> kl_world \<Rightarrow> sync_state \<Rightarrow> (((thrown + SyncResult) \<times> sync_state) \<times> nat) option" where
  "syncFlows env W s =
     (case klaviyo_loop W flows_params 0 (Some (baseUrl @ ''/flows/'')) 0 of
        None \<Rightarrow> None
      | Some (fetched, requests) \<Rightarrow> Some (routine_frame env ''flows'' fetched s, requests))"

definition metrics_fetch :: "kl_world \<Rightarrow> thrown + nat" where
  "metrics_fetch W =
     (case kl_token W 0 of
        Inl e \<Rightarrow> Inl e
      | Inr token \<Rightarrow>
          (case kl_get W 0 (baseUrl @ ''/metrics/'') token metrics_params of
             KlFailure e \<Rightarrow> Inl e
           | KlPage n nxt \<Rightarrow> Inr n))"

definition syncMetrics ::
  "sync_env \<Rightarrow> kl_world \<Rightarrow> sync_state \<Rightarrow> (thrown + SyncResult) \<times> sync_state" where
  "syncMetrics env W s = routine_frame env ''metrics'' (metrics_fetch W) s"

section \<open>The dialogue of a pagination loop with its provider\<close>

text \<open>
  What the answer to one request of a loop means for the loop: there are more pages;
  this was the last page, with the total reached; the request failed; or, for Klaviyo,
  the access token for the request could not be read and no request was made.
\<close>

datatype page_signal = MorePages | LastPage nat | Failed thrown | NoToken thrown





text \<open>
  The dialogue of a Klaviyo loop that starts at the URL \<open>first\<close>: each later request
  goes to the \<open>links.next\<close> of the answer before it.
\<close>

fun klaviyo_state :: "kl_world \<Rightarrow> kl_params \<Rightarrow> string \<Rightarrow> nat \<Rightarrow> string \<times> nat" where
  "klaviyo_state W params first 0 = (first, 0)"
| "klaviyo_state W params first (Suc k) =
     (case klaviyo_state W params first k of
        (url, sofar) \<Rightarrow>
          (case kl_token W k of
             Inl e \<Rightarrow> (url, sofar)
           | Inr token \<Rightarrow>
               (case kl_get W k url token params of
                  KlFailure e \<Rightarrow> (url, sofar)
                | KlPage n nxt \<Rightarrow>
                    (case truthy nxt of
                       None \<Rightarrow> (url, sofar + n)
                     | Some u \<Rightarrow> (u, sofar + n)))))"

definition klaviyo_signal :: "kl_world \<Rightarrow> kl_params \<Rightarrow> string \<Rightarrow> nat \<Rightarrow> page_signal" where
  "klaviyo_signal W params first k =
     (case klaviyo_state W params first k of
        (url, sofar) \<Rightarrow>
          (case kl_token W k of
             Inl e \<Rightarrow> NoToken e
           | Inr token \<Rightarrow>
               (case kl_get W k url token params of
                  KlFailure e \<Rightarrow> Failed e
                | KlPage n nxt \<Rightarrow>
                    if truthy nxt = None then LastPage (sofar + n) else MorePages)))"






section \<open>Providers that check the watermark\<close>

text \<open>
  Shopify providers for concrete evaluation: one that accepts only a request without a
  watermark, one that accepts only the watermark 120, one with a single page of three.
\<close>

definition unfiltered_only :: gql_provider where
  "unfiltered_only =
     (\<lambda>i v. if updatedAtMin v = None then GqlPage 3 False None
            else GqlFailure (ErrorObj ''filtered query''))"

definition since_120_only :: gql_provider where
  "since_120_only =
     (\<lambda>i v. if updatedAtMin v = Some 120 then two_page_shop i v
            else GqlFailure (ErrorObj ''unexpected filter''))"

definition three_products :: gql_provider where
  "three_products = (\<lambda>i v. GqlPage 3 False None)"

section \<open>sync() of the two connectors\<close>

text \<open>
  \<open>updateIntegrationStatus\<close>: the status, \<open>lastSyncAt\<close> when one is given, and
  \<open>updatedAt\<close>. A rejected update throws and leaves the row as it was.
\<close>

definition updateIntegrationStatus ::
  "sync_env \<Rightarrow> string \<Rightarrow> nat option \<Rightarrow> sync_state \<Rightarrow> (thrown + unit) \<times> sync_state" where
  "updateIntegrationStatus env st lastSync s =
     (case status_fail env st of
        Some e \<Rightarrow> (Inl e, s)
      | None \<Rightarrow>
          (Inr (),
           s\<lparr> row := (row s)\<lparr> status := st,
                               lastSyncAt := (case lastSync of None \<Rightarrow> lastSyncAt (row s)
                                              | Some t \<Rightarrow> Some t),
                               updatedAt := now env \<rparr> \<rparr>))"

text \<open>
  Shopify's \<open>syncCustomers\<close> has no \<open>try\<close>: it logs a success with no records, and
  an exception of \<open>logSync\<close> leaves the routine.
\<close>

definition syncCustomers :: "sync_env \<Rightarrow> sync_state \<Rightarrow> (thrown + SyncResult) \<times> sync_state" where
  "syncCustomers env s =
     (let result = \<lparr> dataType = ''customers'', recordsCount = 0, status_r = StSuccess,
                      errorMessage = None \<rparr>
      in (case logSync env result s of
            (Inl e, s1) \<Rightarrow> (Inl e, s1)
          | (Inr u, s1) \<Rightarrow> (Inr result, s1)))"

text \<open>
  The statements \<open>results.push(await this.syncX())\<close> in sequence: each routine that
  returns adds its result; the first one that throws ends the sequence with the results
  pushed so far; a routine that never returns (\<open>None\<close>) keeps the sequence from ending.
\<close>

fun run_routines ::
  "(sync_state \<Rightarrow> ((thrown + SyncResult) \<times> sync_state) option) list \<Rightarrow> SyncResult list
     \<Rightarrow> sync_state \<Rightarrow> (thrown option \<times> SyncResult list \<times> sync_state) option" where
  "run_routines [] results s = Some (None, results, s)"
| "run_routines (r # rs) results s =
     (case r s of
        None \<Rightarrow> None
      | Some (Inl e, s1) \<Rightarrow> Some (Some e, results, s1)
      | Some (Inr x, s1) \<Rightarrow> run_routines rs (results @ [x]) s1)"

text \<open>
  The \<open>catch\<close> clause of \<open>sync\<close>: the status update to \<open>error\<close> is awaited outside
  any handler, so its exception leaves \<open>sync\<close>; otherwise the entry \<open>sync_error\<close> is
  pushed and the results are returned.
\<close>

definition sync_error_entry :: "thrown \<Rightarrow> SyncResult" where
  "sync_error_entry e =
     \<lparr> dataType = ''sync_error'', recordsCount = 0, status_r = StError,
       errorMessage = Some (error_message e) \<rparr>"

definition sync_catch ::
  "sync_env \<Rightarrow> thrown \<Rightarrow> SyncResult list \<Rightarrow> sync_state \<Rightarrow> (thrown + SyncResult list) \<times> sync_state" where
  "sync_catch env e results s =
     (case updateIntegrationStatus env ''error'' None s of
        (Inl e', s1) \<Rightarrow> (Inl e', s1)
      | (Inr u, s1) \<Rightarrow> (Inr (results @ [sync_error_entry e]), s1))"

text \<open>
  The \<open>try\<close> block after any initialisation: the routines, then the status update to
  \<open>connected\<close> with the current time; an exception of either reaches \<open>catch\<close>.
\<close>

definition sync_body ::
  "sync_env \<Rightarrow> (sync_state \<Rightarrow> ((thrown + SyncResult) \<times> sync_state) option) list \<Rightarrow> sync_state
     \<Rightarrow> ((thrown + SyncResult list) \<times> sync_state) option" where
  "sync_body env routines s =
     (case run_routines routines [] s of
        None \<Rightarrow> None
      | Some (Some e, results, s1) \<Rightarrow> Some (sync_catch env e results s1)
      | Some (None, results, s1) \<Rightarrow>
          (case updateIntegrationStatus env ''connected'' (Some (now env)) s1 of
             (Inl e, s2) \<Rightarrow> Some (sync_catch env e results s2)
           | (Inr u, s2) \<Rightarrow> Some (Inr results, s2)))"

text \<open>
  \<open>sync\<close> of the two connectors, on the routines themselves: the provider's answers
  and the store decide what each routine reaches, and whether it returns at all. For
  Shopify, \<open>initialized\<close> is the outcome of \<open>initializeGraphQLClient\<close>, which reads and,
  if expired, refreshes the access token; what a refresh writes to the store is not
  followed here.
\<close>

definition KlaviyoConnector_sync ::
  "sync_env \<Rightarrow> kl_world \<Rightarrow> sync_state \<Rightarrow> ((thrown + SyncResult list) \<times> sync_state) option" where
  "KlaviyoConnector_sync env W s =
     sync_body env
       [\<lambda>s. map_option fst (syncCampaigns env W s),
        \<lambda>s. map_option fst (syncFlows env W s),
        \<lambda>s. Some (syncMetrics env W s),
        \<lambda>s. map_option fst (syncEvents env W s)] s"

definition ShopifyConnector_sync ::
  "sync_env \<Rightarrow> (thrown + unit) \<Rightarrow> gql_provider \<Rightarrow> sync_state
     \<Rightarrow> ((thrown + SyncResult list) \<times> sync_state) option" where
  "ShopifyConnector_sync env initialized prov s =
     (case initialized of
        Inl e \<Rightarrow> Some (sync_catch env e [] s)
      | Inr u \<Rightarrow>
          sync_body env
            [\<lambda>s. map_option fst (syncOrders env prov s),
             \<lambda>s. map_option fst (syncProducts env prov s),
             \<lambda>s. Some (syncCustomers env s)] s)"

text \<open>
  The entry a routine returns for what its fetching part has reached, when its own
  \<open>logSync\<close> succeeds.
\<close>

definition entry_of :: "string \<Rightarrow> (thrown + nat) \<Rightarrow> SyncResult" where
  "entry_of dt fetched =
     (case fetched of
        Inr n \<Rightarrow> \<lparr> dataType = dt, recordsCount = n, status_r = StSuccess, errorMessage = None \<rparr>
      | Inl e \<Rightarrow> \<lparr> dataType = dt, recordsCount = 0, status_r = StError,
                   errorMessage = Some (error_message e) \<rparr>)"

text \<open>
  Stores for concrete evaluation: one that rejects every status update, one that
  rejects the log rows of the data type \<open>flows\<close>. A provider whose first request
  fails.
\<close>

definition status_down :: sync_env where
  "status_down =
     \<lparr> now = 1000, log_fail = (\<lambda>r. None),
       status_fail = (\<lambda>st. Some (ErrorObj ''Record to update not found'')) \<rparr>"

definition flaky_logs :: sync_env where
  "flaky_logs =
     \<lparr> now = 1000,
       log_fail = (\<lambda>r. if dataType r = ''flows'' then Some (ErrorObj ''log write failed'')
                       else None),
       status_fail = (\<lambda>st. None) \<rparr>"

definition fresh_store :: sync_state where
  "fresh_store = \<lparr> row = live_row, syncLogs = [] \<rparr>"

definition flows_down :: kl_world where
  "flows_down =
     \<lparr> kl_get = (\<lambda>i url token params.
          if url = ''https://a.klaviyo.com/api/flows/'' then KlFailure (ErrorObj ''HTTP 500'')
          else KlPage 2 None),
       kl_token = (\<lambda>i. Inr ''token'') \<rparr>"

section \<open>The HTTP client of a connector and its 401 interceptor (BaseConnector)\<close>

text \<open>
  The configuration of a request as far as the interceptor reads and writes it; the
  provider's answer to one transmission (a 2xx response with its data, another status,
  or no response at all); and the error with which the request is rejected.
\<close>

record request_config =
  skipAuthRefresh :: bool
  authorization :: "string option"

datatype http_answer = Ok2xx string | HttpStatus nat | NoResponse

datatype request_error = HttpError nat | NetworkError

text \<open>
  What \<open>refreshAccessToken\<close> of the provider's connector returns.
\<close>

record refresh_result =
  new_accessToken :: string
  new_refreshToken :: "string option"
  new_expiresAt :: "nat option"

text \<open>
  The environment: the provider's answer to the transmission number \<open>i\<close> of a request
  with a given configuration (so the provider may look at the token, at the time, or
  at both), the outcome of the call number \<open>k\<close> of \<open>refreshAccessToken\<close>, the token
  vault's \<open>encrypt\<close> (its nonce chosen), the clock, and the store's rejection, if any,
  of an update of the integration's row that writes a given status (\<open>connected\<close> in
  a refresh, \<open>expired\<close> in the handler of a failed one). The state: the row of the
  integration in the store, the connector's own copy \<open>this.integration\<close>, the
  configurations of the transmissions made so far, in order, and the number of refresh
  attempts.
\<close>

record client_env =
  answer :: "nat \<Rightarrow> request_config \<Rightarrow> http_answer"
  refreshAccessToken :: "nat \<Rightarrow> thrown + refresh_result"
  encrypt_token :: "string \<Rightarrow> thrown + string"
  clock :: nat
  update_rejected :: "string \<Rightarrow> thrown option"

record client_state =
  stored :: integration
  local_i :: integration
  sent :: "request_config list"
  refreshes :: nat

text \<open>
  The \<open>try\<close> block of \<open>handleTokenRefresh\<close>. An absent \<open>refreshToken\<close> or
  \<open>expiresAt\<close> leaves the column as it is. The tokens are encrypted once more for the
  connector's own copy; with the nonce chosen, that gives the same values.
\<close>

definition refresh_try :: "client_env \<Rightarrow> client_state \<Rightarrow> (thrown + string) \<times> client_state" where
  "refresh_try env s =
     (case refreshAccessToken env (refreshes s) of
        Inl e \<Rightarrow> (Inl e, s)
      | Inr rr \<Rightarrow>
          (case encrypt_token env (new_accessToken rr) of
             Inl e \<Rightarrow> (Inl e, s)
           | Inr encA \<Rightarrow>
               (case (case truthy (new_refreshToken rr) of
                        None \<Rightarrow> Inr None
                      | Some r \<Rightarrow>
                          (case encrypt_token env r of Inl e \<Rightarrow> Inl e | Inr c \<Rightarrow> Inr (Some c))) of
                  Inl e \<Rightarrow> (Inl e, s)
                | Inr encR \<Rightarrow>
                    (case update_rejected env ''connected'' of
                       Some e \<Rightarrow> (Inl e, s)
                     | None \<Rightarrow>
                         (Inr (new_accessToken rr),
                          s\<lparr> stored := (stored s)
                                \<lparr> accessToken := encA,
                                  refreshToken := (case encR of None \<Rightarrow> refreshToken (stored s)
                                                   | Some c \<Rightarrow> Some c),
                                  expiresAt := (case new_expiresAt rr of
                                                  None \<Rightarrow> expiresAt (stored s)
                                                | Some t \<Rightarrow> Some t),
                                  status := ''connected'',
                                  updatedAt := clock env \<rparr>,
                             local_i := (local_i s)
                                \<lparr> accessToken := encA,
                                  refreshToken := (case encR of None \<Rightarrow> refreshToken (local_i s)
                                                   | Some c \<Rightarrow> Some c),
                                  expiresAt := (case new_expiresAt rr of
                                                  None \<Rightarrow> expiresAt (local_i s)
                                                | Some t \<Rightarrow> Some t) \<rparr> \<rparr>)))))"

text \<open>
  \<open>`${error}`\<close> in the message of the error thrown by the handler.
\<close>

definition error_text :: "thrown \<Rightarrow> string" where
  "error_text e = (case e of ErrorObj m \<Rightarrow> ''Error: '' @ m | NonError \<Rightarrow> ''[object]'')"

text \<open>
  \<open>handleTokenRefresh\<close> with its \<open>catch\<close> clause: unless the integration is the
  temporary one, the status is updated to \<open>expired\<close>, and an exception of that update
  leaves the function; otherwise the error \<open>Token refresh failed\<close> is thrown.
\<close>

definition handleTokenRefresh :: "client_env \<Rightarrow> client_state \<Rightarrow> (thrown + string) \<times> client_state" where
  "handleTokenRefresh env s =
     (case refresh_try env s of
        (Inr token, s1) \<Rightarrow> (Inr token, s1\<lparr> refreshes := Suc (refreshes s) \<rparr>)
      | (Inl e, s1) \<Rightarrow>
          if id_integration (local_i s1) \<noteq> ''temp''
          then
            (case update_rejected env ''expired'' of
               Some e' \<Rightarrow> (Inl e', s1\<lparr> refreshes := Suc (refreshes s) \<rparr>)
             | None \<Rightarrow>
                 (Inl (ErrorObj (''Token refresh failed: '' @ error_text e)),
                  s1\<lparr> stored := (stored s1)\<lparr> status := ''expired'' \<rparr>,
                      refreshes := Suc (refreshes s) \<rparr>))
          else (Inl (ErrorObj (''Token refresh failed: '' @ error_text e)),
                s1\<lparr> refreshes := Suc (refreshes s) \<rparr>))"

text \<open>
  \<open>httpClient.request\<close> with the response interceptor. On 401, unless the request is
  marked \<open>skipAuthRefresh\<close> or the integration is the temporary one, the token is
  refreshed, the new token is written into the \<open>Authorization\<close> header of the
  request's own configuration, and the request is sent again through the same client,
  hence through the same interceptor; the retried request's outcome is returned as it
  is. When the refresh throws, the original error is rejected. (An error that carries a
  response carries the configuration of its request, so \<open>error.config\<close> is there.)
  \<open>None\<close>: the request never settles.
\<close>

partial_function (option) request ::
  "client_env \<Rightarrow> request_config \<Rightarrow> client_state \<Rightarrow> ((request_error + string) \<times> client_state) option" where
  "request env config s =
     (case answer env (length (sent s)) config of
        Ok2xx d \<Rightarrow> Some (Inr d, s\<lparr> sent := sent s @ [config] \<rparr>)
      | NoResponse \<Rightarrow> Some (Inl NetworkError, s\<lparr> sent := sent s @ [config] \<rparr>)
      | HttpStatus n \<Rightarrow>
          if n = 401 \<and> \<not> (skipAuthRefresh config \<or> id_integration (local_i s) = ''temp'')
          then
            (case handleTokenRefresh env (s\<lparr> sent := sent s @ [config] \<rparr>) of
               (Inr newToken, s2) \<Rightarrow>
                 request env (config\<lparr> authorization := Some (''Bearer '' @ newToken) \<rparr>) s2
             | (Inl refreshError, s2) \<Rightarrow> Some (Inl (HttpError 401), s2))
          else Some (Inl (HttpError n), s\<lparr> sent := sent s @ [config] \<rparr>))"

text \<open>
  How a request settles on an answer that the interceptor does not act upon.
\<close>

definition settles :: "http_answer \<Rightarrow> request_error + string" where
  "settles a = (case a of Ok2xx d \<Rightarrow> Inr d | NoResponse \<Rightarrow> Inl NetworkError
                | HttpStatus n \<Rightarrow> Inl (HttpError n))"

text \<open>
  The refresh number \<open>k\<close> goes through: \<open>refreshAccessToken\<close> returns tokens, the
  vault encrypts them, and the store accepts the update that writes them. A request
  that the interceptor will refresh for.
\<close>

definition refresh_ok :: "client_env \<Rightarrow> nat \<Rightarrow> bool" where
  "refresh_ok env k \<longleftrightarrow>
     update_rejected env ''connected'' = None \<and>
     (\<exists>rr. refreshAccessToken env k = Inr rr \<and>
        (\<exists>c. encrypt_token env (new_accessToken rr) = Inr c) \<and>
        (case truthy (new_refreshToken rr) of
           None \<Rightarrow> True
         | Some r \<Rightarrow> \<exists>c. encrypt_token env r = Inr c))"

definition refreshable :: "request_config \<Rightarrow> client_state \<Rightarrow> bool" where
  "refreshable config s \<longleftrightarrow>
     \<not> skipAuthRefresh config \<and> id_integration (local_i s) \<noteq> ''temp''"

text \<open>
  The access token that the refresh number \<open>k\<close> returns, and the configuration of the
  transmission number \<open>j\<close> of a request first sent with \<open>config\<close> when \<open>r\<close>
  refreshes had been made before: the original configuration, or the original with the
  token of the latest refresh in its \<open>Authorization\<close> header.
\<close>

definition refreshed_token :: "client_env \<Rightarrow> nat \<Rightarrow> string" where
  "refreshed_token env k =
     (case refreshAccessToken env k of Inr rr \<Rightarrow> new_accessToken rr | Inl e \<Rightarrow> [])"

definition retry_config :: "client_env \<Rightarrow> request_config \<Rightarrow> nat \<Rightarrow> nat \<Rightarrow> request_config" where
  "retry_config env config r j =
     (if j = 0 then config
      else config\<lparr> authorization := Some (''Bearer '' @ refreshed_token env (r + j - 1)) \<rparr>)"

text \<open>
  Providers for concrete evaluation: one that accepts only the token \<open>fresh\<close>; 401 twice
  and then data; 401 for ever; 401 with a connector whose refresh fails, with a store
  that accepts the update to \<open>expired\<close> and with one that rejects it.
\<close>

definition token_checking :: client_env where
  "token_checking =
     \<lparr> answer = (\<lambda>i c. if authorization c = Some ''Bearer fresh'' then Ok2xx ''data''
                        else HttpStatus 401),
       refreshAccessToken =
         (\<lambda>k. Inr \<lparr> new_accessToken = ''fresh'', new_refreshToken = None,
                       new_expiresAt = None \<rparr>),
       encrypt_token = (\<lambda>t. Inr (''enc:'' @ t)),
       clock = 1000,
       update_rejected = (\<lambda>st. None) \<rparr>"

definition twice_401 :: client_env where
  "twice_401 =
     \<lparr> answer = (\<lambda>i c. if i < 2 then HttpStatus 401 else Ok2xx ''data''),
       refreshAccessToken =
         (\<lambda>k. Inr \<lparr> new_accessToken = ''fresh'', new_refreshToken = None,
                       new_expiresAt = None \<rparr>),
       encrypt_token = (\<lambda>t. Inr (''enc:'' @ t)),
       clock = 1000,
       update_rejected = (\<lambda>st. None) \<rparr>"

definition always_401 :: client_env where
  "always_401 =
     \<lparr> answer = (\<lambda>i c. HttpStatus 401),
       refreshAccessToken =
         (\<lambda>k. Inr \<lparr> new_accessToken = ''fresh'', new_refreshToken = None,
                       new_expiresAt = None \<rparr>),
       encrypt_token = (\<lambda>t. Inr (''enc:'' @ t)),
       clock = 1000,
       update_rejected = (\<lambda>st. None) \<rparr>"

definition refresh_broken :: client_env where
  "refresh_broken =
     \<lparr> answer = (\<lambda>i c. HttpStatus 401),
       refreshAccessToken = (\<lambda>k. Inl (ErrorObj ''Missing refresh token'')),
       encrypt_token = (\<lambda>t. Inr (''enc:'' @ t)),
       clock = 1000,
       update_rejected = (\<lambda>st. None) \<rparr>"

definition refresh_broken_store_down :: client_env where
  "refresh_broken_store_down =
     refresh_broken\<lparr> update_rejected := (\<lambda>st. Some (ErrorObj ''Record to update not found'')) \<rparr>"

definition plain_request :: request_config where
  "plain_request = \<lparr> skipAuthRefresh = False, authorization = Some ''Bearer old'' \<rparr>"

definition client0 :: client_state where
  "client0 = \<lparr> stored = live_row, local_i = live_row, sent = [], refreshes = 0 \<rparr>"

section \<open>The OAuth callback (ConnectorManager)\<close>

text \<open>
  The payload of an OAuth State row, as \<open>validateOAuthState\<close> reads it from the parsed
  \<open>data\<close> column; the row holds what \<open>JSON.parse\<close> makes of that column (\<open>None\<close>
  when it throws) and the expiry.
\<close>

record oauth_payload =
  userId_p :: string
  provider_p :: string
  metadata_p :: json_object
  codeVerifier :: "string option"

record oauth_state_row =
  data_parsed :: "oauth_payload option"
  expiresAt_state :: nat

text \<open>
  What \<open>exchangeCodeForTokens\<close> resolves to. An absent \<open>accountId\<close> is the empty
  string, which the check \<open>!tokenData.accountId\<close> treats alike.
\<close>

record token_data =
  accessToken_t :: string
  refreshToken_t :: "string option"
  expiresAt_t :: "nat option"
  accountId_t :: string
  metadata_t :: json_object

text \<open>
  The environment of one callback: the connector's token exchange (for the provider,
  the metadata of the temporary integration, the code, the state and the stored
  verifier), the scopes of its OAuth configuration (\<open>getOAuthConfig\<close> may throw), the
  token vault's \<open>encrypt\<close> with its nonce chosen, the current time, and the row the
  store makes of the columns that the create path does not name (the schema with their
  defaults is not among the sources). The store may fail during the callback:
  \<open>state_read_throws\<close> says that the \<open>findUnique\<close> of the state row throws,
  \<open>upsert_rejected\<close> gives the exception of a rejected upsert, and \<open>delete_rejected\<close>
  says that the delete of the state row is rejected.
\<close>

record manager_env =
  exchangeCodeForTokens ::
    "string \<Rightarrow> json_object \<Rightarrow> string \<Rightarrow> string \<Rightarrow> string option \<Rightarrow> thrown + token_data"
  oauth_scopes :: "string \<Rightarrow> json_object \<Rightarrow> thrown + string list"
  vault_encrypt :: "string \<Rightarrow> thrown + string"
  blank_row :: integration
  today :: nat
  state_read_throws :: bool
  upsert_rejected :: "thrown option"
  delete_rejected :: bool

text \<open>
  The store: the Integration table, the OAuth State table by state token, and the log
  of the token exchanges attempted, as (provider, code).
\<close>

record manager_state =
  integrations :: "integration list"
  oAuthStates :: "string \<rightharpoonup> oauth_state_row"
  exchanges :: "(string \<times> string) list"

definition connectorFactories :: "string list" where
  "connectorFactories = [''shopify'', ''klaviyo'']"

text \<open>
  \<open>validateOAuthState\<close>: \<open>null\<close> when the row is missing, when
  \<open>expiresAt < new Date()\<close>, and, by its \<open>catch\<close> clause, when the read or the
  parsing throws.
\<close>

definition validateOAuthState :: "manager_env \<Rightarrow> manager_state \<Rightarrow> string \<Rightarrow> oauth_payload option" where
  "validateOAuthState env s st =
     (if state_read_throws env then None
      else
        (case oAuthStates s st of
           None \<Rightarrow> None
         | Some r \<Rightarrow> if expiresAt_state r < today env then None else data_parsed r))"

text \<open>
  \<open>cleanupOAuthState\<close> asks the store to delete the row and swallows every rejection
  of the delete (\<open>.catch(() => {})\<close>): that of deleting a row that does not exist, and
  any other, after which the row is still there.
\<close>

definition cleanupOAuthState :: "manager_env \<Rightarrow> manager_state \<Rightarrow> string \<Rightarrow> manager_state" where
  "cleanupOAuthState env s st =
     (if delete_rejected env then s
      else s\<lparr> oAuthStates := (oAuthStates s)(st := None) \<rparr>)"

text \<open>
  \<open>prisma.integration.upsert\<close> on the compound unique key
  \<open>userId_provider_accountId\<close>: the row with that key is updated, or a row is created.
  It returns the row written.
\<close>

definition key_of :: "integration \<Rightarrow> string \<times> string \<times> string" where
  "key_of r = (userId r, provider r, accountId r)"

definition upsert_integration ::
  "integration list \<Rightarrow> string \<times> string \<times> string \<Rightarrow> (integration \<Rightarrow> integration) \<Rightarrow> integration
     \<Rightarrow> integration \<times> integration list" where
  "upsert_integration tbl k upd crt =
     (case find (\<lambda>r. key_of r = k) tbl of
        None \<Rightarrow> (crt, tbl @ [crt])
      | Some r \<Rightarrow> (upd r, map (\<lambda>x. if key_of x = k then upd x else x) tbl))"

text \<open>
  The \<open>update\<close> and \<open>create\<close> arguments of the upsert. An \<open>expiresAt\<close> that is
  \<open>undefined\<close> leaves the column as it is; \<open>refreshToken\<close> is set, to \<open>null\<close> when
  there is none.
\<close>

definition update_data ::
  "nat \<Rightarrow> json_object \<Rightarrow> string \<Rightarrow> string option \<Rightarrow> nat option \<Rightarrow> string list \<Rightarrow> integration
     \<Rightarrow> integration" where
  "update_data t md encA encR ex sc r =
     r\<lparr> accessToken := encA,
        refreshToken := encR,
        expiresAt := (case ex of None \<Rightarrow> expiresAt r | Some e \<Rightarrow> Some e),
        metadata := md,
        status := ''connected'',
        deletedAt := None,
        scopes := sc,
        updatedAt := t \<rparr>"

definition create_data ::
  "integration \<Rightarrow> string \<Rightarrow> string \<Rightarrow> string \<Rightarrow> json_object \<Rightarrow> string \<Rightarrow> string option \<Rightarrow> nat option
     \<Rightarrow> string list \<Rightarrow> integration" where
  "create_data blank uid prov acc md encA encR ex sc =
     blank\<lparr> userId := uid,
            provider := prov,
            accountId := acc,
            accessToken := encA,
            refreshToken := encR,
            expiresAt := (case ex of None \<Rightarrow> expiresAt blank | Some e \<Rightarrow> Some e),
            metadata := md,
            status := ''connected'',
            scopes := sc \<rparr>"

text \<open>
  \<open>tokenData.refreshToken ? await encrypt(...) : null\<close>.
\<close>

definition encrypt_optional :: "manager_env \<Rightarrow> string option \<Rightarrow> thrown + string option" where
  "encrypt_optional env tok =
     (case truthy tok of
        None \<Rightarrow> Inr None
      | Some r \<Rightarrow> (case vault_encrypt env r of Inl e \<Rightarrow> Inl e | Inr c \<Rightarrow> Inr (Some c)))"

text \<open>
  \<open>handleOAuthCallback\<close> after the validation of the state, up to the return of the
  integration: the connector is made, the code is exchanged, the tokens are encrypted,
  the row is upserted and the state row is cleaned up. \<open>oauthState\<close> is what the
  validation has read; the store \<open>s\<close> is the store as it is when the exchange begins.
  The statements after \<open>cleanupOAuthState\<close> only read the Integration table and touch
  the user's row, with their exceptions swallowed; they are left out.
\<close>

definition handleOAuthCallback_exchange ::
  "manager_env \<Rightarrow> manager_state \<Rightarrow> oauth_payload \<Rightarrow> string \<Rightarrow> string \<Rightarrow> string \<Rightarrow> json_object
     \<Rightarrow> (thrown + integration) \<times> manager_state" where
  "handleOAuthCallback_exchange env s oauthState prov code st callbackMetadata =
     (if prov \<notin> set connectorFactories
      then (Inl (ErrorObj (''Unsupported provider: '' @ prov)), s)
      else
        (let s1 = s\<lparr> exchanges := exchanges s @ [(prov, code)] \<rparr>
         in (case exchangeCodeForTokens env prov (metadata_p oauthState ++ callbackMetadata)
                    code st (codeVerifier oauthState) of
               Inl e \<Rightarrow> (Inl e, s1)
             | Inr tokenData \<Rightarrow>
                 if accountId_t tokenData = []
                 then (Inl (ErrorObj (''Connector '' @ prov @
                         '' failed to provide accountId during token exchange. This field is required for database operations.'')),
                       s1)
                 else
                   (case vault_encrypt env (accessToken_t tokenData) of
                      Inl e \<Rightarrow> (Inl e, s1)
                    | Inr encryptedAccessToken \<Rightarrow>
                        (case encrypt_optional env (refreshToken_t tokenData) of
                           Inl e \<Rightarrow> (Inl e, s1)
                         | Inr encryptedRefreshToken \<Rightarrow>
                             (case oauth_scopes env prov
                                     (metadata_p oauthState ++ callbackMetadata) of
                                Inl e \<Rightarrow> (Inl e, s1)
                              | Inr sc \<Rightarrow>
                                  (case upsert_rejected env of
                                     Some e \<Rightarrow> (Inl e, s1)
                                   | None \<Rightarrow>
                                       (case upsert_integration (integrations s1)
                                               (userId_p oauthState, prov, accountId_t tokenData)
                                               (update_data (today env)
                                                  (metadata_p oauthState ++ callbackMetadata ++
                                                     metadata_t tokenData)
                                                  encryptedAccessToken encryptedRefreshToken
                                                  (expiresAt_t tokenData) sc)
                                               (create_data (blank_row env) (userId_p oauthState)
                                                  prov (accountId_t tokenData)
                                                  (metadata_p oauthState ++ callbackMetadata ++
                                                     metadata_t tokenData)
                                                  encryptedAccessToken encryptedRefreshToken
                                                  (expiresAt_t tokenData) sc) of
                                          (integration, tbl) \<Rightarrow>
                                            (Inr integration,
                                             cleanupOAuthState env
                                               (s1\<lparr> integrations := tbl \<rparr>) st)))))))))"

text \<open>
  \<open>handleOAuthCallback\<close> run without interruption on the store \<open>s\<close>: the state is
  validated, and the rest follows on the same store.
\<close>

definition handleOAuthCallback ::
  "manager_env \<Rightarrow> manager_state \<Rightarrow> string \<Rightarrow> string \<Rightarrow> string \<Rightarrow> json_object
     \<Rightarrow> (thrown + integration) \<times> manager_state" where
  "handleOAuthCallback env s prov code st callbackMetadata =
     (case validateOAuthState env s st of
        None \<Rightarrow> (Inl (ErrorObj ''Invalid OAuth state''), s)
      | Some oauthState \<Rightarrow>
          handleOAuthCallback_exchange env s oauthState prov code st callbackMetadata)"

text \<open>
  A connector, pending states and stores for concrete evaluation: the connector issues
  tokens for two codes; the schema's defaults; three state tokens, one of them
  expired; a store with no integration, and one with a soft-deleted row of the account
  that the connector will report. \<open>lossy_env\<close> is \<open>demo_env\<close> with a store that rejects
  the delete of the state row.
\<close>

definition schema_defaults :: integration where
  "schema_defaults =
     \<lparr> id_integration = ''int_new'', userId = [], provider = [], accountId = [],
       accessToken = [], refreshToken = None, expiresAt = None, scopes = [],
       metadata = Map.empty, status = ''connected'', lastSyncAt = None, createdAt = 1000,
       updatedAt = 1000, deletedAt = None \<rparr>"

definition demo_env :: manager_env where
  "demo_env =
     \<lparr> exchangeCodeForTokens =
         (\<lambda>prov md code st verifier.
            if code = ''code-1'' \<or> code = ''code-2''
            then Inr \<lparr> accessToken_t = ''shpat-'' @ code,
                       refreshToken_t = Some (''refresh-'' @ code),
                       expiresAt_t = None, accountId_t = ''test-store.myshopify.com'',
                       metadata_t = [''shopName'' \<mapsto> ''Test Store''] \<rparr>
            else Inl (ErrorObj ''Shopify token exchange failed'')),
       oauth_scopes = (\<lambda>prov md. Inr [''read_orders'', ''read_products'']),
       vault_encrypt = (\<lambda>t. Inr (''enc:'' @ t)),
       blank_row = schema_defaults,
       today = 1000,
       state_read_throws = False,
       upsert_rejected = None,
       delete_rejected = False \<rparr>"

definition lossy_env :: manager_env where
  "lossy_env = demo_env\<lparr> delete_rejected := True \<rparr>"

definition pending_payload :: oauth_payload where
  "pending_payload =
     \<lparr> userId_p = ''u1'', provider_p = ''shopify'',
       metadata_p = [''shopDomain'' \<mapsto> ''test-store.myshopify.com''],
       codeVerifier = None \<rparr>"

definition demo_state :: manager_state where
  "demo_state =
     \<lparr> integrations = [sample_row],
       oAuthStates =
         [''state-1'' \<mapsto> \<lparr> data_parsed = Some pending_payload, expiresAt_state = 2000 \<rparr>,
          ''state-2'' \<mapsto> \<lparr> data_parsed = Some pending_payload, expiresAt_state = 2000 \<rparr>,
          ''state-old'' \<mapsto> \<lparr> data_parsed = Some pending_payload, expiresAt_state = 400 \<rparr>],
       exchanges = [] \<rparr>"

definition empty_state :: manager_state where
  "empty_state = demo_state\<lparr> integrations := [] \<rparr>"

definition demo_once :: "(thrown + integration) \<times> manager_state" where
  "demo_once = handleOAuthCallback demo_env empty_state ''shopify'' ''code-1'' ''state-1'' Map.empty"

definition demo_twice :: "(thrown + integration) \<times> manager_state" where
  "demo_twice =
     handleOAuthCallback demo_env (snd demo_once) ''shopify'' ''code-2'' ''state-2'' Map.empty"

definition lossy_once :: "(thrown + integration) \<times> manager_state" where
  "lossy_once = handleOAuthCallback lossy_env empty_state ''shopify'' ''code-1'' ''state-1'' Map.empty"

definition lossy_replay :: "(thrown + integration) \<times> manager_state" where
  "lossy_replay =
     handleOAuthCallback demo_env (snd lossy_once) ''shopify'' ''code-2'' ''state-1'' Map.empty"

section \<open>TokenManager.encrypt and decrypt (TokenManager.ts)\<close>











section \<open>Theorems\<close>

subsection \<open>Webhook signatures\<close>

text \<open>
  C10. \<open>validateWebhookSignature\<close> is total: for every payload, signature, secret and
  algorithm it returns a boolean and never throws; when the byte length of the supplied
  signature differs from that of the computed digest (so that \<open>timingSafeEqual\<close>
  raises), it returns \<open>false\<close>.
\<close>

theorem validateWebhookSignature_total:
  "(\<exists>b. validateWebhookSignature L payload signature secret algorithm = Inr b) \<and>
   (\<forall>expected. hmac_hex L algorithm secret payload = Inr expected \<and>
        length (buffer_from L signature) \<noteq> length (buffer_from L expected) \<longrightarrow>
        timingSafeEqual (buffer_from L signature) (buffer_from L expected)
          = Inl (ErrorObj ''Input buffers must have the same byte length'') \<and>
        validateWebhookSignature L payload signature secret algorithm = Inr False)"
  by (auto simp: validateWebhookSignature_def validateWebhookSignature_try_def
        timingSafeEqual_def split: sum.splits)

theorem validateWebhookSignature_total_witness:
  "hmac_hex toy_hmac Sha256 ''secret'' ''body'' = Inr ''beef'' \<and>
   length (buffer_from toy_hmac ''be'') \<noteq> length (buffer_from toy_hmac ''beef'') \<and>
   validateWebhookSignature toy_hmac ''body'' ''be'' ''secret'' Sha256 = Inr False"
proof -
  have h: "hmac_hex toy_hmac Sha256 ''secret'' ''body'' = Inr ''beef'' \<and>
      length (buffer_from toy_hmac ''be'') \<noteq> length (buffer_from toy_hmac ''beef'')"
    by (simp add: toy_hmac_def)
  from validateWebhookSignature_total [of toy_hmac "''body''" "''be''" "''secret''" Sha256] h
  show ?thesis by blast
qed

subsection \<open>Advisory lock\<close>

text \<open>
  C4. \<open>withAdvisoryLock\<close> runs \<open>fn\<close> if and only if the lock was acquired, that is, if
  and only if the first row of the store's answer to \<open>pg_try_advisory_lock\<close> has
  \<open>ok = true\<close>. When the lock was not acquired (the query itself failed, it returned no
  row, or the first row says \<open>false\<close> or \<open>null\<close>, as when the lock is held elsewhere)
  it returns \<open>undefined\<close> without running \<open>fn\<close> and without sending an unlock. Whenever
  \<open>fn\<close> runs, the unlock query is sent after it, also when \<open>fn\<close> throws, whatever the
  store answers to the unlock, and the result or the exception of \<open>fn\<close> is passed on.
\<close>

theorem withAdvisoryLock_correct:
  assumes "withAdvisoryLock env fn [] = (r, events)"
  shows "(EvFn \<in> set events \<longleftrightarrow> (\<exists>rs. acquire_answer env = Rows (Some True # rs))) \<and>
         ((\<exists>rs. acquire_answer env = Rows (Some True # rs)) \<longrightarrow>
            events = [EvAcquire, EvFn, EvRelease] \<and>
            r = (case fn of Inl e \<Rightarrow> Inl e | Inr v \<Rightarrow> Inr (Some v))) \<and>
         (acquire_answer env = QueryError \<or> acquire_answer env = Rows [] \<or>
          (\<exists>rs. acquire_answer env = Rows (None # rs)) \<or>
          (\<exists>rs. acquire_answer env = Rows (Some False # rs)) \<longrightarrow>
            r = Inr None \<and> events = [EvAcquire])"
  using assms
  by (auto simp: withAdvisoryLock_def tryAcquireLock_def releaseLock_def acquired_of_def
        Let_def split: if_splits sum.splits query_result.splits list.splits)

theorem withAdvisoryLock_correct_witness:
  "withAdvisoryLock \<lparr> acquire_answer = Rows [Some True], unlock_answer = QueryError \<rparr>
       (Inl (ErrorObj ''boom'') :: thrown + nat) []
     = (Inl (ErrorObj ''boom''), [EvAcquire, EvFn, EvRelease]) \<and>
   withAdvisoryLock \<lparr> acquire_answer = QueryError, unlock_answer = Rows [Some True] \<rparr>
       (Inr (7::nat)) []
     = (Inr None, [EvAcquire]) \<and>
   withAdvisoryLock \<lparr> acquire_answer = Rows [Some False], unlock_answer = Rows [Some True] \<rparr>
       (Inr (7::nat)) []
     = (Inr None, [EvAcquire])"
proof -
  obtain r w where a:
    "withAdvisoryLock \<lparr> acquire_answer = Rows [Some True], unlock_answer = QueryError \<rparr>
       (Inl (ErrorObj ''boom'') :: thrown + nat) [] = (r, w)"
    by (cases "withAdvisoryLock
       \<lparr> acquire_answer = Rows [Some True], unlock_answer = QueryError \<rparr>
       (Inl (ErrorObj ''boom'') :: thrown + nat) []") blast
  obtain r' w' where b:
    "withAdvisoryLock \<lparr> acquire_answer = QueryError, unlock_answer = Rows [Some True] \<rparr>
       (Inr (7::nat)) [] = (r', w')"
    by (cases "withAdvisoryLock \<lparr> acquire_answer = QueryError, unlock_answer = Rows [Some True] \<rparr>
       (Inr (7::nat)) []") blast
  obtain r'' w'' where c:
    "withAdvisoryLock \<lparr> acquire_answer = Rows [Some False], unlock_answer = Rows [Some True] \<rparr>
       (Inr (7::nat)) [] = (r'', w'')"
    by (cases "withAdvisoryLock
       \<lparr> acquire_answer = Rows [Some False], unlock_answer = Rows [Some True] \<rparr>
       (Inr (7::nat)) []") blast
  from withAdvisoryLock_correct [OF a]
  have "w = [EvAcquire, EvFn, EvRelease] \<and> r = Inl (ErrorObj ''boom'')"
    by simp
  moreover from withAdvisoryLock_correct [OF b]
  have "r' = Inr None \<and> w' = [EvAcquire]"
    by simp
  moreover from withAdvisoryLock_correct [OF c]
  have "r'' = Inr None \<and> w'' = [EvAcquire]"
    by simp
  ultimately show ?thesis using a b c by simp
qed

subsection \<open>Status route\<close>

text \<open>
  C9 (as amended). \<open>GET /integrations/{provider}/status\<close> for an authenticated user who
  has no integration for that provider that is not soft-deleted answers with HTTP 200
  and the body \<open>{connected: false, provider}\<close>, for every non-empty provider
  identifier, when the request is within the router's rate limit and the lookup of the
  integration does not throw. When the lookup throws, the handler answers with HTTP 500
  and \<open>{error: 'Failed to get integration status'}\<close>; over the rate limit the router
  answers 429. The handler never answers 404: only a request with an empty provider
  segment, which does not reach the handler, gets the application's 404.
\<close>

theorem status_route_not_connected:
  assumes "\<forall>r \<in> set tbl. \<not> (userId r = uid \<and> provider r = prov \<and> deletedAt r = None)"
    and "prov \<noteq> []"
  shows "status_route False (AuthUser uid) (Inr tbl) prov
           = \<lparr> http_code = 200, body = NotConnected False prov \<rparr> \<and>
         status_route False (AuthUser uid) (Inl e) prov
           = \<lparr> http_code = 500, body = ErrorBody ''Failed to get integration status'' \<rparr> \<and>
         status_route True auth store prov
           = \<lparr> http_code = 429, body = PlainText ''Too many integration requests from this IP'' \<rparr> \<and>
         http_code (status_route limited auth store prov) \<in> {200, 401, 429, 500} \<and>
         status_route False auth store [] = \<lparr> http_code = 404, body = NotFoundPage \<rparr>"
proof -
  have "filter (\<lambda>r. userId r = uid \<and> provider r = prov \<and> deletedAt r = None) tbl = []"
    using assms(1) by (simp add: filter_empty_conv)
  then have "status_route False (AuthUser uid) (Inr tbl) prov
           = \<lparr> http_code = 200, body = NotConnected False prov \<rparr>"
    using assms(2) by (simp add: status_route_def latest_updated_def)
  moreover have "http_code (status_route limited auth store prov) \<in> {200, 401, 429, 500}"
    using assms(2)
    by (simp add: status_route_def split: auth_outcome.splits sum.splits option.splits)
  ultimately show ?thesis
    using assms(2) by (simp add: status_route_def)
qed

theorem status_route_not_connected_witness:
  "status_route False (AuthUser ''u1'') (Inr [sample_row]) ''shopify''
     = \<lparr> http_code = 200, body = NotConnected False ''shopify'' \<rparr> \<and>
   status_route False (AuthUser ''u1'') (Inr []) ''no-such-provider''
     = \<lparr> http_code = 200, body = NotConnected False ''no-such-provider'' \<rparr>"
proof -
  have a: "\<forall>r \<in> set [sample_row].
      \<not> (userId r = ''u1'' \<and> provider r = ''shopify'' \<and> deletedAt r = None)"
    by (simp add: sample_row_def)
  have b: "\<forall>r \<in> set ([] :: integration list).
      \<not> (userId r = ''u1'' \<and> provider r = ''no-such-provider'' \<and> deletedAt r = None)"
    by simp
  from status_route_not_connected [OF a] status_route_not_connected [OF b]
  show ?thesis by simp
qed

text \<open>
  The claim as written promises 200 for every provider identifier. For a user without
  any integration, a lookup that throws is answered with 500, and an empty provider
  segment with 404.
\<close>

theorem status_route_error_counterexample:
  "status_route False (AuthUser ''u1'') (Inl (ErrorObj ''Cannot reach database server''))
       ''klaviyo''
     = \<lparr> http_code = 500, body = ErrorBody ''Failed to get integration status'' \<rparr> \<and>
   status_route False (AuthUser ''u1'') (Inr []) []
     = \<lparr> http_code = 404, body = NotFoundPage \<rparr>"
  by (simp add: status_route_def)

subsection \<open>Pagination\<close>

lemma truthy_idem: "truthy (truthy x) = truthy x"
  by (simp add: truthy_def split: option.splits)

lemma truthy_Some: "truthy x = Some u \<Longrightarrow> truthy (Some u) = Some u"
  by (auto simp: truthy_def split: option.splits if_splits)











lemma truthy_Some_nonempty: "u \<noteq> [] \<Longrightarrow> truthy (Some u) = Some u"
  by (simp add: truthy_def)

lemma truthy_result_nonempty: "truthy x = Some u \<Longrightarrow> u \<noteq> []"
  by (auto simp: truthy_def split: option.splits if_splits)

lemma klaviyo_more:
  assumes "klaviyo_signal W params first k = MorePages"
  shows "\<exists>tok n nxt u. kl_token W k = Inr tok \<and>
           kl_get W k (fst (klaviyo_state W params first k)) tok params = KlPage n nxt \<and>
           truthy nxt = Some u \<and>
           klaviyo_state W params first (Suc k) = (u, snd (klaviyo_state W params first k) + n)"
  using assms
  by (auto simp: klaviyo_signal_def
           split: prod.splits sum.splits kl_answer.splits if_splits option.splits)



lemma klaviyo_loop_on_trace:
  assumes "klaviyo_loop W params i nextUrl t = Some y"
  shows "nextUrl = Some (fst (klaviyo_state W params first i)) \<and>
         fst (klaviyo_state W params first i) \<noteq> [] \<longrightarrow>
         (\<exists>j. klaviyo_signal W params first j \<noteq> MorePages)"
proof (rule klaviyo_loop.raw_induct
        [where P = "\<lambda>W params i nextUrl t y.
           nextUrl = Some (fst (klaviyo_state W params first i)) \<and>
           fst (klaviyo_state W params first i) \<noteq> [] \<longrightarrow>
           (\<exists>j. klaviyo_signal W params first j \<noteq> MorePages)",
         OF _ assms], goal_cases)
  case (1 f W params i nextUrl t y)
  let ?st = "klaviyo_state W params first"
  show ?case
  proof
    assume c: "nextUrl = Some (fst (?st i)) \<and> fst (?st i) \<noteq> []"
    then have tr: "truthy nextUrl = Some (fst (?st i))" by (simp add: truthy_def)
    show "\<exists>j. klaviyo_signal W params first j \<noteq> MorePages"
    proof (cases "klaviyo_signal W params first i = MorePages")
      case False
      then show ?thesis by blast
    next
      case True
      from klaviyo_more [OF True] obtain tok n nxt u where
        m: "kl_token W i = Inr tok" "kl_get W i (fst (?st i)) tok params = KlPage n nxt"
           "truthy nxt = Some u" "?st (Suc i) = (u, snd (?st i) + n)"
        by blast
      from 1(2) have "f W params (Suc i) (truthy nxt) (t + n) = Some y"
        by (simp add: tr m(1,2))
      from 1(1) [OF this] m(3,4) truthy_result_nonempty [OF m(3)] show ?thesis
        by (simp del: klaviyo_state.simps)
    qed
  qed
qed

lemma klaviyo_loop_endless:
  assumes "first \<noteq> []" and "\<forall>j. klaviyo_signal W params first j = MorePages"
  shows "klaviyo_loop W params 0 (Some first) 0 = None"
proof (cases "klaviyo_loop W params 0 (Some first) 0")
  case None
  then show ?thesis .
next
  case (Some y)
  from klaviyo_loop_on_trace [OF Some, of first] assms show ?thesis by simp
qed

lemma baseUrl_nonempty [simp]: "baseUrl @ rest \<noteq> []"
  by (simp add: baseUrl_def)










subsection \<open>Watermarks\<close>

lemma foldl_max_mem: "foldl max (a::nat) xs \<in> insert a (set xs)"
  by (induction xs arbitrary: a) (auto simp: max_def)

lemma foldl_max_ge: "x \<in> insert a (set xs) \<Longrightarrow> x \<le> foldl max (a::nat) xs"
proof (induction xs arbitrary: a x)
  case Nil
  then show ?case by simp
next
  case (Cons y ys)
  have top: "max a y \<le> foldl max (max a y) ys"
    by (rule Cons.IH) simp
  from Cons.prems consider "x = a" | "x = y" | "x \<in> set ys" by auto
  then show ?case
  proof cases
    case 1
    with top show ?thesis by simp
  next
    case 2
    with top show ?thesis by simp
  next
    case 3
    then have "x \<le> foldl max (max a y) ys" by (intro Cons.IH) simp
    then show ?thesis by simp
  qed
qed

lemma getLastSyncTime_None:
  "getLastSyncTime logs iid dt = None \<longleftrightarrow>
     (\<forall>l \<in> set logs. \<not> (integrationId l = iid \<and> dataType (logged l) = dt \<and>
                            status_r (logged l) = StSuccess))"
proof -
  let ?P = "\<lambda>l. integrationId l = iid \<and> dataType (logged l) = dt \<and> status_r (logged l) = StSuccess"
  have "getLastSyncTime logs iid dt = None \<longleftrightarrow> filter ?P logs = []"
    by (simp add: getLastSyncTime_def split: list.splits)
  also have "\<dots> \<longleftrightarrow> (\<forall>l \<in> set logs. \<not> ?P l)"
    by (simp only: filter_empty_conv)
  finally show ?thesis .
qed

lemma getLastSyncTime_Some:
  assumes "getLastSyncTime logs iid dt = Some t"
  shows "(\<exists>l \<in> set logs. integrationId l = iid \<and> dataType (logged l) = dt \<and>
            status_r (logged l) = StSuccess \<and> completedAt l = t) \<and>
         (\<forall>l \<in> set logs. integrationId l = iid \<and> dataType (logged l) = dt \<and>
            status_r (logged l) = StSuccess \<longrightarrow> completedAt l \<le> t)"
proof -
  let ?P = "\<lambda>l. integrationId l = iid \<and> dataType (logged l) = dt \<and> status_r (logged l) = StSuccess"
  from assms obtain l ls where f: "filter ?P logs = l # ls"
    and t: "t = foldl max (completedAt l) (map completedAt ls)"
    by (auto simp: getLastSyncTime_def split: list.splits)
  have sub: "set (l # ls) = {x \<in> set logs. ?P x}"
    using f by (metis set_filter)
  have "t \<in> insert (completedAt l) (set (map completedAt ls))"
    unfolding t by (rule foldl_max_mem)
  then have "t \<in> completedAt ` set (l # ls)" by auto
  then have one: "\<exists>x \<in> set logs. ?P x \<and> completedAt x = t"
    unfolding sub by auto
  have two: "\<forall>x \<in> set logs. ?P x \<longrightarrow> completedAt x \<le> t"
  proof (intro ballI impI)
    fix x assume "x \<in> set logs" "?P x"
    then have "x \<in> set (l # ls)" unfolding sub by simp
    then have "completedAt x \<in> insert (completedAt l) (set (map completedAt ls))" by auto
    then show "completedAt x \<le> t" unfolding t by (rule foldl_max_ge)
  qed
  from one two show ?thesis by blast
qed

lemma orders_loop_agree:
  assumes "orders_loop prov ls i c t = Some y"
    and "\<forall>i v. updatedAtMin v = ls \<longrightarrow> prov i v = prov' i v"
  shows "orders_loop prov' ls i c t = Some y"
proof -
  have "(\<forall>i v. updatedAtMin v = ls \<longrightarrow> prov i v = prov' i v) \<longrightarrow>
          orders_loop prov' ls i c t = Some y"
  proof (rule orders_loop.raw_induct
      [where P = "\<lambda>prov ls i c t y. (\<forall>i v. updatedAtMin v = ls \<longrightarrow> prov i v = prov' i v) \<longrightarrow>
          orders_loop prov' ls i c t = Some y", OF _ assms(1)], goal_cases)
    case (1 f prov ls i c t y)
    show ?case
    proof
      assume ag: "\<forall>i v. updatedAtMin v = ls \<longrightarrow> prov i v = prov' i v"
      have eq: "prov' i (orders_variables c ls) = prov i (orders_variables c ls)"
        using ag by (simp add: orders_variables_def)
      show "orders_loop prov' ls i c t = Some y"
      proof (cases "prov i (orders_variables c ls)")
        case (GqlFailure e)
        with 1(2) show ?thesis by (subst orders_loop.simps) (simp add: eq)
      next
        case (GqlPage n h e)
        show ?thesis
        proof (cases h)
          case True
          with 1(2) GqlPage have "f prov ls (Suc i) e (t + n) = Some y" by simp
          from 1(1) [OF this] ag have "orders_loop prov' ls (Suc i) e (t + n) = Some y" by blast
          then show ?thesis by (subst orders_loop.simps) (simp add: eq GqlPage True)
        next
          case False
          with 1(2) GqlPage show ?thesis by (subst orders_loop.simps) (simp add: eq)
        qed
      qed
    qed
  qed
  with assms(2) show ?thesis by blast
qed

lemma orders_loop_cong:
  assumes "\<forall>i v. updatedAtMin v = ls \<longrightarrow> prov i v = prov' i v"
  shows "orders_loop prov ls i c t = orders_loop prov' ls i c t"
proof (cases "orders_loop prov ls i c t")
  case (Some y)
  with orders_loop_agree [OF Some assms] show ?thesis by simp
next
  case None
  show ?thesis
  proof (cases "orders_loop prov' ls i c t")
    case (Some y)
    have "\<forall>i v. updatedAtMin v = ls \<longrightarrow> prov' i v = prov i v" using assms by simp
    from orders_loop_agree [OF Some this] None show ?thesis by simp
  next
    case None': None
    with None show ?thesis by simp
  qed
qed


lemma products_loop_agree:
  assumes "products_loop prov i c t = Some y"
    and "\<forall>i v. updatedAtMin v = None \<longrightarrow> prov i v = prov' i v"
  shows "products_loop prov' i c t = Some y"
proof -
  have "(\<forall>i v. updatedAtMin v = None \<longrightarrow> prov i v = prov' i v) \<longrightarrow>
          products_loop prov' i c t = Some y"
  proof (rule products_loop.raw_induct
      [where P = "\<lambda>prov i c t y. (\<forall>i v. updatedAtMin v = None \<longrightarrow> prov i v = prov' i v) \<longrightarrow>
          products_loop prov' i c t = Some y", OF _ assms(1)], goal_cases)
    case (1 f prov i c t y)
    show ?case
    proof
      assume ag: "\<forall>i v. updatedAtMin v = None \<longrightarrow> prov i v = prov' i v"
      have eq: "prov' i (products_variables c) = prov i (products_variables c)"
        using ag by (simp add: products_variables_def)
      show "products_loop prov' i c t = Some y"
      proof (cases "prov i (products_variables c)")
        case (GqlFailure e)
        with 1(2) show ?thesis by (subst products_loop.simps) (simp add: eq)
      next
        case (GqlPage n h e)
        show ?thesis
        proof (cases h)
          case True
          with 1(2) GqlPage have "f prov (Suc i) e (t + n) = Some y" by simp
          from 1(1) [OF this] ag have "products_loop prov' (Suc i) e (t + n) = Some y" by blast
          then show ?thesis by (subst products_loop.simps) (simp add: eq GqlPage True)
        next
          case False
          with 1(2) GqlPage show ?thesis by (subst products_loop.simps) (simp add: eq)
        qed
      qed
    qed
  qed
  with assms(2) show ?thesis by blast
qed

lemma products_loop_cong:
  assumes "\<forall>i v. updatedAtMin v = None \<longrightarrow> prov i v = prov' i v"
  shows "products_loop prov i c t = products_loop prov' i c t"
proof (cases "products_loop prov i c t")
  case (Some y)
  with products_loop_agree [OF Some assms] show ?thesis by simp
next
  case None
  show ?thesis
  proof (cases "products_loop prov' i c t")
    case (Some y)
    have "\<forall>i v. updatedAtMin v = None \<longrightarrow> prov' i v = prov i v" using assms by simp
    from products_loop_agree [OF Some this] None show ?thesis by simp
  next
    case None': None
    with None show ?thesis by simp
  qed
qed

lemma klaviyo_loop_agree:
  assumes "klaviyo_loop W params i u t = Some y"
    and "\<forall>i url tok. kl_get W i url tok params = kl_get W' i url tok params"
    and "\<forall>i. kl_token W i = kl_token W' i"
  shows "klaviyo_loop W' params i u t = Some y"
proof -
  have "(\<forall>i url tok. kl_get W i url tok params = kl_get W' i url tok params) \<and>
        (\<forall>i. kl_token W i = kl_token W' i) \<longrightarrow> klaviyo_loop W' params i u t = Some y"
  proof (rule klaviyo_loop.raw_induct
      [where P = "\<lambda>W params i u t y.
         (\<forall>i url tok. kl_get W i url tok params = kl_get W' i url tok params) \<and>
         (\<forall>i. kl_token W i = kl_token W' i) \<longrightarrow> klaviyo_loop W' params i u t = Some y",
       OF _ assms(1)], goal_cases)
    case (1 f W params i u t y)
    show ?case
    proof
      assume ag: "(\<forall>i url tok. kl_get W i url tok params = kl_get W' i url tok params) \<and>
         (\<forall>i. kl_token W i = kl_token W' i)"
      show "klaviyo_loop W' params i u t = Some y"
      proof (cases "truthy u")
        case None
        with 1(2) show ?thesis by (subst klaviyo_loop.simps) simp
      next
        case (Some url)
        show ?thesis
        proof (cases "kl_token W i")
          case (Inl e)
          moreover from ag Inl have "kl_token W' i = Inl e" by simp
          ultimately show ?thesis using 1(2) Some by (subst klaviyo_loop.simps) simp
        next
          case (Inr tok)
          from ag Inr have tk: "kl_token W' i = Inr tok" by simp
          from ag have eq: "kl_get W' i url tok params = kl_get W i url tok params" by simp
          show ?thesis
          proof (cases "kl_get W i url tok params")
            case (KlFailure e)
            with 1(2) Some Inr show ?thesis
              by (subst klaviyo_loop.simps) (simp add: tk eq)
          next
            case (KlPage n nxt)
            with 1(2) Some Inr have "f W params (Suc i) (truthy nxt) (t + n) = Some y" by simp
            from 1(1) [OF this] ag
            have "klaviyo_loop W' params (Suc i) (truthy nxt) (t + n) = Some y" by blast
            then show ?thesis
              by (subst klaviyo_loop.simps) (simp add: Some tk eq KlPage)
          qed
        qed
      qed
    qed
  qed
  with assms(2,3) show ?thesis by blast
qed

lemma klaviyo_loop_cong:
  assumes "\<forall>i url tok. kl_get W i url tok params = kl_get W' i url tok params"
    and "\<forall>i. kl_token W i = kl_token W' i"
  shows "klaviyo_loop W params i u t = klaviyo_loop W' params i u t"
proof (cases "klaviyo_loop W params i u t")
  case (Some y)
  with klaviyo_loop_agree [OF Some assms] show ?thesis by simp
next
  case None
  show ?thesis
  proof (cases "klaviyo_loop W' params i u t")
    case (Some y)
    have a: "\<forall>i url tok. kl_get W' i url tok params = kl_get W i url tok params"
      and b: "\<forall>i. kl_token W' i = kl_token W i"
      using assms by simp_all
    from klaviyo_loop_agree [OF Some a b] None show ?thesis by simp
  next
    case None': None
    with None show ?thesis by simp
  qed
qed

lemma synced_once_orders:
  "getLastSyncTime (syncLogs synced_once) (id_integration (row synced_once)) ''orders'' = Some 120"
  by (simp add: getLastSyncTime_def synced_once_def live_row_def)

lemma synced_once_products:
  "getLastSyncTime (syncLogs synced_once) ''int_1'' ''products'' = Some 100"
  by (simp add: getLastSyncTime_def synced_once_def)

text \<open>
  C8 (as amended). \<open>getLastSyncTime\<close> is the \<open>completedAt\<close> of the most recent
  SyncLog row with status \<open>success\<close> for the integration and data type, and \<open>null\<close>
  when there is none. Only \<open>syncOrders\<close> and \<open>syncEvents\<close> use it: each of their
  requests carries that watermark as the filter (none when there is no such row), so
  their outcome depends on the provider only through its answers to requests carrying
  it. \<open>syncProducts\<close> never sends a watermark and \<open>syncCampaigns\<close> sends a fixed
  filter, whatever the sync log holds.
\<close>

theorem watermark_only_for_orders_and_events:
  "(getLastSyncTime logs iid dt = None \<longleftrightarrow>
      (\<forall>l \<in> set logs. \<not> (integrationId l = iid \<and> dataType (logged l) = dt \<and>
                             status_r (logged l) = StSuccess))) \<and>
   (\<forall>t. getLastSyncTime logs iid dt = Some t \<longrightarrow>
      (\<exists>l \<in> set logs. integrationId l = iid \<and> dataType (logged l) = dt \<and>
            status_r (logged l) = StSuccess \<and> completedAt l = t) \<and>
      (\<forall>l \<in> set logs. integrationId l = iid \<and> dataType (logged l) = dt \<and>
            status_r (logged l) = StSuccess \<longrightarrow> completedAt l \<le> t)) \<and>
   ((\<forall>i v. updatedAtMin v = getLastSyncTime (syncLogs s) (id_integration (row s)) ''orders''
        \<longrightarrow> prov i v = prov' i v) \<longrightarrow>
      syncOrders env prov s = syncOrders env prov' s) \<and>
   ((\<forall>i url tok.
        kl_get W i url tok
          (events_params (getLastSyncTime (syncLogs s) (id_integration (row s)) ''events'')) =
        kl_get W' i url tok
          (events_params (getLastSyncTime (syncLogs s) (id_integration (row s)) ''events''))) \<and>
    (\<forall>i. kl_token W i = kl_token W' i) \<longrightarrow>
      syncEvents env W s = syncEvents env W' s) \<and>
   filter_p (events_params w) = map_option DatetimeAfter w \<and>
   ((\<forall>i v. updatedAtMin v = None \<longrightarrow> prov i v = prov' i v) \<longrightarrow>
      syncProducts env prov s = syncProducts env prov' s) \<and>
   ((\<forall>i url tok. kl_get W i url tok campaigns_params = kl_get W' i url tok campaigns_params) \<and>
    (\<forall>i. kl_token W i = kl_token W' i) \<longrightarrow>
      syncCampaigns env W s = syncCampaigns env W' s)"
proof (intro conjI allI impI)
  show "getLastSyncTime logs iid dt = None \<longleftrightarrow>
      (\<forall>l \<in> set logs. \<not> (integrationId l = iid \<and> dataType (logged l) = dt \<and>
                             status_r (logged l) = StSuccess))"
    by (rule getLastSyncTime_None)
next
  fix t assume "getLastSyncTime logs iid dt = Some t"
  from getLastSyncTime_Some [OF this]
  show "\<exists>l \<in> set logs. integrationId l = iid \<and> dataType (logged l) = dt \<and>
            status_r (logged l) = StSuccess \<and> completedAt l = t" by blast
next
  fix t assume "getLastSyncTime logs iid dt = Some t"
  from getLastSyncTime_Some [OF this]
  show "\<forall>l \<in> set logs. integrationId l = iid \<and> dataType (logged l) = dt \<and>
            status_r (logged l) = StSuccess \<longrightarrow> completedAt l \<le> t" by blast
next
  assume "\<forall>i v. updatedAtMin v = getLastSyncTime (syncLogs s) (id_integration (row s)) ''orders''
        \<longrightarrow> prov i v = prov' i v"
  from orders_loop_cong [OF this] show "syncOrders env prov s = syncOrders env prov' s"
    by (simp add: syncOrders_def)
next
  assume "(\<forall>i url tok.
        kl_get W i url tok
          (events_params (getLastSyncTime (syncLogs s) (id_integration (row s)) ''events'')) =
        kl_get W' i url tok
          (events_params (getLastSyncTime (syncLogs s) (id_integration (row s)) ''events''))) \<and>
    (\<forall>i. kl_token W i = kl_token W' i)"
  then have "klaviyo_loop W
      (events_params (getLastSyncTime (syncLogs s) (id_integration (row s)) ''events''))
      0 (Some (baseUrl @ ''/events/'')) 0 =
    klaviyo_loop W'
      (events_params (getLastSyncTime (syncLogs s) (id_integration (row s)) ''events''))
      0 (Some (baseUrl @ ''/events/'')) 0"
    by (intro klaviyo_loop_cong) simp_all
  then show "syncEvents env W s = syncEvents env W' s"
    by (simp add: syncEvents_def)
next
  show "filter_p (events_params w) = map_option DatetimeAfter w"
    by (simp add: events_params_def split: option.splits)
next
  assume "\<forall>i v. updatedAtMin v = None \<longrightarrow> prov i v = prov' i v"
  from products_loop_cong [OF this] show "syncProducts env prov s = syncProducts env prov' s"
    by (simp add: syncProducts_def)
next
  assume "(\<forall>i url tok. kl_get W i url tok campaigns_params = kl_get W' i url tok campaigns_params) \<and>
    (\<forall>i. kl_token W i = kl_token W' i)"
  then have "klaviyo_loop W campaigns_params 0 (Some (baseUrl @ ''/campaigns/'')) 0 =
    klaviyo_loop W' campaigns_params 0 (Some (baseUrl @ ''/campaigns/'')) 0"
    by (intro klaviyo_loop_cong) simp_all
  then show "syncCampaigns env W s = syncCampaigns env W' s"
    by (simp add: syncCampaigns_def)
qed

theorem watermark_only_for_orders_and_events_witness:
  "getLastSyncTime (syncLogs synced_once) (id_integration (row synced_once)) ''orders'' = Some 120 \<and>
   syncOrders quiet_env two_page_shop synced_once = syncOrders quiet_env since_120_only synced_once \<and>
   syncProducts quiet_env three_products synced_once
     = syncProducts quiet_env unfiltered_only synced_once"
proof -
  have a: "\<forall>i v. updatedAtMin v =
        getLastSyncTime (syncLogs synced_once) (id_integration (row synced_once)) ''orders''
        \<longrightarrow> two_page_shop i v = since_120_only i v"
    by (simp add: synced_once_orders since_120_only_def)
  have b: "\<forall>i v. updatedAtMin v = None \<longrightarrow> three_products i v = unfiltered_only i v"
    by (simp add: three_products_def unfiltered_only_def)
  from watermark_only_for_orders_and_events
         [of "syncLogs synced_once" "''int_1''" "''orders''" synced_once two_page_shop
             since_120_only quiet_env]
    a
  have o: "syncOrders quiet_env two_page_shop synced_once
         = syncOrders quiet_env since_120_only synced_once" by blast
  from watermark_only_for_orders_and_events
         [of "syncLogs synced_once" "''int_1''" "''orders''" synced_once three_products
             unfiltered_only quiet_env]
    b
  have p: "syncProducts quiet_env three_products synced_once
         = syncProducts quiet_env unfiltered_only synced_once" by blast
  from synced_once_orders o p show ?thesis by simp
qed

text \<open>
  The claim as written says that every routine applies the watermark. The store
  \<open>synced_once\<close> holds a successful products sync completed at 100, and
  \<open>syncProducts\<close> succeeds against a provider that rejects any request carrying a
  watermark: its request carried none.
\<close>

theorem products_ignore_watermark_counterexample:
  "getLastSyncTime (syncLogs synced_once) ''int_1'' ''products'' = Some 100 \<and>
   syncProducts quiet_env unfiltered_only synced_once =
     Some ((Inr \<lparr> dataType = ''products'', recordsCount = 3, status_r = StSuccess,
                  errorMessage = None \<rparr>,
            synced_once \<lparr> syncLogs := syncLogs synced_once @
               [\<lparr> integrationId = ''int_1'',
                  logged = \<lparr> dataType = ''products'', recordsCount = 3, status_r = StSuccess,
                             errorMessage = None \<rparr>,
                  completedAt = 1000 \<rparr>] \<rparr>), 1)"
proof -
  have "products_loop unfiltered_only 0 None 0 = Some (Inr 3, 1)"
    by (subst products_loop.simps) (simp add: unfiltered_only_def products_variables_def)
  then have "syncProducts quiet_env unfiltered_only synced_once =
     Some ((Inr \<lparr> dataType = ''products'', recordsCount = 3, status_r = StSuccess,
                  errorMessage = None \<rparr>,
            synced_once \<lparr> syncLogs := syncLogs synced_once @
               [\<lparr> integrationId = ''int_1'',
                  logged = \<lparr> dataType = ''products'', recordsCount = 3, status_r = StSuccess,
                             errorMessage = None \<rparr>,
                  completedAt = 1000 \<rparr>] \<rparr>), 1)"
    by (simp add: syncProducts_def routine_frame_def logSync_def Let_def
          quiet_env_def synced_once_def live_row_def)
  with synced_once_products show ?thesis by (rule conjI)
qed

subsection \<open>sync()\<close>

lemma sync_catch_throw:
  "sync_catch env e results s = (Inl e', s') \<Longrightarrow> status_fail env ''error'' = Some e'"
  by (auto simp: sync_catch_def updateIntegrationStatus_def split: option.splits)

lemma sync_catch_ok:
  "status_fail env ''error'' = None \<Longrightarrow>
   sync_catch env e results s =
     (Inr (results @ [sync_error_entry e]),
      s\<lparr> row := (row s)\<lparr> status := ''error'', lastSyncAt := lastSyncAt (row s),
                          updatedAt := now env \<rparr> \<rparr>)"
  by (simp add: sync_catch_def updateIntegrationStatus_def)

lemma sync_catch_rejected:
  "status_fail env ''error'' = Some e' \<Longrightarrow> sync_catch env e results s = (Inl e', s)"
  by (simp add: sync_catch_def updateIntegrationStatus_def)

lemma sync_body_throw:
  "sync_body env routines s = Some (Inl e', s') \<Longrightarrow> status_fail env ''error'' = Some e'"
  by (auto simp: sync_body_def dest: sync_catch_throw
           split: prod.splits option.splits sum.splits)

lemma routine_frame_logged:
  "log_fail env (entry_of dt fetched) = None \<Longrightarrow>
   routine_frame env dt fetched s =
     (Inr (entry_of dt fetched),
      s\<lparr> syncLogs := syncLogs s @
            [\<lparr> integrationId = id_integration (row s), logged = entry_of dt fetched,
               completedAt = now env \<rparr>] \<rparr>)"
  by (auto simp: routine_frame_def logSync_def entry_of_def Let_def split: sum.splits)

lemma routine_frame_throws:
  "routine_frame env dt fetched s = (Inl e', s') \<Longrightarrow>
   s' = s \<and> (\<exists>e. log_fail env (entry_of dt (Inl e)) = Some e')"
  by (auto simp: routine_frame_def logSync_def entry_of_def Let_def
           split: sum.splits option.splits)

lemma syncCustomers_logged:
  "log_fail env (entry_of ''customers'' (Inr 0)) = None \<Longrightarrow>
   syncCustomers env s =
     (Inr (entry_of ''customers'' (Inr 0)),
      s\<lparr> syncLogs := syncLogs s @
            [\<lparr> integrationId = id_integration (row s), logged = entry_of ''customers'' (Inr 0),
               completedAt = now env \<rparr>] \<rparr>)"
  by (simp add: syncCustomers_def logSync_def entry_of_def Let_def)

lemma getLastSyncTime_append_other:
  assumes "\<forall>l \<in> set extra. dataType (logged l) \<noteq> dt"
  shows "getLastSyncTime (logs @ extra) iid dt = getLastSyncTime logs iid dt"
proof -
  have "filter (\<lambda>l. integrationId l = iid \<and> dataType (logged l) = dt \<and>
                    status_r (logged l) = StSuccess) extra = []"
    using assms by (auto simp: filter_empty_conv)
  then show ?thesis by (simp add: getLastSyncTime_def)
qed

lemma klaviyo_sync_run:
  "(syncCampaigns env W s = None \<longrightarrow> KlaviyoConnector_sync env W s = None) \<and>
   (syncCampaigns env W s = Some ((Inl e, sf), m) \<longrightarrow>
      KlaviyoConnector_sync env W s = Some (sync_catch env e [] sf)) \<and>
   (syncCampaigns env W s = Some ((Inr x1, s1), n1) \<longrightarrow>
      (syncFlows env W s1 = None \<longrightarrow> KlaviyoConnector_sync env W s = None) \<and>
      (syncFlows env W s1 = Some ((Inl e, sf), m) \<longrightarrow>
         KlaviyoConnector_sync env W s = Some (sync_catch env e [x1] sf)) \<and>
      (syncFlows env W s1 = Some ((Inr x2, s2), n2) \<longrightarrow>
         (syncMetrics env W s2 = (Inl e, sf) \<longrightarrow>
            KlaviyoConnector_sync env W s = Some (sync_catch env e [x1, x2] sf)) \<and>
         (syncMetrics env W s2 = (Inr x3, s3) \<longrightarrow>
            (syncEvents env W s3 = None \<longrightarrow> KlaviyoConnector_sync env W s = None) \<and>
            (syncEvents env W s3 = Some ((Inl e, sf), m) \<longrightarrow>
               KlaviyoConnector_sync env W s = Some (sync_catch env e [x1, x2, x3] sf)) \<and>
            (syncEvents env W s3 = Some ((Inr x4, s4), n4) \<longrightarrow>
               (status_fail env ''connected'' = Some e \<longrightarrow>
                  KlaviyoConnector_sync env W s
                    = Some (sync_catch env e [x1, x2, x3, x4] s4)) \<and>
               (status_fail env ''connected'' = None \<longrightarrow>
                  KlaviyoConnector_sync env W s
                    = Some (Inr [x1, x2, x3, x4],
                            s4\<lparr> row := (row s4)\<lparr> status := ''connected'',
                                                   lastSyncAt := Some (now env),
                                                   updatedAt := now env \<rparr> \<rparr>))))))"
  by (simp add: KlaviyoConnector_sync_def sync_body_def updateIntegrationStatus_def)

lemma shopify_sync_run:
  "ShopifyConnector_sync env (Inl e) prov s = Some (sync_catch env e [] s) \<and>
   (syncOrders env prov s = None \<longrightarrow> ShopifyConnector_sync env (Inr ()) prov s = None) \<and>
   (syncOrders env prov s = Some ((Inl e, sf), m) \<longrightarrow>
      ShopifyConnector_sync env (Inr ()) prov s = Some (sync_catch env e [] sf)) \<and>
   (syncOrders env prov s = Some ((Inr x1, s1), n1) \<longrightarrow>
      (syncProducts env prov s1 = None \<longrightarrow> ShopifyConnector_sync env (Inr ()) prov s = None) \<and>
      (syncProducts env prov s1 = Some ((Inl e, sf), m) \<longrightarrow>
         ShopifyConnector_sync env (Inr ()) prov s = Some (sync_catch env e [x1] sf)) \<and>
      (syncProducts env prov s1 = Some ((Inr x2, s2), n2) \<longrightarrow>
         (syncCustomers env s2 = (Inl e, sf) \<longrightarrow>
            ShopifyConnector_sync env (Inr ()) prov s = Some (sync_catch env e [x1, x2] sf)) \<and>
         (syncCustomers env s2 = (Inr x3, s3) \<longrightarrow>
            (status_fail env ''connected'' = Some e \<longrightarrow>
               ShopifyConnector_sync env (Inr ()) prov s
                 = Some (sync_catch env e [x1, x2, x3] s3)) \<and>
            (status_fail env ''connected'' = None \<longrightarrow>
               ShopifyConnector_sync env (Inr ()) prov s
                 = Some (Inr [x1, x2, x3],
                         s3\<lparr> row := (row s3)\<lparr> status := ''connected'',
                                                lastSyncAt := Some (now env),
                                                updatedAt := now env \<rparr> \<rparr>)))))"
  by (simp add: ShopifyConnector_sync_def sync_body_def updateIntegrationStatus_def)

lemma entry_of_dataType [simp]: "dataType (entry_of dt fetched) = dt"
  by (simp add: entry_of_def split: sum.splits)

lemma klaviyo_routines_logged:
  assumes "log_fail env = (\<lambda>r. None)"
    and "klaviyo_loop W campaigns_params 0 (Some (baseUrl @ ''/campaigns/'')) 0 = Some (f1, n1)"
    and "klaviyo_loop W flows_params 0 (Some (baseUrl @ ''/flows/'')) 0 = Some (f2, n2)"
    and "klaviyo_loop W
           (events_params (getLastSyncTime (syncLogs s) (id_integration (row s)) ''events''))
           0 (Some (baseUrl @ ''/events/'')) 0 = Some (f4, n4)"
  shows "syncCampaigns env W s =
      Some ((Inr (entry_of ''campaigns'' f1),
             s\<lparr> syncLogs := syncLogs s @
                   [\<lparr> integrationId = id_integration (row s), logged = entry_of ''campaigns'' f1,
                      completedAt = now env \<rparr>] \<rparr>), n1)"
    and "syncFlows env W
           (s\<lparr> syncLogs := syncLogs s @
                 [\<lparr> integrationId = id_integration (row s), logged = entry_of ''campaigns'' f1,
                    completedAt = now env \<rparr>] \<rparr>) =
      Some ((Inr (entry_of ''flows'' f2),
             s\<lparr> syncLogs := syncLogs s @
                   [\<lparr> integrationId = id_integration (row s), logged = entry_of ''campaigns'' f1,
                      completedAt = now env \<rparr>,
                    \<lparr> integrationId = id_integration (row s), logged = entry_of ''flows'' f2,
                      completedAt = now env \<rparr>] \<rparr>), n2)"
    and "syncMetrics env W
           (s\<lparr> syncLogs := syncLogs s @
                 [\<lparr> integrationId = id_integration (row s), logged = entry_of ''campaigns'' f1,
                    completedAt = now env \<rparr>,
                  \<lparr> integrationId = id_integration (row s), logged = entry_of ''flows'' f2,
                    completedAt = now env \<rparr>] \<rparr>) =
      (Inr (entry_of ''metrics'' (metrics_fetch W)),
       s\<lparr> syncLogs := syncLogs s @
             [\<lparr> integrationId = id_integration (row s), logged = entry_of ''campaigns'' f1,
                completedAt = now env \<rparr>,
              \<lparr> integrationId = id_integration (row s), logged = entry_of ''flows'' f2,
                completedAt = now env \<rparr>,
              \<lparr> integrationId = id_integration (row s),
                logged = entry_of ''metrics'' (metrics_fetch W), completedAt = now env \<rparr>] \<rparr>)"
    and "syncEvents env W
           (s\<lparr> syncLogs := syncLogs s @
                 [\<lparr> integrationId = id_integration (row s), logged = entry_of ''campaigns'' f1,
                    completedAt = now env \<rparr>,
                  \<lparr> integrationId = id_integration (row s), logged = entry_of ''flows'' f2,
                    completedAt = now env \<rparr>,
                  \<lparr> integrationId = id_integration (row s),
                    logged = entry_of ''metrics'' (metrics_fetch W), completedAt = now env \<rparr>] \<rparr>) =
      Some ((Inr (entry_of ''events'' f4),
             s\<lparr> syncLogs := syncLogs s @
                   [\<lparr> integrationId = id_integration (row s), logged = entry_of ''campaigns'' f1,
                      completedAt = now env \<rparr>,
                    \<lparr> integrationId = id_integration (row s), logged = entry_of ''flows'' f2,
                      completedAt = now env \<rparr>,
                    \<lparr> integrationId = id_integration (row s),
                      logged = entry_of ''metrics'' (metrics_fetch W), completedAt = now env \<rparr>,
                    \<lparr> integrationId = id_integration (row s), logged = entry_of ''events'' f4,
                      completedAt = now env \<rparr>] \<rparr>), n4)"
proof -
  let ?log = "\<lambda>x. \<lparr> integrationId = id_integration (row s), logged = x, completedAt = now env \<rparr>"
  let ?s3 = "s\<lparr> syncLogs := syncLogs s @ [?log (entry_of ''campaigns'' f1),
                                            ?log (entry_of ''flows'' f2),
                                            ?log (entry_of ''metrics'' (metrics_fetch W))] \<rparr>"
  have q: "\<And>r. log_fail env r = None" by (simp add: assms(1))
  show "syncCampaigns env W s =
      Some ((Inr (entry_of ''campaigns'' f1),
             s\<lparr> syncLogs := syncLogs s @ [?log (entry_of ''campaigns'' f1)] \<rparr>), n1)"
    by (simp add: syncCampaigns_def assms(2) routine_frame_logged [OF q])
  show "syncFlows env W (s\<lparr> syncLogs := syncLogs s @ [?log (entry_of ''campaigns'' f1)] \<rparr>) =
      Some ((Inr (entry_of ''flows'' f2),
             s\<lparr> syncLogs := syncLogs s @ [?log (entry_of ''campaigns'' f1),
                                          ?log (entry_of ''flows'' f2)] \<rparr>), n2)"
    by (simp add: syncFlows_def assms(3) routine_frame_logged [OF q])
  show "syncMetrics env W
           (s\<lparr> syncLogs := syncLogs s @ [?log (entry_of ''campaigns'' f1),
                                        ?log (entry_of ''flows'' f2)] \<rparr>) =
      (Inr (entry_of ''metrics'' (metrics_fetch W)), ?s3)"
    by (simp add: syncMetrics_def routine_frame_logged [OF q])
  have w: "getLastSyncTime (syncLogs ?s3) (id_integration (row ?s3)) ''events''
      = getLastSyncTime (syncLogs s) (id_integration (row s)) ''events''"
    by (simp add: getLastSyncTime_append_other)
  show "syncEvents env W ?s3 =
      Some ((Inr (entry_of ''events'' f4),
             s\<lparr> syncLogs := syncLogs s @ [?log (entry_of ''campaigns'' f1),
                                          ?log (entry_of ''flows'' f2),
                                          ?log (entry_of ''metrics'' (metrics_fetch W)),
                                          ?log (entry_of ''events'' f4)] \<rparr>), n4)"
    unfolding syncEvents_def Let_def w
    by (simp add: assms(4) routine_frame_logged [OF q])
qed

lemma shopify_routines_logged:
  assumes "log_fail env = (\<lambda>r. None)"
    and "orders_loop prov (getLastSyncTime (syncLogs s) (id_integration (row s)) ''orders'')
           0 None 0 = Some (f1, n1)"
    and "products_loop prov 0 None 0 = Some (f2, n2)"
  shows "syncOrders env prov s =
      Some ((Inr (entry_of ''orders'' f1),
             s\<lparr> syncLogs := syncLogs s @
                   [\<lparr> integrationId = id_integration (row s), logged = entry_of ''orders'' f1,
                      completedAt = now env \<rparr>] \<rparr>), n1)"
    and "syncProducts env prov
           (s\<lparr> syncLogs := syncLogs s @
                 [\<lparr> integrationId = id_integration (row s), logged = entry_of ''orders'' f1,
                    completedAt = now env \<rparr>] \<rparr>) =
      Some ((Inr (entry_of ''products'' f2),
             s\<lparr> syncLogs := syncLogs s @
                   [\<lparr> integrationId = id_integration (row s), logged = entry_of ''orders'' f1,
                      completedAt = now env \<rparr>,
                    \<lparr> integrationId = id_integration (row s), logged = entry_of ''products'' f2,
                      completedAt = now env \<rparr>] \<rparr>), n2)"
    and "syncCustomers env
           (s\<lparr> syncLogs := syncLogs s @
                 [\<lparr> integrationId = id_integration (row s), logged = entry_of ''orders'' f1,
                    completedAt = now env \<rparr>,
                  \<lparr> integrationId = id_integration (row s), logged = entry_of ''products'' f2,
                    completedAt = now env \<rparr>] \<rparr>) =
      (Inr (entry_of ''customers'' (Inr 0)),
       s\<lparr> syncLogs := syncLogs s @
             [\<lparr> integrationId = id_integration (row s), logged = entry_of ''orders'' f1,
                completedAt = now env \<rparr>,
              \<lparr> integrationId = id_integration (row s), logged = entry_of ''products'' f2,
                completedAt = now env \<rparr>,
              \<lparr> integrationId = id_integration (row s),
                logged = entry_of ''customers'' (Inr 0), completedAt = now env \<rparr>] \<rparr>)"
proof -
  have q: "\<And>r. log_fail env r = None" by (simp add: assms(1))
  show "syncOrders env prov s =
      Some ((Inr (entry_of ''orders'' f1),
             s\<lparr> syncLogs := syncLogs s @
                   [\<lparr> integrationId = id_integration (row s), logged = entry_of ''orders'' f1,
                      completedAt = now env \<rparr>] \<rparr>), n1)"
    by (simp add: syncOrders_def Let_def assms(2) routine_frame_logged [OF q])
  show "syncProducts env prov
           (s\<lparr> syncLogs := syncLogs s @
                 [\<lparr> integrationId = id_integration (row s), logged = entry_of ''orders'' f1,
                    completedAt = now env \<rparr>] \<rparr>) =
      Some ((Inr (entry_of ''products'' f2),
             s\<lparr> syncLogs := syncLogs s @
                   [\<lparr> integrationId = id_integration (row s), logged = entry_of ''orders'' f1,
                      completedAt = now env \<rparr>,
                    \<lparr> integrationId = id_integration (row s), logged = entry_of ''products'' f2,
                      completedAt = now env \<rparr>] \<rparr>), n2)"
    by (simp add: syncProducts_def assms(3) routine_frame_logged [OF q])
  show "syncCustomers env
           (s\<lparr> syncLogs := syncLogs s @
                 [\<lparr> integrationId = id_integration (row s), logged = entry_of ''orders'' f1,
                    completedAt = now env \<rparr>,
                  \<lparr> integrationId = id_integration (row s), logged = entry_of ''products'' f2,
                    completedAt = now env \<rparr>] \<rparr>) =
      (Inr (entry_of ''customers'' (Inr 0)),
       s\<lparr> syncLogs := syncLogs s @
             [\<lparr> integrationId = id_integration (row s), logged = entry_of ''orders'' f1,
                completedAt = now env \<rparr>,
              \<lparr> integrationId = id_integration (row s), logged = entry_of ''products'' f2,
                completedAt = now env \<rparr>,
              \<lparr> integrationId = id_integration (row s),
                logged = entry_of ''customers'' (Inr 0), completedAt = now env \<rparr>] \<rparr>)"
    by (simp add: syncCustomers_logged [OF q])
qed

lemma klaviyo_sync_quiet:
  assumes "log_fail env = (\<lambda>r. None)" and "status_fail env = (\<lambda>st. None)"
    and "klaviyo_loop W campaigns_params 0 (Some (baseUrl @ ''/campaigns/'')) 0 = Some (f1, n1)"
    and "klaviyo_loop W flows_params 0 (Some (baseUrl @ ''/flows/'')) 0 = Some (f2, n2)"
    and "klaviyo_loop W
           (events_params (getLastSyncTime (syncLogs s) (id_integration (row s)) ''events''))
           0 (Some (baseUrl @ ''/events/'')) 0 = Some (f4, n4)"
  shows "KlaviyoConnector_sync env W s =
     Some (Inr [entry_of ''campaigns'' f1, entry_of ''flows'' f2,
                entry_of ''metrics'' (metrics_fetch W), entry_of ''events'' f4],
           s\<lparr> syncLogs := syncLogs s @
                 map (\<lambda>x. \<lparr> integrationId = id_integration (row s), logged = x,
                             completedAt = now env \<rparr>)
                   [entry_of ''campaigns'' f1, entry_of ''flows'' f2,
                    entry_of ''metrics'' (metrics_fetch W), entry_of ''events'' f4],
              row := (row s)\<lparr> status := ''connected'', lastSyncAt := Some (now env),
                               updatedAt := now env \<rparr> \<rparr>)"
proof -
  note r = klaviyo_routines_logged [OF assms(1,3,4,5)]
  have u: "status_fail env ''connected'' = None" by (simp add: assms(2))
  from klaviyo_sync_run [of env W s NonError s 0, THEN conjunct2, THEN conjunct2, rule_format,
         OF r(1), THEN conjunct2, THEN conjunct2, rule_format, OF r(2), THEN conjunct2,
         rule_format, OF r(3), THEN conjunct2, THEN conjunct2, rule_format, OF r(4),
         THEN conjunct2, rule_format, OF u]
  show ?thesis by simp
qed

lemma klaviyo_sync_status_down:
  assumes "log_fail env = (\<lambda>r. None)" and "status_fail env = (\<lambda>st. Some e0)"
    and "klaviyo_loop W campaigns_params 0 (Some (baseUrl @ ''/campaigns/'')) 0 = Some (f1, n1)"
    and "klaviyo_loop W flows_params 0 (Some (baseUrl @ ''/flows/'')) 0 = Some (f2, n2)"
    and "klaviyo_loop W
           (events_params (getLastSyncTime (syncLogs s) (id_integration (row s)) ''events''))
           0 (Some (baseUrl @ ''/events/'')) 0 = Some (f4, n4)"
  shows "map_option fst (KlaviyoConnector_sync env W s) = Some (Inl e0)"
proof -
  note r = klaviyo_routines_logged [OF assms(1,3,4,5)]
  have u: "status_fail env ''connected'' = Some e0" by (simp add: assms(2))
  have v: "status_fail env ''error'' = Some e0" by (simp add: assms(2))
  from klaviyo_sync_run [of env W s e0 s 0, THEN conjunct2, THEN conjunct2, rule_format,
         OF r(1), THEN conjunct2, THEN conjunct2, rule_format, OF r(2), THEN conjunct2,
         rule_format, OF r(3), THEN conjunct2, THEN conjunct2, rule_format, OF r(4),
         THEN conjunct1, rule_format, OF u]
  show ?thesis by (simp add: sync_catch_rejected [OF v])
qed

lemma shopify_sync_quiet:
  assumes "log_fail env = (\<lambda>r. None)" and "status_fail env = (\<lambda>st. None)"
    and "orders_loop prov (getLastSyncTime (syncLogs s) (id_integration (row s)) ''orders'')
           0 None 0 = Some (f1, n1)"
    and "products_loop prov 0 None 0 = Some (f2, n2)"
  shows "ShopifyConnector_sync env (Inr ()) prov s =
     Some (Inr [entry_of ''orders'' f1, entry_of ''products'' f2,
                entry_of ''customers'' (Inr 0)],
           s\<lparr> syncLogs := syncLogs s @
                 map (\<lambda>x. \<lparr> integrationId = id_integration (row s), logged = x,
                             completedAt = now env \<rparr>)
                   [entry_of ''orders'' f1, entry_of ''products'' f2,
                    entry_of ''customers'' (Inr 0)],
              row := (row s)\<lparr> status := ''connected'', lastSyncAt := Some (now env),
                               updatedAt := now env \<rparr> \<rparr>)"
proof -
  note r = shopify_routines_logged [OF assms(1,3,4)]
  have u: "status_fail env ''connected'' = None" by (simp add: assms(2))
  from shopify_sync_run [of env NonError prov s s 0, THEN conjunct2, THEN conjunct2,
         THEN conjunct2, rule_format, OF r(1), THEN conjunct2, THEN conjunct2, rule_format,
         OF r(2), THEN conjunct2, rule_format, OF r(3), THEN conjunct2, rule_format, OF u]
  show ?thesis by simp
qed

lemma shopify_sync_status_down:
  assumes "log_fail env = (\<lambda>r. None)" and "status_fail env = (\<lambda>st. Some e0)"
    and "orders_loop prov (getLastSyncTime (syncLogs s) (id_integration (row s)) ''orders'')
           0 None 0 = Some (f1, n1)"
    and "products_loop prov 0 None 0 = Some (f2, n2)"
  shows "map_option fst (ShopifyConnector_sync env (Inr ()) prov s) = Some (Inl e0)"
proof -
  note r = shopify_routines_logged [OF assms(1,3,4)]
  have u: "status_fail env ''connected'' = Some e0" by (simp add: assms(2))
  have v: "status_fail env ''error'' = Some e0" by (simp add: assms(2))
  from shopify_sync_run [of env e0 prov s s 0, THEN conjunct2, THEN conjunct2,
         THEN conjunct2, rule_format, OF r(1), THEN conjunct2, THEN conjunct2, rule_format,
         OF r(2), THEN conjunct2, rule_format, OF r(3), THEN conjunct1, rule_format, OF u]
  show ?thesis by (simp add: sync_catch_rejected [OF v])
qed

lemma two_page_klaviyo_loop:
  assumes "first \<noteq> []"
  shows "klaviyo_loop two_page_klaviyo params 0 (Some first) 0 = Some (Inr 53, 2)"
proof -
  have "klaviyo_loop two_page_klaviyo params 2 None 53 = Some (Inr 53, 2)"
    by (subst klaviyo_loop.simps) (simp add: truthy_def)
  then have "klaviyo_loop two_page_klaviyo params 1
      (Some ''https://a.klaviyo.com/api/campaigns/?page=2'') 50 = Some (Inr 53, 2)"
    by (subst klaviyo_loop.simps) (simp add: truthy_def two_page_klaviyo_def numeral_2_eq_2)
  then show ?thesis
    using assms
    by (subst klaviyo_loop.simps) (simp add: truthy_def two_page_klaviyo_def)
qed

lemma two_page_shop_orders: "orders_loop two_page_shop lastSync 0 None 0 = Some (Inr 57, 2)"
proof -
  have "orders_loop two_page_shop lastSync 1 (Some ''c1'') 50 = Some (Inr 57, 2)"
    by (subst orders_loop.simps) (simp add: two_page_shop_def numeral_2_eq_2)
  then show ?thesis
    by (subst orders_loop.simps) (simp add: two_page_shop_def)
qed

lemma two_page_shop_products: "products_loop two_page_shop 0 None 0 = Some (Inr 57, 2)"
proof -
  have "products_loop two_page_shop 1 (Some ''c1'') 50 = Some (Inr 57, 2)"
    by (subst products_loop.simps) (simp add: two_page_shop_def numeral_2_eq_2)
  then show ?thesis
    by (subst products_loop.simps) (simp add: two_page_shop_def)
qed

lemma flows_down_loops:
  "klaviyo_loop flows_down campaigns_params 0 (Some (baseUrl @ ''/campaigns/'')) 0
     = Some (Inr 2, 1)"
  "klaviyo_loop flows_down flows_params 0 (Some (baseUrl @ ''/flows/'')) 0
     = Some (Inl (ErrorObj ''HTTP 500''), 1)"
  "klaviyo_loop flows_down params 0 (Some (baseUrl @ ''/events/'')) 0 = Some (Inr 2, 1)"
  "metrics_fetch flows_down = Inr 2"
proof -
  have stop: "\<And>params. klaviyo_loop flows_down params (Suc 0) (truthy None) (Suc (Suc 0))
      = Some (Inr 2, 1)"
    by (subst klaviyo_loop.simps) (simp add: truthy_def)
  have tok: "\<And>i. kl_token flows_down i = Inr ''token''"
    by (simp add: flows_down_def)
  have get: "\<And>i t params. kl_get flows_down i (baseUrl @ ''/campaigns/'') t params = KlPage 2 None"
    "\<And>i t params. kl_get flows_down i (baseUrl @ ''/flows/'') t params
        = KlFailure (ErrorObj ''HTTP 500'')"
    "\<And>i t params. kl_get flows_down i (baseUrl @ ''/events/'') t params = KlPage 2 None"
    "\<And>i t params. kl_get flows_down i (baseUrl @ ''/metrics/'') t params = KlPage 2 None"
    by (simp_all add: flows_down_def baseUrl_def)
  show "klaviyo_loop flows_down campaigns_params 0 (Some (baseUrl @ ''/campaigns/'')) 0
     = Some (Inr 2, 1)"
    by (subst klaviyo_loop.simps) (simp add: truthy_Some_nonempty tok get stop)
  show "klaviyo_loop flows_down flows_params 0 (Some (baseUrl @ ''/flows/'')) 0
     = Some (Inl (ErrorObj ''HTTP 500''), 1)"
    by (subst klaviyo_loop.simps) (simp add: truthy_Some_nonempty tok get)
  show "klaviyo_loop flows_down params 0 (Some (baseUrl @ ''/events/'')) 0 = Some (Inr 2, 1)"
    by (subst klaviyo_loop.simps) (simp add: truthy_Some_nonempty tok get stop)
  show "metrics_fetch flows_down = Inr 2"
    by (simp add: metrics_fetch_def tok get)
qed

text \<open>
  C5 (as amended). \<open>sync()\<close> throws only when the status update to \<open>error\<close> inside its
  own \<open>catch\<close> clause fails, and it then throws that failure; and it returns only if
  every routine it reaches returns (a routine whose pagination never ends keeps
  \<open>sync()\<close> from returning). Otherwise it returns a list. When every routine returned
  its entry and the update to \<open>connected\<close> succeeded, the list holds the routines'
  entries in order and the status is \<open>connected\<close>. When a routine threw (its own
  \<open>logSync\<close> failed), Shopify's client initialisation failed, or the update to
  \<open>connected\<close> failed, the failure is caught, the status is set to \<open>error\<close> and the
  list holds the entries collected before the failure followed by one \<open>sync_error\<close>
  entry with the failure's message. The failure of a routine's fetching part is
  captured, when its SyncLog row can be written, as the \<open>error\<close> entry of that data
  type: with a store that accepts every write, each entry is decided by what its own
  routine fetched, and the other routines' entries are what they are without that
  failure.
\<close>

theorem sync_throws_only_when_error_update_fails:
  "(KlaviyoConnector_sync env W s = Some (Inl e', s') \<longrightarrow> status_fail env ''error'' = Some e') \<and>
   (ShopifyConnector_sync env initialized prov s = Some (Inl e', s') \<longrightarrow>
      status_fail env ''error'' = Some e') \<and>
   (syncCampaigns env W s = None \<longrightarrow> KlaviyoConnector_sync env W s = None) \<and>
   (syncCampaigns env W s = Some ((Inl e, sf), m) \<longrightarrow>
      KlaviyoConnector_sync env W s = Some (sync_catch env e [] sf)) \<and>
   (syncCampaigns env W s = Some ((Inr x1, s1), n1) \<longrightarrow>
      (syncFlows env W s1 = None \<longrightarrow> KlaviyoConnector_sync env W s = None) \<and>
      (syncFlows env W s1 = Some ((Inl e, sf), m) \<longrightarrow>
         KlaviyoConnector_sync env W s = Some (sync_catch env e [x1] sf)) \<and>
      (syncFlows env W s1 = Some ((Inr x2, s2), n2) \<longrightarrow>
         (syncMetrics env W s2 = (Inl e, sf) \<longrightarrow>
            KlaviyoConnector_sync env W s = Some (sync_catch env e [x1, x2] sf)) \<and>
         (syncMetrics env W s2 = (Inr x3, s3) \<longrightarrow>
            (syncEvents env W s3 = None \<longrightarrow> KlaviyoConnector_sync env W s = None) \<and>
            (syncEvents env W s3 = Some ((Inl e, sf), m) \<longrightarrow>
               KlaviyoConnector_sync env W s = Some (sync_catch env e [x1, x2, x3] sf)) \<and>
            (syncEvents env W s3 = Some ((Inr x4, s4), n4) \<longrightarrow>
               (status_fail env ''connected'' = Some e \<longrightarrow>
                  KlaviyoConnector_sync env W s
                    = Some (sync_catch env e [x1, x2, x3, x4] s4)) \<and>
               (status_fail env ''connected'' = None \<longrightarrow>
                  KlaviyoConnector_sync env W s
                    = Some (Inr [x1, x2, x3, x4],
                            s4\<lparr> row := (row s4)\<lparr> status := ''connected'',
                                                   lastSyncAt := Some (now env),
                                                   updatedAt := now env \<rparr> \<rparr>)))))) \<and>
   ShopifyConnector_sync env (Inl e) prov s = Some (sync_catch env e [] s) \<and>
   (syncOrders env prov s = None \<longrightarrow> ShopifyConnector_sync env (Inr ()) prov s = None) \<and>
   (syncOrders env prov s = Some ((Inl e, sf), m) \<longrightarrow>
      ShopifyConnector_sync env (Inr ()) prov s = Some (sync_catch env e [] sf)) \<and>
   (syncOrders env prov s = Some ((Inr y1, t1), n1) \<longrightarrow>
      (syncProducts env prov t1 = None \<longrightarrow> ShopifyConnector_sync env (Inr ()) prov s = None) \<and>
      (syncProducts env prov t1 = Some ((Inl e, sf), m) \<longrightarrow>
         ShopifyConnector_sync env (Inr ()) prov s = Some (sync_catch env e [y1] sf)) \<and>
      (syncProducts env prov t1 = Some ((Inr y2, t2), n2) \<longrightarrow>
         (syncCustomers env t2 = (Inl e, sf) \<longrightarrow>
            ShopifyConnector_sync env (Inr ()) prov s = Some (sync_catch env e [y1, y2] sf)) \<and>
         (syncCustomers env t2 = (Inr y3, t3) \<longrightarrow>
            (status_fail env ''connected'' = Some e \<longrightarrow>
               ShopifyConnector_sync env (Inr ()) prov s
                 = Some (sync_catch env e [y1, y2, y3] t3)) \<and>
            (status_fail env ''connected'' = None \<longrightarrow>
               ShopifyConnector_sync env (Inr ()) prov s
                 = Some (Inr [y1, y2, y3],
                         t3\<lparr> row := (row t3)\<lparr> status := ''connected'',
                                                lastSyncAt := Some (now env),
                                                updatedAt := now env \<rparr> \<rparr>))))) \<and>
   (status_fail env ''error'' = None \<longrightarrow>
      sync_catch env e results sf =
        (Inr (results @ [\<lparr> dataType = ''sync_error'', recordsCount = 0, status_r = StError,
                           errorMessage = Some (error_message e) \<rparr>]),
         sf\<lparr> row := (row sf)\<lparr> status := ''error'', lastSyncAt := lastSyncAt (row sf),
                               updatedAt := now env \<rparr> \<rparr>)) \<and>
   (status_fail env ''error'' = Some e' \<longrightarrow> sync_catch env e results sf = (Inl e', sf)) \<and>
   (log_fail env (entry_of dt fetched) = None \<longrightarrow>
      routine_frame env dt fetched s =
        (Inr (entry_of dt fetched),
         s\<lparr> syncLogs := syncLogs s @
               [\<lparr> integrationId = id_integration (row s), logged = entry_of dt fetched,
                  completedAt = now env \<rparr>] \<rparr>)) \<and>
   (routine_frame env dt fetched s = (Inl e', s') \<longrightarrow>
      s' = s \<and> (\<exists>e. log_fail env (entry_of dt (Inl e)) = Some e')) \<and>
   entry_of dt (Inr n) =
     \<lparr> dataType = dt, recordsCount = n, status_r = StSuccess, errorMessage = None \<rparr> \<and>
   entry_of dt (Inl e) =
     \<lparr> dataType = dt, recordsCount = 0, status_r = StError,
       errorMessage = Some (error_message e) \<rparr> \<and>
   (log_fail env = (\<lambda>r. None) \<and> status_fail env = (\<lambda>st. None) \<and>
    klaviyo_loop W campaigns_params 0 (Some (baseUrl @ ''/campaigns/'')) 0 = Some (f1, n1) \<and>
    klaviyo_loop W flows_params 0 (Some (baseUrl @ ''/flows/'')) 0 = Some (f2, n2) \<and>
    klaviyo_loop W
      (events_params (getLastSyncTime (syncLogs s) (id_integration (row s)) ''events''))
      0 (Some (baseUrl @ ''/events/'')) 0 = Some (f4, n4) \<longrightarrow>
      KlaviyoConnector_sync env W s =
        Some (Inr [entry_of ''campaigns'' f1, entry_of ''flows'' f2,
                   entry_of ''metrics'' (metrics_fetch W), entry_of ''events'' f4],
              s\<lparr> syncLogs := syncLogs s @
                    map (\<lambda>x. \<lparr> integrationId = id_integration (row s), logged = x,
                                completedAt = now env \<rparr>)
                      [entry_of ''campaigns'' f1, entry_of ''flows'' f2,
                       entry_of ''metrics'' (metrics_fetch W), entry_of ''events'' f4],
                 row := (row s)\<lparr> status := ''connected'', lastSyncAt := Some (now env),
                                  updatedAt := now env \<rparr> \<rparr>)) \<and>
   (log_fail env = (\<lambda>r. None) \<and> status_fail env = (\<lambda>st. None) \<and>
    orders_loop prov (getLastSyncTime (syncLogs s) (id_integration (row s)) ''orders'')
      0 None 0 = Some (g1, n1) \<and>
    products_loop prov 0 None 0 = Some (g2, n2) \<longrightarrow>
      ShopifyConnector_sync env (Inr ()) prov s =
        Some (Inr [entry_of ''orders'' g1, entry_of ''products'' g2,
                   entry_of ''customers'' (Inr 0)],
              s\<lparr> syncLogs := syncLogs s @
                    map (\<lambda>x. \<lparr> integrationId = id_integration (row s), logged = x,
                                completedAt = now env \<rparr>)
                      [entry_of ''orders'' g1, entry_of ''products'' g2,
                       entry_of ''customers'' (Inr 0)],
                 row := (row s)\<lparr> status := ''connected'', lastSyncAt := Some (now env),
                                  updatedAt := now env \<rparr> \<rparr>))"
proof -
  have t1: "KlaviyoConnector_sync env W s = Some (Inl e', s') \<longrightarrow>
      status_fail env ''error'' = Some e'"
    unfolding KlaviyoConnector_sync_def by (auto dest: sync_body_throw)
  have t2: "ShopifyConnector_sync env initialized prov s = Some (Inl e', s') \<longrightarrow>
      status_fail env ''error'' = Some e'"
    unfolding ShopifyConnector_sync_def
    by (auto dest: sync_body_throw sync_catch_throw split: sum.splits)
  note k = klaviyo_sync_run [of env W s e sf m x1 s1 n1 x2 s2 n2 x3 s3 x4 s4 n4]
  note h = shopify_sync_run [of env e prov s sf m y1 t1 n1 y2 t2 n2 y3 t3]
  have c1: "status_fail env ''error'' = None \<longrightarrow>
      sync_catch env e results sf =
        (Inr (results @ [\<lparr> dataType = ''sync_error'', recordsCount = 0, status_r = StError,
                           errorMessage = Some (error_message e) \<rparr>]),
         sf\<lparr> row := (row sf)\<lparr> status := ''error'', lastSyncAt := lastSyncAt (row sf),
                               updatedAt := now env \<rparr> \<rparr>)"
    by (simp add: sync_catch_ok sync_error_entry_def)
  have c2: "status_fail env ''error'' = Some e' \<longrightarrow> sync_catch env e results sf = (Inl e', sf)"
    by (simp add: sync_catch_rejected)
  have r1: "log_fail env (entry_of dt fetched) = None \<longrightarrow>
      routine_frame env dt fetched s =
        (Inr (entry_of dt fetched),
         s\<lparr> syncLogs := syncLogs s @
               [\<lparr> integrationId = id_integration (row s), logged = entry_of dt fetched,
                  completedAt = now env \<rparr>] \<rparr>)"
    by (simp add: routine_frame_logged)
  have r2: "routine_frame env dt fetched s = (Inl e', s') \<longrightarrow>
      s' = s \<and> (\<exists>e. log_fail env (entry_of dt (Inl e)) = Some e')"
    using routine_frame_throws by blast
  have e1: "entry_of dt (Inr n) =
     \<lparr> dataType = dt, recordsCount = n, status_r = StSuccess, errorMessage = None \<rparr>"
    and e2: "entry_of dt (Inl e) =
     \<lparr> dataType = dt, recordsCount = 0, status_r = StError,
       errorMessage = Some (error_message e) \<rparr>"
    by (simp_all add: entry_of_def)
  have q1: "log_fail env = (\<lambda>r. None) \<and> status_fail env = (\<lambda>st. None) \<and>
    klaviyo_loop W campaigns_params 0 (Some (baseUrl @ ''/campaigns/'')) 0 = Some (f1, n1) \<and>
    klaviyo_loop W flows_params 0 (Some (baseUrl @ ''/flows/'')) 0 = Some (f2, n2) \<and>
    klaviyo_loop W
      (events_params (getLastSyncTime (syncLogs s) (id_integration (row s)) ''events''))
      0 (Some (baseUrl @ ''/events/'')) 0 = Some (f4, n4) \<longrightarrow>
      KlaviyoConnector_sync env W s =
        Some (Inr [entry_of ''campaigns'' f1, entry_of ''flows'' f2,
                   entry_of ''metrics'' (metrics_fetch W), entry_of ''events'' f4],
              s\<lparr> syncLogs := syncLogs s @
                    map (\<lambda>x. \<lparr> integrationId = id_integration (row s), logged = x,
                                completedAt = now env \<rparr>)
                      [entry_of ''campaigns'' f1, entry_of ''flows'' f2,
                       entry_of ''metrics'' (metrics_fetch W), entry_of ''events'' f4],
                 row := (row s)\<lparr> status := ''connected'', lastSyncAt := Some (now env),
                                  updatedAt := now env \<rparr> \<rparr>)"
    using klaviyo_sync_quiet by blast
  have q2: "log_fail env = (\<lambda>r. None) \<and> status_fail env = (\<lambda>st. None) \<and>
    orders_loop prov (getLastSyncTime (syncLogs s) (id_integration (row s)) ''orders'')
      0 None 0 = Some (g1, n1) \<and>
    products_loop prov 0 None 0 = Some (g2, n2) \<longrightarrow>
      ShopifyConnector_sync env (Inr ()) prov s =
        Some (Inr [entry_of ''orders'' g1, entry_of ''products'' g2,
                   entry_of ''customers'' (Inr 0)],
              s\<lparr> syncLogs := syncLogs s @
                    map (\<lambda>x. \<lparr> integrationId = id_integration (row s), logged = x,
                                completedAt = now env \<rparr>)
                      [entry_of ''orders'' g1, entry_of ''products'' g2,
                       entry_of ''customers'' (Inr 0)],
                 row := (row s)\<lparr> status := ''connected'', lastSyncAt := Some (now env),
                                  updatedAt := now env \<rparr> \<rparr>)"
    using shopify_sync_quiet by blast
  show ?thesis
    apply (rule conjI, rule t1)
    apply (rule conjI, rule t2)
    apply (rule conjI, rule k [THEN conjunct1])
    apply (rule conjI, rule k [THEN conjunct2, THEN conjunct1])
    apply (rule conjI, rule k [THEN conjunct2, THEN conjunct2])
    apply (rule conjI, rule h [THEN conjunct1])
    apply (rule conjI, rule h [THEN conjunct2, THEN conjunct1])
    apply (rule conjI, rule h [THEN conjunct2, THEN conjunct2, THEN conjunct1])
    apply (rule conjI, rule h [THEN conjunct2, THEN conjunct2, THEN conjunct2])
    apply (rule conjI, rule c1)
    apply (rule conjI, rule c2)
    apply (rule conjI, rule r1)
    apply (rule conjI, rule r2)
    apply (rule conjI, rule e1)
    apply (rule conjI, rule e2)
    apply (rule conjI, rule q1)
    apply (rule q2)
    done
qed

theorem sync_throws_only_when_error_update_fails_witness:
  "map_option (\<lambda>(r, s'). (r, status (row s'), map logged (syncLogs s')))
     (KlaviyoConnector_sync quiet_env flows_down fresh_store) =
     Some (Inr [\<lparr> dataType = ''campaigns'', recordsCount = 2, status_r = StSuccess,
                   errorMessage = None \<rparr>,
                \<lparr> dataType = ''flows'', recordsCount = 0, status_r = StError,
                   errorMessage = Some ''HTTP 500'' \<rparr>,
                \<lparr> dataType = ''metrics'', recordsCount = 2, status_r = StSuccess,
                   errorMessage = None \<rparr>,
                \<lparr> dataType = ''events'', recordsCount = 2, status_r = StSuccess,
                   errorMessage = None \<rparr>],
           ''connected'',
           [\<lparr> dataType = ''campaigns'', recordsCount = 2, status_r = StSuccess,
               errorMessage = None \<rparr>,
            \<lparr> dataType = ''flows'', recordsCount = 0, status_r = StError,
               errorMessage = Some ''HTTP 500'' \<rparr>,
            \<lparr> dataType = ''metrics'', recordsCount = 2, status_r = StSuccess,
               errorMessage = None \<rparr>,
            \<lparr> dataType = ''events'', recordsCount = 2, status_r = StSuccess,
               errorMessage = None \<rparr>]) \<and>
   map_option (\<lambda>(r, s'). (r, status (row s'), map logged (syncLogs s')))
     (KlaviyoConnector_sync flaky_logs two_page_klaviyo fresh_store) =
     Some (Inr [\<lparr> dataType = ''campaigns'', recordsCount = 53, status_r = StSuccess,
                   errorMessage = None \<rparr>,
                \<lparr> dataType = ''sync_error'', recordsCount = 0, status_r = StError,
                   errorMessage = Some ''log write failed'' \<rparr>],
           ''error'',
           [\<lparr> dataType = ''campaigns'', recordsCount = 53, status_r = StSuccess,
               errorMessage = None \<rparr>]) \<and>
   KlaviyoConnector_sync quiet_env endless_klaviyo fresh_store = None \<and>
   map_option (\<lambda>(r, s'). (r, status (row s'), map logged (syncLogs s')))
     (ShopifyConnector_sync quiet_env (Inl (ErrorObj ''No access token'')) two_page_shop
        fresh_store) =
     Some (Inr [\<lparr> dataType = ''sync_error'', recordsCount = 0, status_r = StError,
                   errorMessage = Some ''No access token'' \<rparr>],
           ''error'', [])"
proof -
  let ?c53 = "\<lparr> dataType = ''campaigns'', recordsCount = 53, status_r = StSuccess,
                 errorMessage = None \<rparr>"
  let ?s1 = "fresh_store\<lparr> syncLogs :=
      [\<lparr> integrationId = ''int_1'', logged = ?c53, completedAt = 1000 \<rparr>] \<rparr>"
  have one: "KlaviyoConnector_sync quiet_env flows_down fresh_store =
      Some (Inr [entry_of ''campaigns'' (Inr 2), entry_of ''flows'' (Inl (ErrorObj ''HTTP 500'')),
                 entry_of ''metrics'' (metrics_fetch flows_down), entry_of ''events'' (Inr 2)],
            fresh_store\<lparr> syncLogs := syncLogs fresh_store @
                  map (\<lambda>x. \<lparr> integrationId = id_integration (row fresh_store), logged = x,
                              completedAt = now quiet_env \<rparr>)
                    [entry_of ''campaigns'' (Inr 2),
                     entry_of ''flows'' (Inl (ErrorObj ''HTTP 500'')),
                     entry_of ''metrics'' (metrics_fetch flows_down),
                     entry_of ''events'' (Inr 2)],
               row := (row fresh_store)\<lparr> status := ''connected'',
                                           lastSyncAt := Some (now quiet_env),
                                           updatedAt := now quiet_env \<rparr> \<rparr>)"
    using sync_throws_only_when_error_update_fails
            [where env = quiet_env and W = flows_down and s = fresh_store
               and ?f1.0 = "Inr 2" and ?f2.0 = "Inl (ErrorObj ''HTTP 500'')"
               and ?f4.0 = "Inr 2" and ?n1.0 = 1 and ?n2.0 = 1 and ?n4.0 = 1]
          flows_down_loops(1) flows_down_loops(2) flows_down_loops(3)
    by (simp add: quiet_env_def)
  have c: "syncCampaigns flaky_logs two_page_klaviyo fresh_store = Some ((Inr ?c53, ?s1), 2)"
    by (simp add: syncCampaigns_def two_page_klaviyo_loop routine_frame_def logSync_def
          flaky_logs_def fresh_store_def live_row_def Let_def)
  have f: "syncFlows flaky_logs two_page_klaviyo ?s1
      = Some ((Inl (ErrorObj ''log write failed''), ?s1), 2)"
    by (simp add: syncFlows_def two_page_klaviyo_loop routine_frame_def logSync_def
          flaky_logs_def Let_def)
  have u: "status_fail flaky_logs ''error'' = None"
    by (simp add: flaky_logs_def)
  have two: "KlaviyoConnector_sync flaky_logs two_page_klaviyo fresh_store =
      Some (Inr [?c53, \<lparr> dataType = ''sync_error'', recordsCount = 0, status_r = StError,
                         errorMessage = Some (error_message (ErrorObj ''log write failed'')) \<rparr>],
            ?s1\<lparr> row := (row ?s1)\<lparr> status := ''error'', lastSyncAt := lastSyncAt (row ?s1),
                                    updatedAt := now flaky_logs \<rparr> \<rparr>)"
    using sync_throws_only_when_error_update_fails
            [where env = flaky_logs and W = two_page_klaviyo and s = fresh_store
               and ?x1.0 = ?c53 and ?s1.0 = ?s1 and ?n1.0 = 2
               and e = "ErrorObj ''log write failed''" and sf = ?s1 and m = 2
               and results = "[?c53]"]
          c f u
    by simp
  have "\<forall>j. klaviyo_signal endless_klaviyo campaigns_params (baseUrl @ ''/campaigns/'') j
      = MorePages"
    by (simp add: klaviyo_signal_def endless_klaviyo_def truthy_def split: prod.splits)
  with baseUrl_nonempty have "klaviyo_loop endless_klaviyo campaigns_params 0
      (Some (baseUrl @ ''/campaigns/'')) 0 = None"
    by (rule klaviyo_loop_endless)
  then have n: "syncCampaigns quiet_env endless_klaviyo fresh_store = None"
    by (simp add: syncCampaigns_def)
  have three: "KlaviyoConnector_sync quiet_env endless_klaviyo fresh_store = None"
    using sync_throws_only_when_error_update_fails
            [where env = quiet_env and W = endless_klaviyo and s = fresh_store,
             THEN conjunct2, THEN conjunct2, THEN conjunct1] n
    by simp
  have v: "status_fail quiet_env ''error'' = None"
    by (simp add: quiet_env_def)
  have four: "ShopifyConnector_sync quiet_env (Inl (ErrorObj ''No access token''))
        two_page_shop fresh_store =
      Some (Inr [\<lparr> dataType = ''sync_error'', recordsCount = 0, status_r = StError,
                    errorMessage = Some (error_message (ErrorObj ''No access token'')) \<rparr>],
            fresh_store\<lparr> row := (row fresh_store)\<lparr> status := ''error'',
                              lastSyncAt := lastSyncAt (row fresh_store),
                              updatedAt := now quiet_env \<rparr> \<rparr>)"
    using sync_throws_only_when_error_update_fails
            [where env = quiet_env and prov = two_page_shop and s = fresh_store
               and e = "ErrorObj ''No access token''" and sf = fresh_store
               and results = "[]"] v
    by simp
  show ?thesis
    apply (rule conjI)
     apply (subst one)
     apply (simp add: flows_down_loops(4) entry_of_def error_message_def fresh_store_def
        live_row_def quiet_env_def)
    apply (rule conjI)
     apply (subst two)
     apply (simp add: error_message_def fresh_store_def live_row_def)
    apply (rule conjI)
     apply (rule three)
    apply (subst four)
    apply (simp add: error_message_def fresh_store_def live_row_def)
    done
qed

text \<open>
  The claim as written says that \<open>sync()\<close> never throws. With a store that rejects the
  status updates (the integration row has been removed, say), every routine returns,
  the update to \<open>connected\<close> fails, the \<open>catch\<close> clause's own update to \<open>error\<close> fails
  too, and that failure leaves \<open>sync()\<close>, for both connectors.
\<close>

theorem sync_throws_counterexample:
  "map_option fst (KlaviyoConnector_sync status_down two_page_klaviyo fresh_store)
     = Some (Inl (ErrorObj ''Record to update not found'')) \<and>
   map_option fst (ShopifyConnector_sync status_down (Inr ()) two_page_shop fresh_store)
     = Some (Inl (ErrorObj ''Record to update not found''))"
proof -
  have l: "log_fail status_down = (\<lambda>r. None)"
    and u: "status_fail status_down = (\<lambda>st. Some (ErrorObj ''Record to update not found''))"
    by (simp_all add: status_down_def)
  have a: "map_option fst (KlaviyoConnector_sync status_down two_page_klaviyo fresh_store)
     = Some (Inl (ErrorObj ''Record to update not found''))"
    by (rule klaviyo_sync_status_down [OF l u])
       (simp_all add: two_page_klaviyo_loop)
  have b: "map_option fst (ShopifyConnector_sync status_down (Inr ()) two_page_shop fresh_store)
     = Some (Inl (ErrorObj ''Record to update not found''))"
    by (rule shopify_sync_status_down [OF l u])
       (simp_all add: two_page_shop_orders two_page_shop_products)
  from a b show ?thesis by simp
qed

subsection \<open>Unauthorized responses\<close>

lemma handleTokenRefresh_ok:
  assumes "refresh_ok env (refreshes s)"
  shows "\<exists>s2. handleTokenRefresh env s = (Inr (refreshed_token env (refreshes s)), s2) \<and>
           sent s2 = sent s \<and> refreshes s2 = Suc (refreshes s) \<and>
           id_integration (local_i s2) = id_integration (local_i s) \<and>
           status (stored s2) = ''connected''"
proof -
  from assms obtain rr encA where rr: "refreshAccessToken env (refreshes s) = Inr rr"
    and a: "encrypt_token env (new_accessToken rr) = Inr encA"
    and u: "update_rejected env ''connected'' = None"
    and o: "case truthy (new_refreshToken rr) of
           None \<Rightarrow> True
         | Some r \<Rightarrow> \<exists>c. encrypt_token env r = Inr c"
    by (auto simp: refresh_ok_def)
  have "\<exists>encR. (case truthy (new_refreshToken rr) of
                        None \<Rightarrow> Inr None
                      | Some r \<Rightarrow>
                          (case encrypt_token env r of Inl e \<Rightarrow> Inl e | Inr c \<Rightarrow> Inr (Some c)))
          = (Inr encR :: thrown + string option)"
    using o by (auto split: option.splits)
  then obtain encR where r: "(case truthy (new_refreshToken rr) of
                        None \<Rightarrow> Inr None
                      | Some r \<Rightarrow>
                          (case encrypt_token env r of Inl e \<Rightarrow> Inl e | Inr c \<Rightarrow> Inr (Some c)))
          = (Inr encR :: thrown + string option)" by blast
  show ?thesis
    by (simp add: handleTokenRefresh_def refresh_try_def rr a r u refreshed_token_def)
qed

lemma refresh_try_fails:
  assumes "\<not> refresh_ok env (refreshes s)"
  shows "\<exists>e. refresh_try env s = (Inl e, s)"
  using assms
  by (auto simp: refresh_ok_def refresh_try_def split: sum.splits option.splits)

lemma handleTokenRefresh_fails:
  assumes "\<not> refresh_ok env (refreshes s)" and "id_integration (local_i s) \<noteq> ''temp''"
  shows "\<exists>e. handleTokenRefresh env s =
     (Inl e, s\<lparr> stored := (if update_rejected env ''expired'' = None
                             then (stored s)\<lparr> status := ''expired'' \<rparr> else stored s),
               refreshes := Suc (refreshes s) \<rparr>)"
proof -
  from refresh_try_fails [OF assms(1)] obtain e where "refresh_try env s = (Inl e, s)" by blast
  then show ?thesis
    using assms(2) by (auto simp: handleTokenRefresh_def split: option.splits)
qed

lemma retry_config_Suc:
  "(retry_config env config r n)\<lparr> authorization := Some (''Bearer '' @ refreshed_token env (r + n)) \<rparr>
     = retry_config env config r (Suc n)"
  by (simp add: retry_config_def)

lemma retry_config_skip [simp]:
  "skipAuthRefresh (retry_config env config r n) = skipAuthRefresh config"
  by (simp add: retry_config_def)

lemma request_unroll:
  assumes "refreshable config s"
    and "\<forall>j<n. answer env (length (sent s) + j) (retry_config env config (refreshes s) j)
                  = HttpStatus 401 \<and> refresh_ok env (refreshes s + j)"
  shows "\<exists>sn. request env config s = request env (retry_config env config (refreshes s) n) sn \<and>
           refreshes sn = refreshes s + n \<and>
           sent sn = sent s @ map (retry_config env config (refreshes s)) [0..<n] \<and>
           id_integration (local_i sn) = id_integration (local_i s) \<and>
           (n = 0 \<longrightarrow> sn = s) \<and> (0 < n \<longrightarrow> status (stored sn) = ''connected'')"
  using assms(2)
proof (induction n)
  case 0
  show ?case by (intro exI [of _ s]) (simp add: retry_config_def)
next
  case (Suc n)
  let ?c = "retry_config env config (refreshes s) n"
  from Suc.prems have "\<forall>j<n. answer env (length (sent s) + j)
      (retry_config env config (refreshes s) j) = HttpStatus 401 \<and> refresh_ok env (refreshes s + j)"
    by simp
  from Suc.IH [OF this] obtain sn where
    sn: "request env config s = request env ?c sn" "refreshes sn = refreshes s + n"
        "sent sn = sent s @ map (retry_config env config (refreshes s)) [0..<n]"
        "id_integration (local_i sn) = id_integration (local_i s)"
    by blast
  from Suc.prems have a: "answer env (length (sent s) + n) ?c = HttpStatus 401"
    and ok: "refresh_ok env (refreshes s + n)" by simp_all
  let ?s1 = "sn\<lparr> sent := sent sn @ [?c] \<rparr>"
  have "refresh_ok env (refreshes ?s1)" using ok sn(2) by simp
  from handleTokenRefresh_ok [OF this] obtain s2 where
    h: "handleTokenRefresh env ?s1 = (Inr (refreshed_token env (refreshes s + n)), s2)"
       "sent s2 = sent sn @ [?c]" "refreshes s2 = Suc (refreshes s + n)"
       "id_integration (local_i s2) = id_integration (local_i sn)"
       "status (stored s2) = ''connected''"
    using sn(2) by auto
  have len: "length (sent sn) = length (sent s) + n" by (simp add: sn(3))
  have "request env ?c sn =
      request env (?c\<lparr> authorization := Some (''Bearer '' @ refreshed_token env (refreshes s + n)) \<rparr>) s2"
    using assms(1) sn(4)
    by (subst request.simps) (simp add: len a h(1) refreshable_def)
  then have "request env config s = request env (retry_config env config (refreshes s) (Suc n)) s2"
    by (simp add: sn(1) retry_config_def)
  moreover have "sent s2 = sent s @ map (retry_config env config (refreshes s)) [0..<Suc n]"
    by (simp add: h(2) sn(3))
  ultimately show ?case
    using h(3,4,5) sn(4) by (intro exI [of _ s2]) simp
qed

lemma request_settles:
  assumes "answer env (length (sent s)) config = a" and "a \<noteq> HttpStatus 401"
  shows "request env config s = Some (settles a, s\<lparr> sent := sent s @ [config] \<rparr>)"
  using assms
  by (subst request.simps) (auto simp: settles_def split: http_answer.splits)

lemma request_some_stops:
  assumes "request env config s = Some y"
  shows "\<not> (refreshable config s \<and>
            (\<forall>j. answer env (length (sent s) + j) (retry_config env config (refreshes s) j)
                    = HttpStatus 401 \<and> refresh_ok env (refreshes s + j)))"
proof (rule request.raw_induct
    [where P = "\<lambda>env config s y. \<not> (refreshable config s \<and>
            (\<forall>j. answer env (length (sent s) + j) (retry_config env config (refreshes s) j)
                    = HttpStatus 401 \<and> refresh_ok env (refreshes s + j)))",
     OF _ assms], goal_cases)
  case (1 f env config s y)
  show ?case
  proof
    assume H: "refreshable config s \<and>
            (\<forall>j. answer env (length (sent s) + j) (retry_config env config (refreshes s) j)
                    = HttpStatus 401 \<and> refresh_ok env (refreshes s + j))"
    then have a: "answer env (length (sent s)) config = HttpStatus 401"
      and ok: "refresh_ok env (refreshes s)"
      using spec [of _ 0] by (auto simp: retry_config_def dest: spec [of _ 0])
    let ?s1 = "s\<lparr> sent := sent s @ [config] \<rparr>"
    have "refresh_ok env (refreshes ?s1)" using ok by simp
    from handleTokenRefresh_ok [OF this] obtain s2 where
      h: "handleTokenRefresh env ?s1 = (Inr (refreshed_token env (refreshes s)), s2)"
         "sent s2 = sent s @ [config]" "refreshes s2 = Suc (refreshes s)"
         "id_integration (local_i s2) = id_integration (local_i s)"
      by auto
    let ?c2 = "config\<lparr> authorization := Some (''Bearer '' @ refreshed_token env (refreshes s)) \<rparr>"
    from 1(2) H have run: "f env ?c2 s2 = Some y"
      by (simp add: a h(1) refreshable_def)
    have "refreshable ?c2 s2 \<and>
            (\<forall>j. answer env (length (sent s2) + j) (retry_config env ?c2 (refreshes s2) j)
                    = HttpStatus 401 \<and> refresh_ok env (refreshes s2 + j))"
    proof (intro conjI allI)
      show "refreshable ?c2 s2" using H h(4) by (simp add: refreshable_def)
      fix j
      from H have "answer env (length (sent s) + Suc j)
          (retry_config env config (refreshes s) (Suc j)) = HttpStatus 401"
        and "refresh_ok env (refreshes s + Suc j)" by blast+
      then show "answer env (length (sent s2) + j) (retry_config env ?c2 (refreshes s2) j)
          = HttpStatus 401" and "refresh_ok env (refreshes s2 + j)"
        by (auto simp: retry_config_def h(2,3))
    qed
    with 1(1) [OF run] show False by blast
  qed
qed

lemma request_endless:
  assumes "refreshable config s"
    and "\<forall>j. answer env (length (sent s) + j) (retry_config env config (refreshes s) j)
                = HttpStatus 401 \<and> refresh_ok env (refreshes s + j)"
  shows "request env config s = None"
proof (cases "request env config s")
  case None
  then show ?thesis .
next
  case (Some y)
  from request_some_stops [OF Some] assms show ?thesis by blast
qed

lemma request_retries:
  assumes "refreshable config s"
    and "\<forall>j<n. answer env (length (sent s) + j) (retry_config env config (refreshes s) j)
                  = HttpStatus 401 \<and> refresh_ok env (refreshes s + j)"
    and "answer env (length (sent s) + n) (retry_config env config (refreshes s) n) = a"
    and "a \<noteq> HttpStatus 401"
  shows "\<exists>s'. request env config s = Some (settles a, s') \<and>
           refreshes s' = refreshes s + n \<and>
           sent s' = sent s @ map (retry_config env config (refreshes s)) [0..<Suc n] \<and>
           (0 < n \<longrightarrow> status (stored s') = ''connected'')"
proof -
  from request_unroll [OF assms(1,2)] obtain sn where
    sn: "request env config s = request env (retry_config env config (refreshes s) n) sn"
        "refreshes sn = refreshes s + n"
        "sent sn = sent s @ map (retry_config env config (refreshes s)) [0..<n]"
        "0 < n \<longrightarrow> status (stored sn) = ''connected''"
    by blast
  have "answer env (length (sent sn)) (retry_config env config (refreshes s) n) = a"
    using assms(3) by (simp add: sn(3))
  from request_settles [OF this assms(4)] sn show ?thesis by simp
qed

lemma request_refresh_fails:
  assumes "refreshable config s"
    and "\<forall>j<n. answer env (length (sent s) + j) (retry_config env config (refreshes s) j)
                  = HttpStatus 401 \<and> refresh_ok env (refreshes s + j)"
    and "answer env (length (sent s) + n) (retry_config env config (refreshes s) n)
           = HttpStatus 401"
    and "\<not> refresh_ok env (refreshes s + n)"
  shows "\<exists>s'. request env config s = Some (Inl (HttpError 401), s') \<and>
           refreshes s' = refreshes s + n + 1 \<and>
           sent s' = sent s @ map (retry_config env config (refreshes s)) [0..<Suc n] \<and>
           status (stored s') =
             (if update_rejected env ''expired'' = None then ''expired''
              else if n = 0 then status (stored s) else ''connected'')"
proof -
  let ?c = "retry_config env config (refreshes s) n"
  from request_unroll [OF assms(1,2)] obtain sn where
    sn: "request env config s = request env ?c sn"
        "refreshes sn = refreshes s + n"
        "sent sn = sent s @ map (retry_config env config (refreshes s)) [0..<n]"
        "id_integration (local_i sn) = id_integration (local_i s)"
        "n = 0 \<longrightarrow> sn = s" "0 < n \<longrightarrow> status (stored sn) = ''connected''"
    by blast
  have a: "answer env (length (sent sn)) ?c = HttpStatus 401"
    using assms(3) by (simp add: sn(3))
  let ?s1 = "sn\<lparr> sent := sent sn @ [?c] \<rparr>"
  have "\<not> refresh_ok env (refreshes ?s1)" using assms(4) sn(2) by simp
  moreover have "id_integration (local_i ?s1) \<noteq> ''temp''"
    using assms(1) sn(4) by (simp add: refreshable_def)
  ultimately obtain e where h: "handleTokenRefresh env ?s1 =
     (Inl e, ?s1\<lparr> stored := (if update_rejected env ''expired'' = None
                               then (stored ?s1)\<lparr> status := ''expired'' \<rparr> else stored ?s1),
                 refreshes := Suc (refreshes ?s1) \<rparr>)"
    using handleTokenRefresh_fails by blast
  have "request env ?c sn = Some (Inl (HttpError 401),
      ?s1\<lparr> stored := (if update_rejected env ''expired'' = None
                        then (stored ?s1)\<lparr> status := ''expired'' \<rparr> else stored ?s1),
          refreshes := Suc (refreshes ?s1) \<rparr>)"
    using assms(1) sn(4)
    by (subst request.simps) (simp add: a h refreshable_def)
  with sn show ?thesis by (cases "n = 0") auto
qed

lemma request_skips_refresh:
  assumes "answer env (length (sent s)) config = HttpStatus 401"
    and "skipAuthRefresh config \<or> id_integration (local_i s) = ''temp''"
  shows "request env config s = Some (Inl (HttpError 401), s\<lparr> sent := sent s @ [config] \<rparr>)"
  using assms(2) by (subst request.simps) (auto simp: assms(1))

lemma token_checking_ok: "refresh_ok token_checking k"
  by (simp add: refresh_ok_def token_checking_def truthy_def)

lemma twice_401_ok: "refresh_ok twice_401 k"
  by (simp add: refresh_ok_def twice_401_def truthy_def)

lemma always_401_ok: "refresh_ok always_401 k"
  by (simp add: refresh_ok_def always_401_def truthy_def)

lemma client0_refreshable: "refreshable plain_request client0"
  by (simp add: refreshable_def plain_request_def client0_def live_row_def)

text \<open>
  C6 (as amended). For a request sent through the connector's HTTP client and answered
  with HTTP 401 (outside the requests marked \<open>skipAuthRefresh\<close>, which the OAuth
  exchange and refresh calls are, and outside the temporary integration), the connector
  refreshes the token and sends the request again through the same client with the new
  token in its \<open>Authorization\<close> header; a 401 answer to the retried request is handled
  in the same way, so \<open>n\<close> consecutive 401 answers cost \<open>n\<close> refreshes and \<open>n\<close>
  retries, each retry carrying the token of the latest refresh, and while the provider
  keeps answering 401 and the refreshes keep succeeding, the request never settles.
  When a refresh fails (the provider's refresh call, the encryption of the tokens or
  the store's update of them), no further request is sent and the original 401 error
  is surfaced; the status of the integration becomes \<open>expired\<close> if the store accepts
  that update, and stays as it was if the store rejects it.
\<close>

theorem unauthorized_refresh_and_retry_per_401:
  "(refreshable config s \<and>
    (\<forall>j<n. answer env (length (sent s) + j) (retry_config env config (refreshes s) j)
              = HttpStatus 401 \<and> refresh_ok env (refreshes s + j)) \<longrightarrow>
      (\<forall>a. answer env (length (sent s) + n) (retry_config env config (refreshes s) n) = a \<and>
           a \<noteq> HttpStatus 401 \<longrightarrow>
         (\<exists>s'. request env config s = Some (settles a, s') \<and>
               refreshes s' = refreshes s + n \<and>
               sent s' = sent s @ map (retry_config env config (refreshes s)) [0..<Suc n])) \<and>
      (answer env (length (sent s) + n) (retry_config env config (refreshes s) n)
         = HttpStatus 401 \<and> \<not> refresh_ok env (refreshes s + n) \<longrightarrow>
         (\<exists>s'. request env config s = Some (Inl (HttpError 401), s') \<and>
               refreshes s' = refreshes s + n + 1 \<and>
               sent s' = sent s @ map (retry_config env config (refreshes s)) [0..<Suc n] \<and>
               status (stored s') =
                 (if update_rejected env ''expired'' = None then ''expired''
                  else if n = 0 then status (stored s) else ''connected'')))) \<and>
   (refreshable config s \<and>
    (\<forall>j. answer env (length (sent s) + j) (retry_config env config (refreshes s) j)
            = HttpStatus 401 \<and> refresh_ok env (refreshes s + j)) \<longrightarrow>
      request env config s = None) \<and>
   (answer env (length (sent s)) config = HttpStatus 401 \<and>
    (skipAuthRefresh config \<or> id_integration (local_i s) = ''temp'') \<longrightarrow>
      request env config s = Some (Inl (HttpError 401), s\<lparr> sent := sent s @ [config] \<rparr>)) \<and>
   retry_config env config r 0 = config \<and>
   retry_config env config r (Suc j)
     = config\<lparr> authorization := Some (''Bearer '' @ refreshed_token env (r + j)) \<rparr> \<and>
   (\<forall>rr. refreshAccessToken env k = Inr rr \<longrightarrow> refreshed_token env k = new_accessToken rr) \<and>
   settles (Ok2xx d) = Inr d \<and> settles NoResponse = Inl NetworkError \<and>
   settles (HttpStatus m) = Inl (HttpError m)"
proof (intro conjI impI allI)
  fix a
  assume "refreshable config s \<and>
    (\<forall>j<n. answer env (length (sent s) + j) (retry_config env config (refreshes s) j)
              = HttpStatus 401 \<and> refresh_ok env (refreshes s + j))"
    and "answer env (length (sent s) + n) (retry_config env config (refreshes s) n) = a \<and>
           a \<noteq> HttpStatus 401"
  then have "\<exists>s'. request env config s = Some (settles a, s') \<and>
           refreshes s' = refreshes s + n \<and>
           sent s' = sent s @ map (retry_config env config (refreshes s)) [0..<Suc n] \<and>
           (0 < n \<longrightarrow> status (stored s') = ''connected'')"
    by (intro request_retries) blast+
  then show "\<exists>s'. request env config s = Some (settles a, s') \<and>
               refreshes s' = refreshes s + n \<and>
               sent s' = sent s @ map (retry_config env config (refreshes s)) [0..<Suc n]"
    by blast
next
  assume "refreshable config s \<and>
    (\<forall>j<n. answer env (length (sent s) + j) (retry_config env config (refreshes s) j)
              = HttpStatus 401 \<and> refresh_ok env (refreshes s + j))"
    and "answer env (length (sent s) + n) (retry_config env config (refreshes s) n)
         = HttpStatus 401 \<and> \<not> refresh_ok env (refreshes s + n)"
  then show "\<exists>s'. request env config s = Some (Inl (HttpError 401), s') \<and>
               refreshes s' = refreshes s + n + 1 \<and>
               sent s' = sent s @ map (retry_config env config (refreshes s)) [0..<Suc n] \<and>
               status (stored s') =
                 (if update_rejected env ''expired'' = None then ''expired''
                  else if n = 0 then status (stored s) else ''connected'')"
    by (intro request_refresh_fails) blast+
next
  assume "refreshable config s \<and>
    (\<forall>j. answer env (length (sent s) + j) (retry_config env config (refreshes s) j)
            = HttpStatus 401 \<and> refresh_ok env (refreshes s + j))"
  then show "request env config s = None"
    by (intro request_endless) blast+
next
  assume "answer env (length (sent s)) config = HttpStatus 401 \<and>
    (skipAuthRefresh config \<or> id_integration (local_i s) = ''temp'')"
  then show "request env config s = Some (Inl (HttpError 401), s\<lparr> sent := sent s @ [config] \<rparr>)"
    by (intro request_skips_refresh) simp_all
next
  show "retry_config env config r 0 = config"
    by (simp add: retry_config_def)
next
  show "retry_config env config r (Suc j)
     = config\<lparr> authorization := Some (''Bearer '' @ refreshed_token env (r + j)) \<rparr>"
    by (simp add: retry_config_def)
next
  fix rr assume "refreshAccessToken env k = Inr rr"
  then show "refreshed_token env k = new_accessToken rr"
    by (simp add: refreshed_token_def)
next
  show "settles (Ok2xx d) = Inr d" "settles NoResponse = Inl NetworkError"
    "settles (HttpStatus m) = Inl (HttpError m)"
    by (simp_all add: settles_def)
qed

theorem unauthorized_refresh_and_retry_per_401_witness:
  "map_option (\<lambda>(r, s'). (r, refreshes s', sent s')) (request token_checking plain_request client0)
     = Some (Inr ''data'', 1,
             [plain_request, plain_request\<lparr> authorization := Some ''Bearer fresh'' \<rparr>]) \<and>
   map_option (\<lambda>(r, s'). (r, refreshes s', sent s', status (stored s')))
      (request refresh_broken plain_request client0)
     = Some (Inl (HttpError 401), 1, [plain_request], ''expired'') \<and>
   map_option (\<lambda>(r, s'). (r, refreshes s', sent s', status (stored s')))
      (request refresh_broken_store_down plain_request client0)
     = Some (Inl (HttpError 401), 1, [plain_request], ''connected'')"
proof -
  have tok: "refreshed_token token_checking 0 = ''fresh''"
    by (simp add: refreshed_token_def token_checking_def)
  have a: "refreshable plain_request client0 \<and>
    (\<forall>j<1. answer token_checking (length (sent client0) + j)
               (retry_config token_checking plain_request (refreshes client0) j) = HttpStatus 401 \<and>
            refresh_ok token_checking (refreshes client0 + j))"
    by (simp add: client0_refreshable token_checking_ok)
       (simp add: token_checking_def client0_def retry_config_def plain_request_def)
  have a': "answer token_checking (length (sent client0) + 1)
               (retry_config token_checking plain_request (refreshes client0) 1) = Ok2xx ''data'' \<and>
            Ok2xx ''data'' \<noteq> HttpStatus 401"
    by (simp add: retry_config_def tok client0_def) (simp add: token_checking_def)
  from unauthorized_refresh_and_retry_per_401
         [of plain_request client0 1 token_checking 0 0 0 "''data''" 0] a a'
  obtain s' where s': "request token_checking plain_request client0 = Some (settles (Ok2xx ''data''), s')"
    "refreshes s' = refreshes client0 + 1"
    "sent s' = sent client0 @ map (retry_config token_checking plain_request (refreshes client0))
                 [0..<Suc 1]"
    by blast
  have one: "map_option (\<lambda>(r, s'). (r, refreshes s', sent s'))
      (request token_checking plain_request client0)
     = Some (Inr ''data'', 1,
             [plain_request, plain_request\<lparr> authorization := Some ''Bearer fresh'' \<rparr>])"
    using s' by (simp add: settles_def client0_def retry_config_def tok)
  have b: "refreshable plain_request client0 \<and>
    (\<forall>j<0. answer refresh_broken (length (sent client0) + j)
               (retry_config refresh_broken plain_request (refreshes client0) j) = HttpStatus 401 \<and>
            refresh_ok refresh_broken (refreshes client0 + j))"
    by (simp add: client0_refreshable)
  have b': "answer refresh_broken (length (sent client0) + 0)
               (retry_config refresh_broken plain_request (refreshes client0) 0) = HttpStatus 401 \<and>
            \<not> refresh_ok refresh_broken (refreshes client0 + 0)"
    by (simp add: refresh_broken_def refresh_ok_def)
  from unauthorized_refresh_and_retry_per_401
         [of plain_request client0 0 refresh_broken 0 0 0 "''data''" 0] b b'
  obtain t' where t': "request refresh_broken plain_request client0 = Some (Inl (HttpError 401), t')"
    "refreshes t' = refreshes client0 + 0 + 1"
    "sent t' = sent client0 @ map (retry_config refresh_broken plain_request (refreshes client0))
                 [0..<Suc 0]"
    "status (stored t') =
       (if update_rejected refresh_broken ''expired'' = None then ''expired''
        else if (0::nat) = 0 then status (stored client0) else ''connected'')"
    by blast
  have two: "map_option (\<lambda>(r, s'). (r, refreshes s', sent s', status (stored s')))
      (request refresh_broken plain_request client0)
     = Some (Inl (HttpError 401), 1, [plain_request], ''expired'')"
    using t' by (simp add: client0_def retry_config_def refresh_broken_def)
  have c: "refreshable plain_request client0 \<and>
    (\<forall>j<0. answer refresh_broken_store_down (length (sent client0) + j)
               (retry_config refresh_broken_store_down plain_request (refreshes client0) j)
                 = HttpStatus 401 \<and>
            refresh_ok refresh_broken_store_down (refreshes client0 + j))"
    by (simp add: client0_refreshable)
  have c': "answer refresh_broken_store_down (length (sent client0) + 0)
               (retry_config refresh_broken_store_down plain_request (refreshes client0) 0)
                 = HttpStatus 401 \<and>
            \<not> refresh_ok refresh_broken_store_down (refreshes client0 + 0)"
    by (simp add: refresh_broken_store_down_def refresh_broken_def refresh_ok_def)
  from unauthorized_refresh_and_retry_per_401
         [of plain_request client0 0 refresh_broken_store_down 0 0 0 "''data''" 0] c c'
  obtain u' where u': "request refresh_broken_store_down plain_request client0
        = Some (Inl (HttpError 401), u')"
    "refreshes u' = refreshes client0 + 0 + 1"
    "sent u' = sent client0 @
       map (retry_config refresh_broken_store_down plain_request (refreshes client0)) [0..<Suc 0]"
    "status (stored u') =
       (if update_rejected refresh_broken_store_down ''expired'' = None then ''expired''
        else if (0::nat) = 0 then status (stored client0) else ''connected'')"
    by blast
  have three: "map_option (\<lambda>(r, s'). (r, refreshes s', sent s', status (stored s')))
      (request refresh_broken_store_down plain_request client0)
     = Some (Inl (HttpError 401), 1, [plain_request], ''connected'')"
    using u' by (simp add: client0_def retry_config_def refresh_broken_store_down_def
                   refresh_broken_def live_row_def)
  from one two three show ?thesis by blast
qed

text \<open>
  The claim as written promises exactly one refresh and one retry. Two 401 answers in a
  row cause two refreshes and three transmissions, and a provider that always answers
  401 keeps the request from ever settling.
\<close>

theorem second_refresh_counterexample:
  "map_option (\<lambda>(r, s'). (r, refreshes s', length (sent s')))
      (request twice_401 plain_request client0)
     = Some (Inr ''data'', 2, 3) \<and>
   request always_401 plain_request client0 = None"
proof -
  have "\<forall>j<2. answer twice_401 (length (sent client0) + j)
                 (retry_config twice_401 plain_request (refreshes client0) j) = HttpStatus 401 \<and>
               refresh_ok twice_401 (refreshes client0 + j)"
    and "answer twice_401 (length (sent client0) + 2)
           (retry_config twice_401 plain_request (refreshes client0) 2) = Ok2xx ''data''"
    by (simp_all add: twice_401_ok) (simp_all add: twice_401_def client0_def)
  from request_retries [OF client0_refreshable this]
  obtain s' where "request twice_401 plain_request client0 = Some (settles (Ok2xx ''data''), s')"
    "refreshes s' = refreshes client0 + 2"
    "sent s' = sent client0 @ map (retry_config twice_401 plain_request (refreshes client0))
                 [0..<Suc 2]"
    by auto
  then have one: "map_option (\<lambda>(r, s'). (r, refreshes s', length (sent s')))
      (request twice_401 plain_request client0) = Some (Inr ''data'', 2, 3)"
    by (simp add: client0_def settles_def)
  have "\<forall>j. answer always_401 (length (sent client0) + j)
               (retry_config always_401 plain_request (refreshes client0) j) = HttpStatus 401 \<and>
             refresh_ok always_401 (refreshes client0 + j)"
    by (simp add: always_401_ok) (simp add: always_401_def)
  from request_endless [OF client0_refreshable this]
  have two: "request always_401 plain_request client0 = None" .
  from one two show ?thesis by (rule conjI)
qed

subsection \<open>The OAuth callback\<close>

lemma key_of_update_data [simp]: "key_of (update_data t md a r ex sc x) = key_of x"
  by (simp add: key_of_def update_data_def)

lemma key_of_create_data [simp]:
  "key_of (create_data blank uid prov acc md a r ex sc) = (uid, prov, acc)"
  by (simp add: key_of_def create_data_def)

lemma find_None_keys: "find (\<lambda>r. key_of r = k) tbl = None \<longleftrightarrow> k \<notin> set (map key_of tbl)"
  by (auto simp: find_None_iff)

lemma upsert_key:
  assumes "upsert_integration tbl k upd crt = (i, tbl')"
    and "\<And>x. key_of (upd x) = key_of x" and "key_of crt = k"
  shows "key_of i = k"
  using assms
  by (auto simp: upsert_integration_def split: option.splits dest: find_Some_iff [THEN iffD1])

lemma map_keys_upd:
  assumes "\<And>x. key_of (upd x) = key_of x"
  shows "map key_of (map (\<lambda>x. if key_of x = k then upd x else x) tbl) = map key_of tbl"
  using assms by (induction tbl) auto

lemma upsert_distinct:
  assumes "upsert_integration tbl k upd crt = (i, tbl')"
    and "\<And>x. key_of (upd x) = key_of x" and "key_of crt = k"
    and "distinct (map key_of tbl)"
  shows "distinct (map key_of tbl')"
proof (cases "find (\<lambda>r. key_of r = k) tbl")
  case None
  with assms(1) have "tbl' = tbl @ [crt]" by (auto simp: upsert_integration_def)
  moreover from None have "k \<notin> set (map key_of tbl)" by (simp add: find_None_keys)
  ultimately show ?thesis using assms(3,4) by simp
next
  case (Some r)
  with assms(1) have "tbl' = map (\<lambda>x. if key_of x = k then upd x else x) tbl"
    by (simp add: upsert_integration_def)
  then have "map key_of tbl' = map key_of tbl"
    using map_keys_upd [OF assms(2), of k tbl] by (simp only:)
  with assms(4) show ?thesis by (simp only:)
qed

lemma key_unique:
  assumes "distinct (map key_of tbl)" and "a \<in> set tbl" and "b \<in> set tbl"
    and "key_of a = key_of b"
  shows "a = b"
proof -
  from assms(1) have "inj_on key_of (set tbl)" by (simp add: distinct_map)
  with assms(2-4) show ?thesis by (auto dest: inj_onD)
qed

lemma filter_key_distinct:
  assumes "distinct (map key_of tbl)" and "r \<in> set tbl"
  shows "filter (\<lambda>x. key_of x = key_of r) tbl = [r]"
  using assms
proof (induction tbl)
  case Nil
  then show ?case by simp
next
  case (Cons a tbl)
  show ?case
  proof (cases "a = r")
    case True
    have "\<forall>x \<in> set tbl. key_of x \<noteq> key_of r"
      using Cons.prems(1) True by (metis distinct.simps(2) image_eqI list.simps(9) set_map)
    then have "filter (\<lambda>x. key_of x = key_of r) tbl = []"
      by (simp add: filter_empty_conv)
    with True show ?thesis by simp
  next
    case False
    with Cons.prems have r: "r \<in> set tbl" and d: "distinct (map key_of tbl)" by auto
    have "key_of a \<noteq> key_of r" using Cons.prems(1) r by auto
    with Cons.IH [OF d r] show ?thesis by simp
  qed
qed

lemma upsert_member:
  assumes "upsert_integration tbl k upd crt = (i, tbl')"
  shows "i \<in> set tbl'"
proof (cases "find (\<lambda>r. key_of r = k) tbl")
  case None
  with assms show ?thesis by (auto simp: upsert_integration_def)
next
  case (Some r)
  then have "r \<in> set tbl" "key_of r = k"
    by (auto simp: find_Some_iff)
  moreover from Some assms have "i = upd r"
    "tbl' = map (\<lambda>x. if key_of x = k then upd x else x) tbl"
    by (auto simp: upsert_integration_def)
  ultimately show ?thesis by force
qed

lemma upsert_update_path:
  assumes "upsert_integration tbl k upd crt = (i, tbl')" and "k \<in> set (map key_of tbl)"
  shows "\<exists>r \<in> set tbl. key_of r = k \<and> i = upd r"
    and "tbl' = map (\<lambda>x. if key_of x = k then upd x else x) tbl"
proof -
  from assms(2) obtain r where f: "find (\<lambda>r. key_of r = k) tbl = Some r"
    by (cases "find (\<lambda>r. key_of r = k) tbl") (auto simp: find_None_keys)
  then have "r \<in> set tbl" "key_of r = k" by (auto simp: find_Some_iff)
  moreover from f assms(1) have "i = upd r"
    and t: "tbl' = map (\<lambda>x. if key_of x = k then upd x else x) tbl"
    by (auto simp: upsert_integration_def)
  ultimately show "\<exists>r \<in> set tbl. key_of r = k \<and> i = upd r" by blast
  from t show "tbl' = map (\<lambda>x. if key_of x = k then upd x else x) tbl" .
qed

lemma upsert_create_path:
  assumes "upsert_integration tbl k upd crt = (i, tbl')" and "k \<notin> set (map key_of tbl)"
  shows "i = crt \<and> tbl' = tbl @ [crt]"
proof -
  from assms(2) have "find (\<lambda>r. key_of r = k) tbl = None" by (simp add: find_None_keys)
  with assms(1) show ?thesis by (auto simp: upsert_integration_def)
qed

lemma exchange_success:
  assumes "handleOAuthCallback_exchange env s os prov code st cm = (Inr i, s')"
  shows "\<exists>td encA encR sc.
    exchangeCodeForTokens env prov (metadata_p os ++ cm) code st (codeVerifier os) = Inr td \<and>
    vault_encrypt env (accessToken_t td) = Inr encA \<and>
    encrypt_optional env (refreshToken_t td) = Inr encR \<and>
    oauth_scopes env prov (metadata_p os ++ cm) = Inr sc \<and>
    upsert_integration (integrations s) (userId_p os, prov, accountId_t td)
       (update_data (today env) (metadata_p os ++ cm ++ metadata_t td) encA encR (expiresAt_t td) sc)
       (create_data (blank_row env) (userId_p os) prov (accountId_t td)
          (metadata_p os ++ cm ++ metadata_t td) encA encR (expiresAt_t td) sc)
       = (i, integrations s') \<and>
    oAuthStates s' = (if delete_rejected env then oAuthStates s else (oAuthStates s)(st := None)) \<and>
    exchanges s' = exchanges s @ [(prov, code)]"
  using assms
  by (auto simp: handleOAuthCallback_exchange_def Let_def cleanupOAuthState_def
        split: option.splits if_splits sum.splits prod.splits)

lemma callback_success:
  assumes "handleOAuthCallback env s prov code st cm = (Inr i, s')"
  shows "\<exists>os td encA encR sc.
    validateOAuthState env s st = Some os \<and>
    exchangeCodeForTokens env prov (metadata_p os ++ cm) code st (codeVerifier os) = Inr td \<and>
    vault_encrypt env (accessToken_t td) = Inr encA \<and>
    encrypt_optional env (refreshToken_t td) = Inr encR \<and>
    oauth_scopes env prov (metadata_p os ++ cm) = Inr sc \<and>
    upsert_integration (integrations s) (userId_p os, prov, accountId_t td)
       (update_data (today env) (metadata_p os ++ cm ++ metadata_t td) encA encR (expiresAt_t td) sc)
       (create_data (blank_row env) (userId_p os) prov (accountId_t td)
          (metadata_p os ++ cm ++ metadata_t td) encA encR (expiresAt_t td) sc)
       = (i, integrations s') \<and>
    oAuthStates s' = (if delete_rejected env then oAuthStates s else (oAuthStates s)(st := None)) \<and>
    exchanges s' = exchanges s @ [(prov, code)]"
proof (cases "validateOAuthState env s st")
  case None
  with assms show ?thesis by (simp add: handleOAuthCallback_def)
next
  case (Some os)
  with assms have "handleOAuthCallback_exchange env s os prov code st cm = (Inr i, s')"
    by (simp add: handleOAuthCallback_def)
  from exchange_success [OF this] Some show ?thesis by blast
qed

lemma callback_invalid_state:
  assumes "oAuthStates s st = None \<or>
           (\<exists>r. oAuthStates s st = Some r \<and> expiresAt_state r < today env) \<or>
           state_read_throws env"
  shows "handleOAuthCallback env s prov code st cm = (Inl (ErrorObj ''Invalid OAuth state''), s)"
  using assms by (auto simp: handleOAuthCallback_def validateOAuthState_def)

lemma exchange_ignores_states:
  "fst (handleOAuthCallback_exchange env (s\<lparr> oAuthStates := m \<rparr>) os prov code st cm) =
   fst (handleOAuthCallback_exchange env s os prov code st cm)"
  by (simp add: handleOAuthCallback_exchange_def Let_def cleanupOAuthState_def
        split: option.splits if_splits sum.splits prod.splits)

lemma encrypt_optional_cases:
  assumes "encrypt_optional env tok = Inr encR"
  shows "case truthy tok of
           None \<Rightarrow> encR = None
         | Some r \<Rightarrow> \<exists>c. vault_encrypt env r = Inr c \<and> encR = Some c"
  using assms by (auto simp: encrypt_optional_def split: option.splits sum.splits)

lemma demo_create:
  "handleOAuthCallback demo_env empty_state ''shopify'' ''code-1'' ''state-1'' Map.empty =
     (Inr (schema_defaults\<lparr> userId := ''u1'', provider := ''shopify'',
             accountId := ''test-store.myshopify.com'',
             accessToken := ''enc:shpat-code-1'', refreshToken := Some ''enc:refresh-code-1'',
             metadata := [''shopDomain'' \<mapsto> ''test-store.myshopify.com''] ++ Map.empty ++
                         [''shopName'' \<mapsto> ''Test Store''],
             status := ''connected'',
             scopes := [''read_orders'', ''read_products''] \<rparr>),
      \<lparr> integrations =
          [schema_defaults\<lparr> userId := ''u1'', provider := ''shopify'',
             accountId := ''test-store.myshopify.com'',
             accessToken := ''enc:shpat-code-1'', refreshToken := Some ''enc:refresh-code-1'',
             metadata := [''shopDomain'' \<mapsto> ''test-store.myshopify.com''] ++ Map.empty ++
                         [''shopName'' \<mapsto> ''Test Store''],
             status := ''connected'',
             scopes := [''read_orders'', ''read_products''] \<rparr>],
        oAuthStates = (oAuthStates demo_state)(''state-1'' := None),
        exchanges = [(''shopify'', ''code-1'')] \<rparr>)"
  by (simp add: handleOAuthCallback_def handleOAuthCallback_exchange_def validateOAuthState_def
        demo_env_def empty_state_def demo_state_def connectorFactories_def Let_def
        encrypt_optional_def truthy_def upsert_integration_def key_of_def schema_defaults_def
        pending_payload_def create_data_def cleanupOAuthState_def)

lemma callback_row:
  assumes "distinct (map key_of (integrations s))"
    and "handleOAuthCallback env s prov code st cm = (Inr i, s')"
  shows "\<exists>os td. validateOAuthState env s st = Some os \<and>
      exchangeCodeForTokens env prov (metadata_p os ++ cm) code st (codeVerifier os) = Inr td \<and>
      key_of i = (userId_p os, prov, accountId_t td) \<and>
      vault_encrypt env (accessToken_t td) = Inr (accessToken i) \<and>
      (case truthy (refreshToken_t td) of
         None \<Rightarrow> refreshToken i = None
       | Some r \<Rightarrow> \<exists>c. vault_encrypt env r = Inr c \<and> refreshToken i = Some c) \<and>
      metadata i = metadata_p os ++ cm ++ metadata_t td \<and>
      oauth_scopes env prov (metadata_p os ++ cm) = Inr (scopes i) \<and>
      (key_of i \<notin> set (map key_of (integrations s)) \<longrightarrow>
         integrations s' = integrations s @ [i] \<and>
         expiresAt i = (case expiresAt_t td of None \<Rightarrow> expiresAt (blank_row env)
                        | Some e \<Rightarrow> Some e) \<and>
         id_integration i = id_integration (blank_row env) \<and>
         lastSyncAt i = lastSyncAt (blank_row env) \<and>
         createdAt i = createdAt (blank_row env) \<and>
         updatedAt i = updatedAt (blank_row env) \<and>
         deletedAt i = deletedAt (blank_row env)) \<and>
      (key_of i \<in> set (map key_of (integrations s)) \<longrightarrow>
         (\<exists>old \<in> set (integrations s). key_of old = key_of i \<and>
            integrations s' = map (\<lambda>x. if x = old then i else x) (integrations s) \<and>
            expiresAt i = (case expiresAt_t td of None \<Rightarrow> expiresAt old | Some e \<Rightarrow> Some e) \<and>
            id_integration i = id_integration old \<and>
            lastSyncAt i = lastSyncAt old \<and>
            createdAt i = createdAt old) \<and>
         updatedAt i = today env \<and> deletedAt i = None)"
    and "status i = ''connected''"
    and "distinct (map key_of (integrations s'))"
    and "i \<in> set (integrations s')"
proof -
  from callback_success [OF assms(2)]
  obtain os :: oauth_payload and td :: token_data and encA encR sc where
    v: "validateOAuthState env s st = Some os"
    and x: "exchangeCodeForTokens env prov (metadata_p os ++ cm) code st (codeVerifier os) = Inr td"
    and e: "vault_encrypt env (accessToken_t td) = Inr encA"
    and o: "encrypt_optional env (refreshToken_t td) = Inr encR"
    and c: "oauth_scopes env prov (metadata_p os ++ cm) = Inr sc"
    and u: "upsert_integration (integrations s) (userId_p os, prov, accountId_t td)
       (update_data (today env) (metadata_p os ++ cm ++ metadata_t td) encA encR (expiresAt_t td) sc)
       (create_data (blank_row env) (userId_p os) prov (accountId_t td)
          (metadata_p os ++ cm ++ metadata_t td) encA encR (expiresAt_t td) sc)
       = (i, integrations s')"
    by blast
  let ?k = "(userId_p os, prov, accountId_t td)"
  let ?upd = "update_data (today env) (metadata_p os ++ cm ++ metadata_t td) encA encR
                (expiresAt_t td) sc"
  let ?crt = "create_data (blank_row env) (userId_p os) prov (accountId_t td)
                (metadata_p os ++ cm ++ metadata_t td) encA encR (expiresAt_t td) sc"
  have k: "key_of i = ?k" by (rule upsert_key [OF u]) simp_all
  show "distinct (map key_of (integrations s'))"
    by (rule upsert_distinct [OF u _ _ assms(1)]) simp_all
  show "i \<in> set (integrations s')" by (rule upsert_member [OF u])
  have new: "?k \<notin> set (map key_of (integrations s)) \<Longrightarrow>
      i = ?crt \<and> integrations s' = integrations s @ [i]"
    using upsert_create_path [OF u] by simp
  have old: "?k \<in> set (map key_of (integrations s)) \<Longrightarrow>
      \<exists>r \<in> set (integrations s). key_of r = ?k \<and> i = ?upd r \<and>
         integrations s' = map (\<lambda>x. if x = r then i else x) (integrations s)"
  proof -
    assume m: "?k \<in> set (map key_of (integrations s))"
    from upsert_update_path [OF u m] obtain r where
      r: "r \<in> set (integrations s)" "key_of r = ?k" "i = ?upd r"
      and t: "integrations s' = map (\<lambda>x. if key_of x = ?k then ?upd x else x) (integrations s)"
      by blast
    have "map (\<lambda>x. if key_of x = ?k then ?upd x else x) (integrations s)
        = map (\<lambda>x. if x = r then i else x) (integrations s)"
    proof (rule map_cong [OF refl])
      fix y assume y: "y \<in> set (integrations s)"
      show "(if key_of y = ?k then ?upd y else y) = (if y = r then i else y)"
      proof (cases "key_of y = ?k")
        case True
        with r(2) have "key_of y = key_of r" by simp
        from key_unique [OF assms(1) y r(1) this] True r(3) show ?thesis by simp
      next
        case False
        with r(2) have "y \<noteq> r" by auto
        with False show ?thesis by simp
      qed
    qed
    with t r show ?thesis by auto
  qed
  have cols: "accessToken i = encA \<and> refreshToken i = encR \<and>
      metadata i = metadata_p os ++ cm ++ metadata_t td \<and> scopes i = sc \<and>
      status i = ''connected''"
  proof (cases "?k \<in> set (map key_of (integrations s))")
    case True
    from old [OF True] show ?thesis by (auto simp: update_data_def)
  next
    case False
    from new [OF False] show ?thesis by (simp add: create_data_def)
  qed
  then show "status i = ''connected''" by simp
  have refresh: "case truthy (refreshToken_t td) of
         None \<Rightarrow> refreshToken i = None
       | Some r \<Rightarrow> \<exists>c. vault_encrypt env r = Inr c \<and> refreshToken i = Some c"
    using encrypt_optional_cases [OF o] cols by (simp split: option.splits)
  have created: "key_of i \<notin> set (map key_of (integrations s)) \<longrightarrow>
         integrations s' = integrations s @ [i] \<and>
         expiresAt i = (case expiresAt_t td of None \<Rightarrow> expiresAt (blank_row env)
                        | Some e \<Rightarrow> Some e) \<and>
         id_integration i = id_integration (blank_row env) \<and>
         lastSyncAt i = lastSyncAt (blank_row env) \<and>
         createdAt i = createdAt (blank_row env) \<and>
         updatedAt i = updatedAt (blank_row env) \<and>
         deletedAt i = deletedAt (blank_row env)"
  proof
    assume "key_of i \<notin> set (map key_of (integrations s))"
    then have "?k \<notin> set (map key_of (integrations s))" by (simp add: k)
    from new [OF this] show "integrations s' = integrations s @ [i] \<and>
         expiresAt i = (case expiresAt_t td of None \<Rightarrow> expiresAt (blank_row env)
                        | Some e \<Rightarrow> Some e) \<and>
         id_integration i = id_integration (blank_row env) \<and>
         lastSyncAt i = lastSyncAt (blank_row env) \<and>
         createdAt i = createdAt (blank_row env) \<and>
         updatedAt i = updatedAt (blank_row env) \<and>
         deletedAt i = deletedAt (blank_row env)"
      by (simp add: create_data_def)
  qed
  have updated: "key_of i \<in> set (map key_of (integrations s)) \<longrightarrow>
         (\<exists>old \<in> set (integrations s). key_of old = key_of i \<and>
            integrations s' = map (\<lambda>x. if x = old then i else x) (integrations s) \<and>
            expiresAt i = (case expiresAt_t td of None \<Rightarrow> expiresAt old | Some e \<Rightarrow> Some e) \<and>
            id_integration i = id_integration old \<and>
            lastSyncAt i = lastSyncAt old \<and>
            createdAt i = createdAt old) \<and>
         updatedAt i = today env \<and> deletedAt i = None"
  proof
    assume "key_of i \<in> set (map key_of (integrations s))"
    then have "?k \<in> set (map key_of (integrations s))" by (simp add: k)
    from old [OF this] obtain r where
      r: "r \<in> set (integrations s)" "key_of r = ?k" "i = ?upd r"
         "integrations s' = map (\<lambda>x. if x = r then i else x) (integrations s)"
      by blast
    have "key_of r = key_of i \<and>
            integrations s' = map (\<lambda>x. if x = r then i else x) (integrations s) \<and>
            expiresAt i = (case expiresAt_t td of None \<Rightarrow> expiresAt r | Some e \<Rightarrow> Some e) \<and>
            id_integration i = id_integration r \<and>
            lastSyncAt i = lastSyncAt r \<and>
            createdAt i = createdAt r"
      using r(2,4) k by (simp add: r(3) update_data_def)
    moreover have "updatedAt i = today env \<and> deletedAt i = None"
      by (simp add: r(3) update_data_def)
    ultimately show "(\<exists>old \<in> set (integrations s). key_of old = key_of i \<and>
            integrations s' = map (\<lambda>x. if x = old then i else x) (integrations s) \<and>
            expiresAt i = (case expiresAt_t td of None \<Rightarrow> expiresAt old | Some e \<Rightarrow> Some e) \<and>
            id_integration i = id_integration old \<and>
            lastSyncAt i = lastSyncAt old \<and>
            createdAt i = createdAt old) \<and>
         updatedAt i = today env \<and> deletedAt i = None"
      using r(1) by blast
  qed
  from v x k e cols c refresh created updated
  show "\<exists>os td. validateOAuthState env s st = Some os \<and>
      exchangeCodeForTokens env prov (metadata_p os ++ cm) code st (codeVerifier os) = Inr td \<and>
      key_of i = (userId_p os, prov, accountId_t td) \<and>
      vault_encrypt env (accessToken_t td) = Inr (accessToken i) \<and>
      (case truthy (refreshToken_t td) of
         None \<Rightarrow> refreshToken i = None
       | Some r \<Rightarrow> \<exists>c. vault_encrypt env r = Inr c \<and> refreshToken i = Some c) \<and>
      metadata i = metadata_p os ++ cm ++ metadata_t td \<and>
      oauth_scopes env prov (metadata_p os ++ cm) = Inr (scopes i) \<and>
      (key_of i \<notin> set (map key_of (integrations s)) \<longrightarrow>
         integrations s' = integrations s @ [i] \<and>
         expiresAt i = (case expiresAt_t td of None \<Rightarrow> expiresAt (blank_row env)
                        | Some e \<Rightarrow> Some e) \<and>
         id_integration i = id_integration (blank_row env) \<and>
         lastSyncAt i = lastSyncAt (blank_row env) \<and>
         createdAt i = createdAt (blank_row env) \<and>
         updatedAt i = updatedAt (blank_row env) \<and>
         deletedAt i = deletedAt (blank_row env)) \<and>
      (key_of i \<in> set (map key_of (integrations s)) \<longrightarrow>
         (\<exists>old \<in> set (integrations s). key_of old = key_of i \<and>
            integrations s' = map (\<lambda>x. if x = old then i else x) (integrations s) \<and>
            expiresAt i = (case expiresAt_t td of None \<Rightarrow> expiresAt old | Some e \<Rightarrow> Some e) \<and>
            id_integration i = id_integration old \<and>
            lastSyncAt i = lastSyncAt old \<and>
            createdAt i = createdAt old) \<and>
         updatedAt i = today env \<and> deletedAt i = None)"
    by blast
qed

lemma demo_once_ok:
  "demo_once =
     (Inr (schema_defaults\<lparr> userId := ''u1'', provider := ''shopify'',
             accountId := ''test-store.myshopify.com'',
             accessToken := ''enc:shpat-code-1'', refreshToken := Some ''enc:refresh-code-1'',
             metadata := [''shopDomain'' \<mapsto> ''test-store.myshopify.com''] ++ Map.empty ++
                         [''shopName'' \<mapsto> ''Test Store''],
             status := ''connected'',
             scopes := [''read_orders'', ''read_products''] \<rparr>),
      \<lparr> integrations =
          [schema_defaults\<lparr> userId := ''u1'', provider := ''shopify'',
             accountId := ''test-store.myshopify.com'',
             accessToken := ''enc:shpat-code-1'', refreshToken := Some ''enc:refresh-code-1'',
             metadata := [''shopDomain'' \<mapsto> ''test-store.myshopify.com''] ++ Map.empty ++
                         [''shopName'' \<mapsto> ''Test Store''],
             status := ''connected'',
             scopes := [''read_orders'', ''read_products''] \<rparr>],
        oAuthStates = (oAuthStates demo_state)(''state-1'' := None),
        exchanges = [(''shopify'', ''code-1'')] \<rparr>)"
  unfolding demo_once_def by (rule demo_create)

lemma demo_twice_ok:
  "fst demo_twice =
     Inr (schema_defaults\<lparr> userId := ''u1'', provider := ''shopify'',
             accountId := ''test-store.myshopify.com'',
             accessToken := ''enc:shpat-code-2'', refreshToken := Some ''enc:refresh-code-2'',
             metadata := [''shopDomain'' \<mapsto> ''test-store.myshopify.com''] ++ Map.empty ++
                         [''shopName'' \<mapsto> ''Test Store''],
             status := ''connected'', deletedAt := None,
             scopes := [''read_orders'', ''read_products''], updatedAt := 1000 \<rparr>)"
  by (simp add: demo_twice_def demo_once_ok)
     (simp add: handleOAuthCallback_def handleOAuthCallback_exchange_def validateOAuthState_def
        demo_env_def demo_state_def connectorFactories_def Let_def encrypt_optional_def
        truthy_def upsert_integration_def key_of_def schema_defaults_def pending_payload_def
        update_data_def cleanupOAuthState_def)

lemma lossy_once_ok:
  "lossy_once =
     (Inr (schema_defaults\<lparr> userId := ''u1'', provider := ''shopify'',
             accountId := ''test-store.myshopify.com'',
             accessToken := ''enc:shpat-code-1'', refreshToken := Some ''enc:refresh-code-1'',
             metadata := [''shopDomain'' \<mapsto> ''test-store.myshopify.com''] ++ Map.empty ++
                         [''shopName'' \<mapsto> ''Test Store''],
             status := ''connected'',
             scopes := [''read_orders'', ''read_products''] \<rparr>),
      \<lparr> integrations =
          [schema_defaults\<lparr> userId := ''u1'', provider := ''shopify'',
             accountId := ''test-store.myshopify.com'',
             accessToken := ''enc:shpat-code-1'', refreshToken := Some ''enc:refresh-code-1'',
             metadata := [''shopDomain'' \<mapsto> ''test-store.myshopify.com''] ++ Map.empty ++
                         [''shopName'' \<mapsto> ''Test Store''],
             status := ''connected'',
             scopes := [''read_orders'', ''read_products''] \<rparr>],
        oAuthStates = oAuthStates demo_state,
        exchanges = [(''shopify'', ''code-1'')] \<rparr>)"
  by (simp add: lossy_once_def lossy_env_def handleOAuthCallback_def
        handleOAuthCallback_exchange_def validateOAuthState_def
        demo_env_def empty_state_def demo_state_def connectorFactories_def Let_def
        encrypt_optional_def truthy_def upsert_integration_def key_of_def schema_defaults_def
        pending_payload_def create_data_def cleanupOAuthState_def)

lemma lossy_replay_ok:
  "fst lossy_replay =
     Inr (schema_defaults\<lparr> userId := ''u1'', provider := ''shopify'',
             accountId := ''test-store.myshopify.com'',
             accessToken := ''enc:shpat-code-2'', refreshToken := Some ''enc:refresh-code-2'',
             metadata := [''shopDomain'' \<mapsto> ''test-store.myshopify.com''] ++ Map.empty ++
                         [''shopName'' \<mapsto> ''Test Store''],
             status := ''connected'', deletedAt := None,
             scopes := [''read_orders'', ''read_products''], updatedAt := 1000 \<rparr>) \<and>
   exchanges (snd lossy_replay) = [(''shopify'', ''code-1''), (''shopify'', ''code-2'')]"
  by (simp add: lossy_replay_def lossy_once_ok)
     (simp add: handleOAuthCallback_def handleOAuthCallback_exchange_def validateOAuthState_def
        demo_env_def demo_state_def connectorFactories_def Let_def encrypt_optional_def
        truthy_def upsert_integration_def key_of_def schema_defaults_def pending_payload_def
        update_data_def cleanupOAuthState_def)

text \<open>
  C2 (as amended). An OAuth state token is validated before any token exchange:
  \<open>handleOAuthCallback\<close> fails with the invalid-state error, with no token exchange and
  no write to the Integration table, whenever the state row is missing, its
  \<open>expiresAt\<close> is in the past, or reading it throws. A successful callback asks the
  store to delete the state row. When the store performs the delete, the row is gone
  and every callback that reads the state afterwards fails. The failure of the delete
  is swallowed: when the store rejects it, the callback succeeds all the same, the row
  stays, and a later callback with the same state value is validated again for as long
  as the row has not expired. The validation and the delete are separate operations on
  the store: once a callback has read the row, it completes whether or not the row is
  still there.
\<close>

theorem oauth_state_single_use:
  "((oAuthStates s st = None \<or>
     (\<exists>r. oAuthStates s st = Some r \<and> expiresAt_state r < today env) \<or>
     state_read_throws env) \<longrightarrow>
      handleOAuthCallback env s prov code st cm = (Inl (ErrorObj ''Invalid OAuth state''), s)) \<and>
   (handleOAuthCallback env s prov code st cm = (Inr i, s') \<longrightarrow>
      exchanges s' = exchanges s @ [(prov, code)] \<and>
      (\<not> delete_rejected env \<longrightarrow>
         oAuthStates s' st = None \<and>
         (\<forall>s2. oAuthStates s2 st = oAuthStates s' st \<longrightarrow>
            handleOAuthCallback env2 s2 prov2 code2 st cm2 =
              (Inl (ErrorObj ''Invalid OAuth state''), s2))) \<and>
      (delete_rejected env \<longrightarrow>
         (\<exists>r os. oAuthStates s' st = Some r \<and> oAuthStates s st = Some r \<and>
            data_parsed r = Some os \<and>
            (\<not> state_read_throws env2 \<and> today env2 \<le> expiresAt_state r \<longrightarrow>
               handleOAuthCallback env2 s' prov2 code2 st cm2 =
                 handleOAuthCallback_exchange env2 s' os prov2 code2 st cm2)))) \<and>
   fst (handleOAuthCallback_exchange env (s\<lparr> oAuthStates := m \<rparr>) os prov code st cm) =
     fst (handleOAuthCallback_exchange env s os prov code st cm)"
proof (intro conjI impI)
  assume "oAuthStates s st = None \<or>
     (\<exists>r. oAuthStates s st = Some r \<and> expiresAt_state r < today env) \<or>
     state_read_throws env"
  then show "handleOAuthCallback env s prov code st cm = (Inl (ErrorObj ''Invalid OAuth state''), s)"
    by (rule callback_invalid_state)
next
  assume ok: "handleOAuthCallback env s prov code st cm = (Inr i, s')"
  from callback_success [OF ok] show "exchanges s' = exchanges s @ [(prov, code)]"
    by auto
next
  assume ok: "handleOAuthCallback env s prov code st cm = (Inr i, s')"
    and del: "\<not> delete_rejected env"
  from callback_success [OF ok] del show "oAuthStates s' st = None"
    by auto
next
  assume ok: "handleOAuthCallback env s prov code st cm = (Inr i, s')"
    and del: "\<not> delete_rejected env"
  from callback_success [OF ok] del have gone: "oAuthStates s' st = None"
    by auto
  show "\<forall>s2. oAuthStates s2 st = oAuthStates s' st \<longrightarrow>
            handleOAuthCallback env2 s2 prov2 code2 st cm2 =
              (Inl (ErrorObj ''Invalid OAuth state''), s2)"
  proof (intro allI impI)
    fix s2 :: manager_state
    assume "oAuthStates s2 st = oAuthStates s' st"
    with gone have "oAuthStates s2 st = None" by simp
    then show "handleOAuthCallback env2 s2 prov2 code2 st cm2 =
              (Inl (ErrorObj ''Invalid OAuth state''), s2)"
      by (intro callback_invalid_state) simp
  qed
next
  assume ok: "handleOAuthCallback env s prov code st cm = (Inr i, s')"
    and del: "delete_rejected env"
  from callback_success [OF ok] del obtain os1 :: oauth_payload where
    v: "validateOAuthState env s st = Some os1" and same: "oAuthStates s' = oAuthStates s"
    by auto
  from v obtain r where r: "oAuthStates s st = Some r" "data_parsed r = Some os1"
    by (auto simp: validateOAuthState_def split: if_splits option.splits)
  have "\<not> state_read_throws env2 \<and> today env2 \<le> expiresAt_state r \<longrightarrow>
               handleOAuthCallback env2 s' prov2 code2 st cm2 =
                 handleOAuthCallback_exchange env2 s' os1 prov2 code2 st cm2"
    using r same by (simp add: handleOAuthCallback_def validateOAuthState_def)
  with r same show "\<exists>r os. oAuthStates s' st = Some r \<and> oAuthStates s st = Some r \<and>
            data_parsed r = Some os \<and>
            (\<not> state_read_throws env2 \<and> today env2 \<le> expiresAt_state r \<longrightarrow>
               handleOAuthCallback env2 s' prov2 code2 st cm2 =
                 handleOAuthCallback_exchange env2 s' os prov2 code2 st cm2)"
    by auto
next
  show "fst (handleOAuthCallback_exchange env (s\<lparr> oAuthStates := m \<rparr>) os prov code st cm) =
     fst (handleOAuthCallback_exchange env s os prov code st cm)"
    by (rule exchange_ignores_states)
qed

theorem oauth_state_single_use_witness:
  "handleOAuthCallback demo_env demo_state ''shopify'' ''code-1'' ''state-old'' Map.empty =
     (Inl (ErrorObj ''Invalid OAuth state''), demo_state) \<and>
   fst (handleOAuthCallback demo_env (snd demo_once) ''shopify'' ''code-2'' ''state-1'' Map.empty)
     = Inl (ErrorObj ''Invalid OAuth state'') \<and>
   handleOAuthCallback demo_env (snd lossy_once) ''shopify'' ''code-2'' ''state-1'' Map.empty
     = handleOAuthCallback_exchange demo_env (snd lossy_once) pending_payload
         ''shopify'' ''code-2'' ''state-1'' Map.empty"
proof -
  have old: "oAuthStates demo_state ''state-old'' = None \<or>
     (\<exists>r. oAuthStates demo_state ''state-old'' = Some r \<and> expiresAt_state r < today demo_env) \<or>
     state_read_throws demo_env"
    by (simp add: demo_state_def demo_env_def)
  obtain i s' where first:
    "handleOAuthCallback demo_env empty_state ''shopify'' ''code-1'' ''state-1'' Map.empty = (Inr i, s')"
    and s': "s' = snd demo_once"
    using demo_once_ok by (simp add: demo_once_def)
  obtain j t' where lossy:
    "handleOAuthCallback lossy_env empty_state ''shopify'' ''code-1'' ''state-1'' Map.empty = (Inr j, t')"
    and t': "t' = snd lossy_once"
    using lossy_once_ok by (simp add: lossy_once_def)
  have nd: "\<not> delete_rejected demo_env" by (simp add: demo_env_def)
  have ld: "delete_rejected lossy_env" by (simp add: lossy_env_def)
  from oauth_state_single_use
         [of demo_state "''state-old''" demo_env "''shopify''" "''code-1''" Map.empty
             i s' demo_env "''shopify''" "''code-2''" Map.empty Map.empty pending_payload] old
  have a: "handleOAuthCallback demo_env demo_state ''shopify'' ''code-1'' ''state-old'' Map.empty =
     (Inl (ErrorObj ''Invalid OAuth state''), demo_state)" by blast
  from oauth_state_single_use
         [of empty_state "''state-1''" demo_env "''shopify''" "''code-1''" Map.empty
             i s' demo_env "''shopify''" "''code-2''" Map.empty Map.empty pending_payload] first nd
  have "handleOAuthCallback demo_env s' ''shopify'' ''code-2'' ''state-1'' Map.empty =
        (Inl (ErrorObj ''Invalid OAuth state''), s')" by blast
  then have b: "fst (handleOAuthCallback demo_env (snd demo_once) ''shopify'' ''code-2'' ''state-1''
      Map.empty) = Inl (ErrorObj ''Invalid OAuth state'')"
    by (simp add: s')
  from oauth_state_single_use
         [of empty_state "''state-1''" lossy_env "''shopify''" "''code-1''" Map.empty
             j t' demo_env "''shopify''" "''code-2''" Map.empty Map.empty pending_payload] lossy ld
  obtain r os where r: "oAuthStates t' ''state-1'' = Some r" "data_parsed r = Some os"
    "\<not> state_read_throws demo_env \<and> today demo_env \<le> expiresAt_state r \<longrightarrow>
       handleOAuthCallback demo_env t' ''shopify'' ''code-2'' ''state-1'' Map.empty =
       handleOAuthCallback_exchange demo_env t' os ''shopify'' ''code-2'' ''state-1'' Map.empty"
    by blast
  from r(1,2) have "os = pending_payload" "expiresAt_state r = 2000"
    by (auto simp: t' lossy_once_ok demo_state_def)
  with r(3) have c: "handleOAuthCallback demo_env (snd lossy_once) ''shopify'' ''code-2'' ''state-1''
        Map.empty
     = handleOAuthCallback_exchange demo_env (snd lossy_once) pending_payload
         ''shopify'' ''code-2'' ''state-1'' Map.empty"
    by (simp add: t' demo_env_def)
  from a b c show ?thesis by blast
qed

text \<open>
  The claim as written promises that a state consumed by a successful callback cannot
  be used again. With a store that rejects the delete of the state row, the first
  callback succeeds, and so does a second callback with the same state value and
  another code: the tokens are exchanged a second time.
\<close>

theorem oauth_state_replay_counterexample:
  "map_sum id accessToken (fst lossy_once) = Inr ''enc:shpat-code-1'' \<and>
   map_sum id accessToken (fst lossy_replay) = Inr ''enc:shpat-code-2'' \<and>
   exchanges (snd lossy_replay) = [(''shopify'', ''code-1''), (''shopify'', ''code-2'')]"
  by (simp add: lossy_once_ok lossy_replay_ok)

text \<open>
  C1. \<open>handleOAuthCallback\<close> is an idempotent upsert keyed on (userId, provider,
  accountId): after two successful callbacks that resolve to the same tuple, on a table
  whose keys are unique, exactly one row has that tuple (so at most one that is not
  soft-deleted): it is the row the first callback wrote, with the access token and the
  refresh token of the second call as the vault encrypts them (no refresh token when the
  second call brought none), its \<open>deletedAt\<close> \<open>null\<close> and its status \<open>connected\<close>,
  and no other row is changed. A first callback for a new tuple appends a fresh row
  with the encrypted tokens of that call and the status \<open>connected\<close>, the columns it
  does not name being the store's defaults; one for an existing tuple updates that row
  in place, clearing the soft-delete.
\<close>

theorem oauth_callback_idempotent_upsert:
  assumes "distinct (map key_of (integrations s0))"
    and "handleOAuthCallback env1 s0 prov1 code1 st1 cm1 = (Inr i1, s1)"
    and "handleOAuthCallback env2 s1 prov2 code2 st2 cm2 = (Inr i2, s2)"
    and "key_of i1 = key_of i2"
  shows "filter (\<lambda>r. key_of r = key_of i2) (integrations s2) = [i2] \<and>
         length (filter (\<lambda>r. key_of r = key_of i2 \<and> deletedAt r = None) (integrations s2)) \<le> 1 \<and>
         integrations s2 = map (\<lambda>x. if x = i1 then i2 else x) (integrations s1) \<and>
         (\<exists>os td. validateOAuthState env2 s1 st2 = Some os \<and>
            exchangeCodeForTokens env2 prov2 (metadata_p os ++ cm2) code2 st2 (codeVerifier os)
              = Inr td \<and>
            key_of i2 = (userId_p os, prov2, accountId_t td) \<and>
            vault_encrypt env2 (accessToken_t td) = Inr (accessToken i2) \<and>
            (case truthy (refreshToken_t td) of
               None \<Rightarrow> refreshToken i2 = None
             | Some r \<Rightarrow> \<exists>c. vault_encrypt env2 r = Inr c \<and> refreshToken i2 = Some c) \<and>
            expiresAt i2 = (case expiresAt_t td of None \<Rightarrow> expiresAt i1 | Some e \<Rightarrow> Some e) \<and>
            metadata i2 = metadata_p os ++ cm2 ++ metadata_t td \<and>
            oauth_scopes env2 prov2 (metadata_p os ++ cm2) = Inr (scopes i2)) \<and>
         status i2 = ''connected'' \<and> deletedAt i2 = None \<and> updatedAt i2 = today env2 \<and>
         id_integration i2 = id_integration i1 \<and> createdAt i2 = createdAt i1 \<and>
         lastSyncAt i2 = lastSyncAt i1 \<and>
         (\<exists>os td. validateOAuthState env1 s0 st1 = Some os \<and>
            exchangeCodeForTokens env1 prov1 (metadata_p os ++ cm1) code1 st1 (codeVerifier os)
              = Inr td \<and>
            key_of i1 = (userId_p os, prov1, accountId_t td) \<and>
            vault_encrypt env1 (accessToken_t td) = Inr (accessToken i1) \<and>
            (case truthy (refreshToken_t td) of
               None \<Rightarrow> refreshToken i1 = None
             | Some r \<Rightarrow> \<exists>c. vault_encrypt env1 r = Inr c \<and> refreshToken i1 = Some c) \<and>
            metadata i1 = metadata_p os ++ cm1 ++ metadata_t td \<and>
            oauth_scopes env1 prov1 (metadata_p os ++ cm1) = Inr (scopes i1) \<and>
            (key_of i1 \<notin> set (map key_of (integrations s0)) \<longrightarrow>
               integrations s1 = integrations s0 @ [i1] \<and>
               expiresAt i1 = (case expiresAt_t td of None \<Rightarrow> expiresAt (blank_row env1)
                               | Some e \<Rightarrow> Some e) \<and>
               id_integration i1 = id_integration (blank_row env1) \<and>
               lastSyncAt i1 = lastSyncAt (blank_row env1) \<and>
               createdAt i1 = createdAt (blank_row env1) \<and>
               updatedAt i1 = updatedAt (blank_row env1) \<and>
               deletedAt i1 = deletedAt (blank_row env1)) \<and>
            (key_of i1 \<in> set (map key_of (integrations s0)) \<longrightarrow>
               (\<exists>old \<in> set (integrations s0). key_of old = key_of i1 \<and>
                  integrations s1 = map (\<lambda>x. if x = old then i1 else x) (integrations s0) \<and>
                  expiresAt i1 = (case expiresAt_t td of None \<Rightarrow> expiresAt old
                                  | Some e \<Rightarrow> Some e) \<and>
                  id_integration i1 = id_integration old \<and>
                  lastSyncAt i1 = lastSyncAt old \<and>
                  createdAt i1 = createdAt old) \<and>
               updatedAt i1 = today env1 \<and> deletedAt i1 = None)) \<and>
         status i1 = ''connected''"
proof -
  note first = callback_row [OF assms(1,2)]
  note second = callback_row [OF first(3) assms(3)]
  have one: "filter (\<lambda>r. key_of r = key_of i2) (integrations s2) = [i2]"
    by (rule filter_key_distinct [OF second(3,4)])
  have "filter (\<lambda>r. key_of r = key_of i2 \<and> deletedAt r = None) (integrations s2)
      = filter (\<lambda>r. deletedAt r = None) (filter (\<lambda>r. key_of r = key_of i2) (integrations s2))"
    by (simp add: conj_commute)
  then have most: "length (filter (\<lambda>r. key_of r = key_of i2 \<and> deletedAt r = None)
      (integrations s2)) \<le> 1"
    by (simp add: one)
  have kin: "key_of i2 \<in> set (map key_of (integrations s1))"
    using first(4) assms(4) by (metis image_eqI set_map)
  from second(1) obtain os2 :: oauth_payload and td2 :: token_data where
    v2: "validateOAuthState env2 s1 st2 = Some os2"
    and x2: "exchangeCodeForTokens env2 prov2 (metadata_p os2 ++ cm2) code2 st2 (codeVerifier os2)
              = Inr td2"
    and k2: "key_of i2 = (userId_p os2, prov2, accountId_t td2)"
    and e2: "vault_encrypt env2 (accessToken_t td2) = Inr (accessToken i2)"
    and r2: "case truthy (refreshToken_t td2) of
               None \<Rightarrow> refreshToken i2 = None
             | Some r \<Rightarrow> \<exists>c. vault_encrypt env2 r = Inr c \<and> refreshToken i2 = Some c"
    and m2: "metadata i2 = metadata_p os2 ++ cm2 ++ metadata_t td2"
    and c2: "oauth_scopes env2 prov2 (metadata_p os2 ++ cm2) = Inr (scopes i2)"
    and u2: "key_of i2 \<in> set (map key_of (integrations s1)) \<longrightarrow>
         (\<exists>old \<in> set (integrations s1). key_of old = key_of i2 \<and>
            integrations s2 = map (\<lambda>x. if x = old then i2 else x) (integrations s1) \<and>
            expiresAt i2 = (case expiresAt_t td2 of None \<Rightarrow> expiresAt old | Some e \<Rightarrow> Some e) \<and>
            id_integration i2 = id_integration old \<and>
            lastSyncAt i2 = lastSyncAt old \<and>
            createdAt i2 = createdAt old) \<and>
         updatedAt i2 = today env2 \<and> deletedAt i2 = None"
    by blast
  from u2 kin obtain old where old: "old \<in> set (integrations s1)" "key_of old = key_of i2"
    "integrations s2 = map (\<lambda>x. if x = old then i2 else x) (integrations s1)"
    "expiresAt i2 = (case expiresAt_t td2 of None \<Rightarrow> expiresAt old | Some e \<Rightarrow> Some e)"
    "id_integration i2 = id_integration old" "lastSyncAt i2 = lastSyncAt old"
    "createdAt i2 = createdAt old"
    and fresh: "updatedAt i2 = today env2" "deletedAt i2 = None"
    by blast
  have "old = i1"
    by (rule key_unique [OF first(3) old(1) first(4)]) (simp add: old(2) assms(4))
  note old' = old(3-7) [unfolded this]
  have block2: "\<exists>os td. validateOAuthState env2 s1 st2 = Some os \<and>
            exchangeCodeForTokens env2 prov2 (metadata_p os ++ cm2) code2 st2 (codeVerifier os)
              = Inr td \<and>
            key_of i2 = (userId_p os, prov2, accountId_t td) \<and>
            vault_encrypt env2 (accessToken_t td) = Inr (accessToken i2) \<and>
            (case truthy (refreshToken_t td) of
               None \<Rightarrow> refreshToken i2 = None
             | Some r \<Rightarrow> \<exists>c. vault_encrypt env2 r = Inr c \<and> refreshToken i2 = Some c) \<and>
            expiresAt i2 = (case expiresAt_t td of None \<Rightarrow> expiresAt i1 | Some e \<Rightarrow> Some e) \<and>
            metadata i2 = metadata_p os ++ cm2 ++ metadata_t td \<and>
            oauth_scopes env2 prov2 (metadata_p os ++ cm2) = Inr (scopes i2)"
    using v2 x2 k2 e2 r2 old'(2) m2 c2 by blast
  from one most old'(1) block2 second(2) fresh old'(3,5,4) first(1,2)
  show ?thesis by (intro conjI)
qed

theorem oauth_callback_idempotent_upsert_witness:
  "map (\<lambda>r. (key_of r, accessToken r, refreshToken r, status r, deletedAt r))
      (integrations (snd demo_twice))
     = [((''u1'', ''shopify'', ''test-store.myshopify.com''), ''enc:shpat-code-2'',
         Some ''enc:refresh-code-2'', ''connected'', None)] \<and>
   map accessToken (integrations (snd demo_once)) = [''enc:shpat-code-1'']"
proof -
  obtain i1 s1 where c1:
    "handleOAuthCallback demo_env empty_state ''shopify'' ''code-1'' ''state-1'' Map.empty = (Inr i1, s1)"
    and s1: "s1 = snd demo_once"
    and i1: "key_of i1 = (''u1'', ''shopify'', ''test-store.myshopify.com'')"
      "accessToken i1 = ''enc:shpat-code-1''"
    using demo_once_ok by (simp add: demo_once_def key_of_def schema_defaults_def)
  obtain i2 s2 where c2:
    "handleOAuthCallback demo_env s1 ''shopify'' ''code-2'' ''state-2'' Map.empty = (Inr i2, s2)"
    and s2: "s2 = snd demo_twice"
    and i2: "key_of i2 = (''u1'', ''shopify'', ''test-store.myshopify.com'')"
      "accessToken i2 = ''enc:shpat-code-2''" "refreshToken i2 = Some ''enc:refresh-code-2''"
    using demo_twice_ok unfolding s1
    by (cases demo_twice) (simp add: demo_twice_def key_of_def schema_defaults_def)
  have d: "distinct (map key_of (integrations empty_state))"
    by (simp add: empty_state_def)
  have new: "key_of i1 \<notin> set (map key_of (integrations empty_state))"
    by (simp add: empty_state_def)
  from oauth_callback_idempotent_upsert [OF d c1 c2] i1(1) i2(1) new
  have t2: "integrations s2 = map (\<lambda>x. if x = i1 then i2 else x) (integrations s1)"
    and "status i2 = ''connected''" and "deletedAt i2 = None"
    and t1: "integrations s1 = integrations empty_state @ [i1]"
    by auto
  then show ?thesis
    by (simp add: i1 i2 s1 [symmetric] s2 [symmetric] empty_state_def)
qed

subsection \<open>Token vault\<close>

















end
